theory Spec2Isabelle
  imports Complex_Main
begin

section \<open>JavaScript values used by the tax-return application\<close>

text \<open>
  A JavaScript number is an IEEE 754 double: a finite value, kept as the rational it
  denotes, or \<open>Infinity\<close>, \<open>-Infinity\<close> or \<open>NaN\<close>. An arithmetic operation on finite
  values takes the exact rational result and rounds it to the nearest double, ties to the
  even significand (\<open>fl\<close>); a decimal literal of the source denotes \<open>fl\<close> of its decimal
  value. Negative zero is identified with zero, so a zero divisor counts as \<open>+0\<close>.

  A string is a list of 8-bit characters, read as the code units U+0000 to U+00FF; input
  text with other code units lies outside the model. The capitals of U+00B5 and U+00FF
  lie beyond that range: \<open>toUpperCase\<close> leaves these two letters as they are, which no
  comparison with a table key observes.
\<close>

datatype js_error = TypeError string | Error string

datatype jsnum = Num rat | PosInf | NegInf | NaN

datatype ext = Fin rat | Infinity

subsection \<open>Rounding to the nearest double\<close>

function ilog2 :: "int \<Rightarrow> int" where
  \<comment> \<open>the position of the leading bit of a positive integer\<close>
  "ilog2 n = (if n < 2 then 0 else 1 + ilog2 (n div 2))"
  by pat_completeness auto
termination by (relation "measure nat") auto

function powInt :: "rat \<Rightarrow> int \<Rightarrow> rat" where
  \<comment> \<open>\<open>b\<close> to the power \<open>n\<close> for \<open>n \<ge> 0\<close>, by repeated squaring\<close>
  "powInt b n = (if n \<le> 0 then 1 else if even n then powInt b (n div 2) * powInt b (n div 2)
                 else b * (powInt b (n div 2) * powInt b (n div 2)))"
  by pat_completeness auto
termination by (relation "measure (\<lambda>(b, n). nat n)") auto

declare ilog2.simps [simp del] powInt.simps [simp del]

definition pow2 :: "int \<Rightarrow> rat" where
  "pow2 e = (if 0 \<le> e then powInt 2 e else 1 / powInt 2 (- e))"

definition floorLog2 :: "rat \<Rightarrow> int" where
  \<comment> \<open>for \<open>x > 0\<close> the exponent \<open>e\<close> with \<open>2 ^ e \<le> x < 2 ^ (e + 1)\<close>\<close>
  "floorLog2 x = (let e = ilog2 (fst (quotient_of x)) - ilog2 (snd (quotient_of x))
                  in if x < pow2 e then e - 1 else e)"

definition roundHalfEven :: "rat \<Rightarrow> int" where
  "roundHalfEven x = (let f = \<lfloor>x\<rfloor>; d = x - of_int f
     in if d < 1 / 2 then f else if 1 / 2 < d then f + 1 else if even f then f else f + 1)"

definition flScaled :: "rat \<Rightarrow> int \<Rightarrow> int \<Rightarrow> jsnum" where
  \<comment> \<open>the double with the sign of \<open>x\<close>, significand \<open>m\<close> and exponent \<open>e\<close>; beyond the
      largest double it is an infinity\<close>
  "flScaled x e m =
     (if 1023 < e \<or> (e = 1023 \<and> 2 ^ 53 \<le> m) then (if 0 < x then PosInf else NegInf)
      else Num ((if 0 < x then 1 else - 1) * of_int m * pow2 (e - 52)))"

definition flAt :: "rat \<Rightarrow> int \<Rightarrow> jsnum" where
  "flAt x e = flScaled x e (roundHalfEven (\<bar>x\<bar> / pow2 (e - 52)))"

definition fl :: "rat \<Rightarrow> jsnum" where
  \<comment> \<open>round to nearest, ties to even: 53 bits of significand, exponents from -1022 (below
      that the spacing of the subnormal numbers) to 1023\<close>
  "fl x = (if x = 0 then Num 0 else flAt x (max (floorLog2 \<bar>x\<bar>) (- 1022)))"

subsection \<open>Arithmetic and comparison of numbers\<close>

definition signOf :: "jsnum \<Rightarrow> rat" where
  "signOf x = (case x of Num r \<Rightarrow> sgn r | PosInf \<Rightarrow> 1 | NegInf \<Rightarrow> - 1 | NaN \<Rightarrow> 0)"

definition infOfSign :: "rat \<Rightarrow> jsnum" where
  "infOfSign s = (if 0 < s then PosInf else if s < 0 then NegInf else NaN)"

definition fneg :: "jsnum \<Rightarrow> jsnum" where
  "fneg x = (case x of Num r \<Rightarrow> Num (- r) | PosInf \<Rightarrow> NegInf | NegInf \<Rightarrow> PosInf | NaN \<Rightarrow> NaN)"

fun fadd :: "jsnum \<Rightarrow> jsnum \<Rightarrow> jsnum" where
  "fadd (Num a) (Num b) = fl (a + b)"
| "fadd NaN y = NaN"
| "fadd x NaN = NaN"
| "fadd PosInf NegInf = NaN"
| "fadd NegInf PosInf = NaN"
| "fadd PosInf y = PosInf"
| "fadd x PosInf = PosInf"
| "fadd NegInf y = NegInf"
| "fadd x NegInf = NegInf"

definition fsub :: "jsnum \<Rightarrow> jsnum \<Rightarrow> jsnum" where
  "fsub x y = fadd x (fneg y)"

fun fmul :: "jsnum \<Rightarrow> jsnum \<Rightarrow> jsnum" where
  "fmul (Num a) (Num b) = fl (a * b)"
| "fmul NaN y = NaN"
| "fmul x NaN = NaN"
| "fmul x y = infOfSign (signOf x * signOf y)"

fun fdiv :: "jsnum \<Rightarrow> jsnum \<Rightarrow> jsnum" where
  "fdiv (Num a) (Num b) = (if b = 0 then infOfSign (sgn a) else fl (a / b))"
| "fdiv NaN y = NaN"
| "fdiv x NaN = NaN"
| "fdiv (Num a) y = Num 0"
| "fdiv x (Num b) = infOfSign (signOf x * (if b < 0 then - 1 else 1))"
| "fdiv x y = NaN"

fun jsLe :: "jsnum \<Rightarrow> jsnum \<Rightarrow> bool" where
  \<comment> \<open>\<open>x <= y\<close>\<close>
  "jsLe (Num a) (Num b) = (a \<le> b)"
| "jsLe NaN y = False"
| "jsLe x NaN = False"
| "jsLe NegInf y = True"
| "jsLe x PosInf = True"
| "jsLe x y = False"

definition jsLt :: "jsnum \<Rightarrow> jsnum \<Rightarrow> bool" where
  \<comment> \<open>\<open>x < y\<close>; \<open>x > y\<close> is \<open>jsLt y x\<close>\<close>
  "jsLt x y = (jsLe x y \<and> x \<noteq> y)"

definition jsNotEqual :: "jsnum \<Rightarrow> jsnum \<Rightarrow> bool" where
  \<comment> \<open>\<open>x !== y\<close> on numbers\<close>
  "jsNotEqual x y = (x = NaN \<or> y = NaN \<or> x \<noteq> y)"

definition mathMin2 :: "jsnum \<Rightarrow> jsnum \<Rightarrow> jsnum" where
  \<comment> \<open>\<open>Math.min(x, y)\<close>\<close>
  "mathMin2 x y = (if x = NaN \<or> y = NaN then NaN else if jsLe x y then x else y)"

definition mathMax2 :: "jsnum \<Rightarrow> jsnum \<Rightarrow> jsnum" where
  \<comment> \<open>\<open>Math.max(x, y)\<close>\<close>
  "mathMax2 x y = (if x = NaN \<or> y = NaN then NaN else if jsLe x y then y else x)"

definition mathAbs :: "jsnum \<Rightarrow> jsnum" where
  "mathAbs x = (case x of Num r \<Rightarrow> Num \<bar>r\<bar> | PosInf \<Rightarrow> PosInf | NegInf \<Rightarrow> PosInf | NaN \<Rightarrow> NaN)"

definition mathRound :: "jsnum \<Rightarrow> jsnum" where
  \<comment> \<open>\<open>Math.round\<close>: the nearest integer, ties towards plus infinity\<close>
  "mathRound x = (case x of Num r \<Rightarrow> Num (of_int \<lfloor>r + 1 / 2\<rfloor>) | _ \<Rightarrow> x)"

definition mathFloor :: "jsnum \<Rightarrow> jsnum" where
  "mathFloor x = (case x of Num r \<Rightarrow> Num (of_int \<lfloor>r\<rfloor>) | _ \<Rightarrow> x)"

definition orZero :: "jsnum \<Rightarrow> jsnum" where
  \<comment> \<open>\<open>n || 0\<close>\<close>
  "orZero n = (if n = Num 0 \<or> n = NaN then Num 0 else n)"

definition orElse :: "jsnum \<Rightarrow> jsnum \<Rightarrow> jsnum" where
  \<comment> \<open>\<open>n || m\<close>\<close>
  "orElse n m = (if n = Num 0 \<or> n = NaN then m else n)"

definition roundCents :: "jsnum \<Rightarrow> jsnum" where
  \<comment> \<open>\<open>Math.round(x * 100) / 100\<close>\<close>
  "roundCents x = fdiv (mathRound (fmul x (Num 100))) (Num 100)"

subsection \<open>Strings\<close>

definition upperLetters :: string where
  "upperLetters = ''ABCDEFGHIJKLMNOPQRSTUVWXYZ''"

definition lowerLetters :: string where
  "lowerLetters = ''abcdefghijklmnopqrstuvwxyz''"

definition upperLatin :: string where
  \<comment> \<open>the capital letters from U+00C0 to U+00DE (U+00D7 is the multiplication sign)\<close>
  "upperLatin = [CHR 0xC0, CHR 0xC1, CHR 0xC2, CHR 0xC3, CHR 0xC4, CHR 0xC5, CHR 0xC6, CHR 0xC7,
                 CHR 0xC8, CHR 0xC9, CHR 0xCA, CHR 0xCB, CHR 0xCC, CHR 0xCD, CHR 0xCE, CHR 0xCF,
                 CHR 0xD0, CHR 0xD1, CHR 0xD2, CHR 0xD3, CHR 0xD4, CHR 0xD5, CHR 0xD6,
                 CHR 0xD8, CHR 0xD9, CHR 0xDA, CHR 0xDB, CHR 0xDC, CHR 0xDD, CHR 0xDE]"

definition lowerLatin :: string where
  \<comment> \<open>the small letters from U+00E0 to U+00FE (U+00F7 is the division sign)\<close>
  "lowerLatin = [CHR 0xE0, CHR 0xE1, CHR 0xE2, CHR 0xE3, CHR 0xE4, CHR 0xE5, CHR 0xE6, CHR 0xE7,
                 CHR 0xE8, CHR 0xE9, CHR 0xEA, CHR 0xEB, CHR 0xEC, CHR 0xED, CHR 0xEE, CHR 0xEF,
                 CHR 0xF0, CHR 0xF1, CHR 0xF2, CHR 0xF3, CHR 0xF4, CHR 0xF5, CHR 0xF6,
                 CHR 0xF8, CHR 0xF9, CHR 0xFA, CHR 0xFB, CHR 0xFC, CHR 0xFD, CHR 0xFE]"

definition toLowerChar :: "char \<Rightarrow> char" where
  "toLowerChar c = (case map_of (zip (upperLetters @ upperLatin) (lowerLetters @ lowerLatin)) c of
                      Some d \<Rightarrow> d | None \<Rightarrow> c)"

definition toUpperChar :: "char \<Rightarrow> string" where
  \<comment> \<open>the capital of U+00DF, the sharp s, is \<open>SS\<close>\<close>
  "toUpperChar c =
     (if c = CHR 0xDF then ''SS''
      else (case map_of (zip (lowerLetters @ lowerLatin) (upperLetters @ upperLatin)) c of
              Some d \<Rightarrow> [d] | None \<Rightarrow> [c]))"

definition toLowerCase :: "string \<Rightarrow> string" where
  "toLowerCase s = map toLowerChar s"

definition toUpperCase :: "string \<Rightarrow> string" where
  "toUpperCase s = concat (map toUpperChar s)"

definition isWhitespace :: "char \<Rightarrow> bool" where
  \<comment> \<open>white space and line terminators up to U+00FF, the members of \<open>\s\<close>: tab, line feed,
      vertical tab, form feed, carriage return, space, no-break space\<close>
  "isWhitespace c = (c \<in> set [CHR 0x09, CHR 0x0A, CHR 0x0B, CHR 0x0C, CHR 0x0D, CHR '' '', CHR 0xA0])"

definition trim :: "string \<Rightarrow> string" where
  "trim s = rev (dropWhile isWhitespace (rev (dropWhile isWhitespace s)))"

section \<open>State tax reference data (state-tax-data)\<close>

record StateTaxBracket =
  minB :: rat
  maxB :: ext
  rate :: rat

record StateStandardDeduction =
  single :: rat
  marriedFilingJointly :: rat
  marriedFilingSeparately :: rat
  headOfHousehold :: rat
  qualifyingSurvivingSpouse :: "rat option"

record StateTaxInfo =
  stateName :: string
  stateCode :: string
  hasIncomeTax :: bool
  brackets :: "(string \<times> StateTaxBracket list) list"
  standardDeduction :: StateStandardDeduction
  personalExemption :: "rat option"
  stateNotes :: "string option"

definition CA_info :: StateTaxInfo where
  "CA_info = \<lparr>
     stateName = ''California'',
     stateCode = ''CA'',
     hasIncomeTax = True,
     brackets = [
       (''single'', [
          \<lparr>minB = 0, maxB = Fin 10099, rate = 1 / 100\<rparr>,
          \<lparr>minB = 10100, maxB = Fin 23942, rate = 2 / 100\<rparr>,
          \<lparr>minB = 23943, maxB = Fin 37788, rate = 4 / 100\<rparr>,
          \<lparr>minB = 37789, maxB = Fin 52455, rate = 6 / 100\<rparr>,
          \<lparr>minB = 52456, maxB = Fin 66295, rate = 8 / 100\<rparr>,
          \<lparr>minB = 66296, maxB = Fin 338639, rate = 93 / 1000\<rparr>,
          \<lparr>minB = 338640, maxB = Fin 406364, rate = 103 / 1000\<rparr>,
          \<lparr>minB = 406365, maxB = Fin 677278, rate = 113 / 1000\<rparr>,
          \<lparr>minB = 677279, maxB = Infinity, rate = 123 / 1000\<rparr>
        ]),
       (''marriedfilingjointly'', [
          \<lparr>minB = 0, maxB = Fin 20198, rate = 1 / 100\<rparr>,
          \<lparr>minB = 20199, maxB = Fin 47884, rate = 2 / 100\<rparr>,
          \<lparr>minB = 47885, maxB = Fin 75576, rate = 4 / 100\<rparr>,
          \<lparr>minB = 75577, maxB = Fin 104910, rate = 6 / 100\<rparr>,
          \<lparr>minB = 104911, maxB = Fin 132590, rate = 8 / 100\<rparr>,
          \<lparr>minB = 132591, maxB = Fin 677278, rate = 93 / 1000\<rparr>,
          \<lparr>minB = 677279, maxB = Fin 812728, rate = 103 / 1000\<rparr>,
          \<lparr>minB = 812729, maxB = Fin 1354556, rate = 113 / 1000\<rparr>,
          \<lparr>minB = 1354557, maxB = Infinity, rate = 123 / 1000\<rparr>
        ]),
       (''marriedfilingseparately'', [
          \<lparr>minB = 0, maxB = Fin 10099, rate = 1 / 100\<rparr>,
          \<lparr>minB = 10100, maxB = Fin 23942, rate = 2 / 100\<rparr>,
          \<lparr>minB = 23943, maxB = Fin 37788, rate = 4 / 100\<rparr>,
          \<lparr>minB = 37789, maxB = Fin 52455, rate = 6 / 100\<rparr>,
          \<lparr>minB = 52456, maxB = Fin 66295, rate = 8 / 100\<rparr>,
          \<lparr>minB = 66296, maxB = Fin 338639, rate = 93 / 1000\<rparr>,
          \<lparr>minB = 338640, maxB = Fin 406364, rate = 103 / 1000\<rparr>,
          \<lparr>minB = 406365, maxB = Fin 677278, rate = 113 / 1000\<rparr>,
          \<lparr>minB = 677279, maxB = Infinity, rate = 123 / 1000\<rparr>
        ]),
       (''headofhousehold'', [
          \<lparr>minB = 0, maxB = Fin 20212, rate = 1 / 100\<rparr>,
          \<lparr>minB = 20213, maxB = Fin 47887, rate = 2 / 100\<rparr>,
          \<lparr>minB = 47888, maxB = Fin 61214, rate = 4 / 100\<rparr>,
          \<lparr>minB = 61215, maxB = Fin 75768, rate = 6 / 100\<rparr>,
          \<lparr>minB = 75769, maxB = Fin 90563, rate = 8 / 100\<rparr>,
          \<lparr>minB = 90564, maxB = Fin 460547, rate = 93 / 1000\<rparr>,
          \<lparr>minB = 460548, maxB = Fin 552658, rate = 103 / 1000\<rparr>,
          \<lparr>minB = 552659, maxB = Fin 921095, rate = 113 / 1000\<rparr>,
          \<lparr>minB = 921096, maxB = Infinity, rate = 123 / 1000\<rparr>
        ])
     ],
     standardDeduction = \<lparr>
       single = 5202,
       marriedFilingJointly = 10404,
       marriedFilingSeparately = 5202,
       headOfHousehold = 10404,
       qualifyingSurvivingSpouse = None \<rparr>,
     personalExemption = None,
     stateNotes = None \<rparr>"

definition NY_info :: StateTaxInfo where
  "NY_info = \<lparr>
     stateName = ''New York'',
     stateCode = ''NY'',
     hasIncomeTax = True,
     brackets = [
       (''single'', [
          \<lparr>minB = 0, maxB = Fin 8500, rate = 4 / 100\<rparr>,
          \<lparr>minB = 8501, maxB = Fin 11700, rate = 45 / 1000\<rparr>,
          \<lparr>minB = 11701, maxB = Fin 13900, rate = 525 / 10000\<rparr>,
          \<lparr>minB = 13901, maxB = Fin 80650, rate = 55 / 1000\<rparr>,
          \<lparr>minB = 80651, maxB = Fin 215400, rate = 6 / 100\<rparr>,
          \<lparr>minB = 215401, maxB = Fin 1077550, rate = 685 / 10000\<rparr>,
          \<lparr>minB = 1077551, maxB = Fin 5000000, rate = 965 / 10000\<rparr>,
          \<lparr>minB = 5000001, maxB = Fin 25000000, rate = 103 / 1000\<rparr>,
          \<lparr>minB = 25000001, maxB = Infinity, rate = 109 / 1000\<rparr>
        ]),
       (''marriedfilingjointly'', [
          \<lparr>minB = 0, maxB = Fin 17150, rate = 4 / 100\<rparr>,
          \<lparr>minB = 17151, maxB = Fin 23600, rate = 45 / 1000\<rparr>,
          \<lparr>minB = 23601, maxB = Fin 27900, rate = 525 / 10000\<rparr>,
          \<lparr>minB = 27901, maxB = Fin 161550, rate = 55 / 1000\<rparr>,
          \<lparr>minB = 161551, maxB = Fin 323200, rate = 6 / 100\<rparr>,
          \<lparr>minB = 323201, maxB = Fin 2155350, rate = 685 / 10000\<rparr>,
          \<lparr>minB = 2155351, maxB = Fin 5000000, rate = 965 / 10000\<rparr>,
          \<lparr>minB = 5000001, maxB = Fin 25000000, rate = 103 / 1000\<rparr>,
          \<lparr>minB = 25000001, maxB = Infinity, rate = 109 / 1000\<rparr>
        ]),
       (''marriedfilingseparately'', [
          \<lparr>minB = 0, maxB = Fin 8500, rate = 4 / 100\<rparr>,
          \<lparr>minB = 8501, maxB = Fin 11700, rate = 45 / 1000\<rparr>,
          \<lparr>minB = 11701, maxB = Fin 13900, rate = 525 / 10000\<rparr>,
          \<lparr>minB = 13901, maxB = Fin 80650, rate = 55 / 1000\<rparr>,
          \<lparr>minB = 80651, maxB = Fin 215400, rate = 6 / 100\<rparr>,
          \<lparr>minB = 215401, maxB = Fin 1077550, rate = 685 / 10000\<rparr>,
          \<lparr>minB = 1077551, maxB = Fin 5000000, rate = 965 / 10000\<rparr>,
          \<lparr>minB = 5000001, maxB = Fin 25000000, rate = 103 / 1000\<rparr>,
          \<lparr>minB = 25000001, maxB = Infinity, rate = 109 / 1000\<rparr>
        ]),
       (''headofhousehold'', [
          \<lparr>minB = 0, maxB = Fin 12800, rate = 4 / 100\<rparr>,
          \<lparr>minB = 12801, maxB = Fin 17650, rate = 45 / 1000\<rparr>,
          \<lparr>minB = 17651, maxB = Fin 20900, rate = 525 / 10000\<rparr>,
          \<lparr>minB = 20901, maxB = Fin 107650, rate = 55 / 1000\<rparr>,
          \<lparr>minB = 107651, maxB = Fin 269300, rate = 6 / 100\<rparr>,
          \<lparr>minB = 269301, maxB = Fin 1616450, rate = 685 / 10000\<rparr>,
          \<lparr>minB = 1616451, maxB = Fin 5000000, rate = 965 / 10000\<rparr>,
          \<lparr>minB = 5000001, maxB = Fin 25000000, rate = 103 / 1000\<rparr>,
          \<lparr>minB = 25000001, maxB = Infinity, rate = 109 / 1000\<rparr>
        ])
     ],
     standardDeduction = \<lparr>
       single = 8000,
       marriedFilingJointly = 16050,
       marriedFilingSeparately = 8000,
       headOfHousehold = 11200,
       qualifyingSurvivingSpouse = None \<rparr>,
     personalExemption = None,
     stateNotes = None \<rparr>"

definition TX_info :: StateTaxInfo where
  "TX_info = \<lparr>
     stateName = ''Texas'',
     stateCode = ''TX'',
     hasIncomeTax = False,
     brackets = [],
     standardDeduction = \<lparr>
       single = 0,
       marriedFilingJointly = 0,
       marriedFilingSeparately = 0,
       headOfHousehold = 0,
       qualifyingSurvivingSpouse = None \<rparr>,
     personalExemption = None,
     stateNotes = Some ''Texas has no state income tax'' \<rparr>"

definition FL_info :: StateTaxInfo where
  "FL_info = \<lparr>
     stateName = ''Florida'',
     stateCode = ''FL'',
     hasIncomeTax = False,
     brackets = [],
     standardDeduction = \<lparr>
       single = 0,
       marriedFilingJointly = 0,
       marriedFilingSeparately = 0,
       headOfHousehold = 0,
       qualifyingSurvivingSpouse = None \<rparr>,
     personalExemption = None,
     stateNotes = Some ''Florida has no state income tax'' \<rparr>"

definition IL_info :: StateTaxInfo where
  "IL_info = \<lparr>
     stateName = ''Illinois'',
     stateCode = ''IL'',
     hasIncomeTax = True,
     brackets = [
       (''single'', [
          \<lparr>minB = 0, maxB = Infinity, rate = 495 / 10000\<rparr>
        ]),
       (''marriedfilingjointly'', [
          \<lparr>minB = 0, maxB = Infinity, rate = 495 / 10000\<rparr>
        ]),
       (''marriedfilingseparately'', [
          \<lparr>minB = 0, maxB = Infinity, rate = 495 / 10000\<rparr>
        ]),
       (''headofhousehold'', [
          \<lparr>minB = 0, maxB = Infinity, rate = 495 / 10000\<rparr>
        ])
     ],
     standardDeduction = \<lparr>
       single = 2425,
       marriedFilingJointly = 4850,
       marriedFilingSeparately = 2425,
       headOfHousehold = 2425,
       qualifyingSurvivingSpouse = None \<rparr>,
     personalExemption = Some (2775),
     stateNotes = None \<rparr>"

definition PA_info :: StateTaxInfo where
  "PA_info = \<lparr>
     stateName = ''Pennsylvania'',
     stateCode = ''PA'',
     hasIncomeTax = True,
     brackets = [
       (''single'', [
          \<lparr>minB = 0, maxB = Infinity, rate = 307 / 10000\<rparr>
        ]),
       (''marriedfilingjointly'', [
          \<lparr>minB = 0, maxB = Infinity, rate = 307 / 10000\<rparr>
        ]),
       (''marriedfilingseparately'', [
          \<lparr>minB = 0, maxB = Infinity, rate = 307 / 10000\<rparr>
        ]),
       (''headofhousehold'', [
          \<lparr>minB = 0, maxB = Infinity, rate = 307 / 10000\<rparr>
        ])
     ],
     standardDeduction = \<lparr>
       single = 0,
       marriedFilingJointly = 0,
       marriedFilingSeparately = 0,
       headOfHousehold = 0,
       qualifyingSurvivingSpouse = None \<rparr>,
     personalExemption = None,
     stateNotes = None \<rparr>"

definition OH_info :: StateTaxInfo where
  "OH_info = \<lparr>
     stateName = ''Ohio'',
     stateCode = ''OH'',
     hasIncomeTax = True,
     brackets = [
       (''single'', [
          \<lparr>minB = 0, maxB = Fin 26050, rate = 0\<rparr>,
          \<lparr>minB = 26051, maxB = Fin 46100, rate = 285 / 10000\<rparr>,
          \<lparr>minB = 46101, maxB = Fin 92150, rate = 333 / 10000\<rparr>,
          \<lparr>minB = 92151, maxB = Fin 115300, rate = 380 / 10000\<rparr>,
          \<lparr>minB = 115301, maxB = Infinity, rate = 399 / 10000\<rparr>
        ]),
       (''marriedfilingjointly'', [
          \<lparr>minB = 0, maxB = Fin 26050, rate = 0\<rparr>,
          \<lparr>minB = 26051, maxB = Fin 46100, rate = 285 / 10000\<rparr>,
          \<lparr>minB = 46101, maxB = Fin 92150, rate = 333 / 10000\<rparr>,
          \<lparr>minB = 92151, maxB = Fin 115300, rate = 380 / 10000\<rparr>,
          \<lparr>minB = 115301, maxB = Infinity, rate = 399 / 10000\<rparr>
        ]),
       (''marriedfilingseparately'', [
          \<lparr>minB = 0, maxB = Fin 26050, rate = 0\<rparr>,
          \<lparr>minB = 26051, maxB = Fin 46100, rate = 285 / 10000\<rparr>,
          \<lparr>minB = 46101, maxB = Fin 92150, rate = 333 / 10000\<rparr>,
          \<lparr>minB = 92151, maxB = Fin 115300, rate = 380 / 10000\<rparr>,
          \<lparr>minB = 115301, maxB = Infinity, rate = 399 / 10000\<rparr>
        ]),
       (''headofhousehold'', [
          \<lparr>minB = 0, maxB = Fin 26050, rate = 0\<rparr>,
          \<lparr>minB = 26051, maxB = Fin 46100, rate = 285 / 10000\<rparr>,
          \<lparr>minB = 46101, maxB = Fin 92150, rate = 333 / 10000\<rparr>,
          \<lparr>minB = 92151, maxB = Fin 115300, rate = 380 / 10000\<rparr>,
          \<lparr>minB = 115301, maxB = Infinity, rate = 399 / 10000\<rparr>
        ])
     ],
     standardDeduction = \<lparr>
       single = 0,
       marriedFilingJointly = 0,
       marriedFilingSeparately = 0,
       headOfHousehold = 0,
       qualifyingSurvivingSpouse = None \<rparr>,
     personalExemption = None,
     stateNotes = None \<rparr>"

definition GA_info :: StateTaxInfo where
  "GA_info = \<lparr>
     stateName = ''Georgia'',
     stateCode = ''GA'',
     hasIncomeTax = True,
     brackets = [
       (''single'', [
          \<lparr>minB = 0, maxB = Fin 750, rate = 1 / 100\<rparr>,
          \<lparr>minB = 751, maxB = Fin 2250, rate = 2 / 100\<rparr>,
          \<lparr>minB = 2251, maxB = Fin 3750, rate = 3 / 100\<rparr>,
          \<lparr>minB = 3751, maxB = Fin 5250, rate = 4 / 100\<rparr>,
          \<lparr>minB = 5251, maxB = Fin 7000, rate = 5 / 100\<rparr>,
          \<lparr>minB = 7001, maxB = Infinity, rate = 575 / 10000\<rparr>
        ]),
       (''marriedfilingjointly'', [
          \<lparr>minB = 0, maxB = Fin 1000, rate = 1 / 100\<rparr>,
          \<lparr>minB = 1001, maxB = Fin 3000, rate = 2 / 100\<rparr>,
          \<lparr>minB = 3001, maxB = Fin 5000, rate = 3 / 100\<rparr>,
          \<lparr>minB = 5001, maxB = Fin 7000, rate = 4 / 100\<rparr>,
          \<lparr>minB = 7001, maxB = Fin 10000, rate = 5 / 100\<rparr>,
          \<lparr>minB = 10001, maxB = Infinity, rate = 575 / 10000\<rparr>
        ]),
       (''marriedfilingseparately'', [
          \<lparr>minB = 0, maxB = Fin 500, rate = 1 / 100\<rparr>,
          \<lparr>minB = 501, maxB = Fin 1500, rate = 2 / 100\<rparr>,
          \<lparr>minB = 1501, maxB = Fin 2500, rate = 3 / 100\<rparr>,
          \<lparr>minB = 2501, maxB = Fin 3500, rate = 4 / 100\<rparr>,
          \<lparr>minB = 3501, maxB = Fin 5000, rate = 5 / 100\<rparr>,
          \<lparr>minB = 5001, maxB = Infinity, rate = 575 / 10000\<rparr>
        ]),
       (''headofhousehold'', [
          \<lparr>minB = 0, maxB = Fin 1000, rate = 1 / 100\<rparr>,
          \<lparr>minB = 1001, maxB = Fin 3000, rate = 2 / 100\<rparr>,
          \<lparr>minB = 3001, maxB = Fin 5000, rate = 3 / 100\<rparr>,
          \<lparr>minB = 5001, maxB = Fin 7000, rate = 4 / 100\<rparr>,
          \<lparr>minB = 7001, maxB = Fin 10000, rate = 5 / 100\<rparr>,
          \<lparr>minB = 10001, maxB = Infinity, rate = 575 / 10000\<rparr>
        ])
     ],
     standardDeduction = \<lparr>
       single = 12000,
       marriedFilingJointly = 24000,
       marriedFilingSeparately = 12000,
       headOfHousehold = 18000,
       qualifyingSurvivingSpouse = None \<rparr>,
     personalExemption = Some (2700),
     stateNotes = None \<rparr>"

definition NC_info :: StateTaxInfo where
  "NC_info = \<lparr>
     stateName = ''North Carolina'',
     stateCode = ''NC'',
     hasIncomeTax = True,
     brackets = [
       (''single'', [
          \<lparr>minB = 0, maxB = Infinity, rate = 475 / 10000\<rparr>
        ]),
       (''marriedfilingjointly'', [
          \<lparr>minB = 0, maxB = Infinity, rate = 475 / 10000\<rparr>
        ]),
       (''marriedfilingseparately'', [
          \<lparr>minB = 0, maxB = Infinity, rate = 475 / 10000\<rparr>
        ]),
       (''headofhousehold'', [
          \<lparr>minB = 0, maxB = Infinity, rate = 475 / 10000\<rparr>
        ])
     ],
     standardDeduction = \<lparr>
       single = 12750,
       marriedFilingJointly = 25500,
       marriedFilingSeparately = 12750,
       headOfHousehold = 19125,
       qualifyingSurvivingSpouse = None \<rparr>,
     personalExemption = None,
     stateNotes = None \<rparr>"

definition MI_info :: StateTaxInfo where
  "MI_info = \<lparr>
     stateName = ''Michigan'',
     stateCode = ''MI'',
     hasIncomeTax = True,
     brackets = [
       (''single'', [
          \<lparr>minB = 0, maxB = Infinity, rate = 425 / 10000\<rparr>
        ]),
       (''marriedfilingjointly'', [
          \<lparr>minB = 0, maxB = Infinity, rate = 425 / 10000\<rparr>
        ]),
       (''marriedfilingseparately'', [
          \<lparr>minB = 0, maxB = Infinity, rate = 425 / 10000\<rparr>
        ]),
       (''headofhousehold'', [
          \<lparr>minB = 0, maxB = Infinity, rate = 425 / 10000\<rparr>
        ])
     ],
     standardDeduction = \<lparr>
       single = 5100,
       marriedFilingJointly = 10200,
       marriedFilingSeparately = 5100,
       headOfHousehold = 5100,
       qualifyingSurvivingSpouse = None \<rparr>,
     personalExemption = Some (5100),
     stateNotes = None \<rparr>"

definition WA_info :: StateTaxInfo where
  "WA_info = \<lparr>
     stateName = ''Washington'',
     stateCode = ''WA'',
     hasIncomeTax = False,
     brackets = [],
     standardDeduction = \<lparr>
       single = 0,
       marriedFilingJointly = 0,
       marriedFilingSeparately = 0,
       headOfHousehold = 0,
       qualifyingSurvivingSpouse = None \<rparr>,
     personalExemption = None,
     stateNotes = Some ''Washington has no state income tax'' \<rparr>"

definition NV_info :: StateTaxInfo where
  "NV_info = \<lparr>
     stateName = ''Nevada'',
     stateCode = ''NV'',
     hasIncomeTax = False,
     brackets = [],
     standardDeduction = \<lparr>
       single = 0,
       marriedFilingJointly = 0,
       marriedFilingSeparately = 0,
       headOfHousehold = 0,
       qualifyingSurvivingSpouse = None \<rparr>,
     personalExemption = None,
     stateNotes = Some ''Nevada has no state income tax'' \<rparr>"

definition SD_info :: StateTaxInfo where
  "SD_info = \<lparr>
     stateName = ''South Dakota'',
     stateCode = ''SD'',
     hasIncomeTax = False,
     brackets = [],
     standardDeduction = \<lparr>
       single = 0,
       marriedFilingJointly = 0,
       marriedFilingSeparately = 0,
       headOfHousehold = 0,
       qualifyingSurvivingSpouse = None \<rparr>,
     personalExemption = None,
     stateNotes = Some ''South Dakota has no state income tax'' \<rparr>"

definition TN_info :: StateTaxInfo where
  "TN_info = \<lparr>
     stateName = ''Tennessee'',
     stateCode = ''TN'',
     hasIncomeTax = False,
     brackets = [],
     standardDeduction = \<lparr>
       single = 0,
       marriedFilingJointly = 0,
       marriedFilingSeparately = 0,
       headOfHousehold = 0,
       qualifyingSurvivingSpouse = None \<rparr>,
     personalExemption = None,
     stateNotes = Some ''Tennessee has no state income tax (as of 2021)'' \<rparr>"

definition WY_info :: StateTaxInfo where
  "WY_info = \<lparr>
     stateName = ''Wyoming'',
     stateCode = ''WY'',
     hasIncomeTax = False,
     brackets = [],
     standardDeduction = \<lparr>
       single = 0,
       marriedFilingJointly = 0,
       marriedFilingSeparately = 0,
       headOfHousehold = 0,
       qualifyingSurvivingSpouse = None \<rparr>,
     personalExemption = None,
     stateNotes = Some ''Wyoming has no state income tax'' \<rparr>"

definition UT_info :: StateTaxInfo where
  "UT_info = \<lparr>
     stateName = ''Utah'',
     stateCode = ''UT'',
     hasIncomeTax = True,
     brackets = [
       (''single'', [
          \<lparr>minB = 0, maxB = Infinity, rate = 485 / 10000\<rparr>
        ]),
       (''marriedfilingjointly'', [
          \<lparr>minB = 0, maxB = Infinity, rate = 485 / 10000\<rparr>
        ]),
       (''marriedfilingseparately'', [
          \<lparr>minB = 0, maxB = Infinity, rate = 485 / 10000\<rparr>
        ]),
       (''headofhousehold'', [
          \<lparr>minB = 0, maxB = Infinity, rate = 485 / 10000\<rparr>
        ])
     ],
     standardDeduction = \<lparr>
       single = 3100,
       marriedFilingJointly = 6200,
       marriedFilingSeparately = 3100,
       headOfHousehold = 4550,
       qualifyingSurvivingSpouse = None \<rparr>,
     personalExemption = Some (1941),
     stateNotes = Some ''Utah has a flat 4.85% income tax rate with state-specific standard deductions'' \<rparr>"

definition AZ_info :: StateTaxInfo where
  "AZ_info = \<lparr>
     stateName = ''Arizona'',
     stateCode = ''AZ'',
     hasIncomeTax = True,
     brackets = [
       (''single'', [
          \<lparr>minB = 0, maxB = Fin 29200, rate = 255 / 10000\<rparr>,
          \<lparr>minB = 29201, maxB = Fin 73400, rate = 288 / 10000\<rparr>,
          \<lparr>minB = 73401, maxB = Fin 146800, rate = 336 / 10000\<rparr>,
          \<lparr>minB = 146801, maxB = Fin 366200, rate = 424 / 10000\<rparr>,
          \<lparr>minB = 366201, maxB = Infinity, rate = 45 / 1000\<rparr>
        ]),
       (''marriedfilingjointly'', [
          \<lparr>minB = 0, maxB = Fin 58400, rate = 255 / 10000\<rparr>,
          \<lparr>minB = 58401, maxB = Fin 146800, rate = 288 / 10000\<rparr>,
          \<lparr>minB = 146801, maxB = Fin 293600, rate = 336 / 10000\<rparr>,
          \<lparr>minB = 293601, maxB = Fin 732400, rate = 424 / 10000\<rparr>,
          \<lparr>minB = 732401, maxB = Infinity, rate = 45 / 1000\<rparr>
        ]),
       (''marriedfilingseparately'', [
          \<lparr>minB = 0, maxB = Fin 29200, rate = 255 / 10000\<rparr>,
          \<lparr>minB = 29201, maxB = Fin 73400, rate = 288 / 10000\<rparr>,
          \<lparr>minB = 73401, maxB = Fin 146800, rate = 336 / 10000\<rparr>,
          \<lparr>minB = 146801, maxB = Fin 366200, rate = 424 / 10000\<rparr>,
          \<lparr>minB = 366201, maxB = Infinity, rate = 45 / 1000\<rparr>
        ]),
       (''headofhousehold'', [
          \<lparr>minB = 0, maxB = Fin 43850, rate = 255 / 10000\<rparr>,
          \<lparr>minB = 43851, maxB = Fin 110100, rate = 288 / 10000\<rparr>,
          \<lparr>minB = 110101, maxB = Fin 220200, rate = 336 / 10000\<rparr>,
          \<lparr>minB = 220201, maxB = Fin 549300, rate = 424 / 10000\<rparr>,
          \<lparr>minB = 549301, maxB = Infinity, rate = 45 / 1000\<rparr>
        ])
     ],
     standardDeduction = \<lparr>
       single = 14600,
       marriedFilingJointly = 29200,
       marriedFilingSeparately = 14600,
       headOfHousehold = 21900,
       qualifyingSurvivingSpouse = None \<rparr>,
     personalExemption = Some (2400),
     stateNotes = Some ''Arizona has progressive tax brackets ranging from 2.55% to 4.5%'' \<rparr>"

definition STATE_TAX_DATA :: "(string \<times> StateTaxInfo) list" where
  "STATE_TAX_DATA = [(''CA'', CA_info),
     (''NY'', NY_info),
     (''TX'', TX_info),
     (''FL'', FL_info),
     (''IL'', IL_info),
     (''PA'', PA_info),
     (''OH'', OH_info),
     (''GA'', GA_info),
     (''NC'', NC_info),
     (''MI'', MI_info),
     (''WA'', WA_info),
     (''NV'', NV_info),
     (''SD'', SD_info),
     (''TN'', TN_info),
     (''WY'', WY_info),
     (''UT'', UT_info),
     (''AZ'', AZ_info)]"

definition getStateInfo :: "string \<Rightarrow> StateTaxInfo option" where
  \<comment> \<open>\<open>STATE_TAX_DATA[stateCode?.toUpperCase()]\<close>; no member inherited from
      \<open>Object.prototype\<close> has an upper-case name, so only own keys are found\<close>
  "getStateInfo code = map_of STATE_TAX_DATA (toUpperCase code)"

section \<open>State tax calculation (state-tax-calculations)\<close>

text \<open>
  A property read on an object literal finds an own property, a member inherited from
  \<open>Object.prototype\<close>, or nothing. The bracket tables are indexed by
  \<open>filingStatus.toLowerCase().replace(/_/g, '')\<close>; the only inherited member whose name
  is lower-case without underscores is \<open>constructor\<close>, a function of \<open>length\<close> 1
  that is not iterable.
\<close>

datatype 'a member = Own 'a | Inherited | Absent

definition normalizeFilingStatus :: "string \<Rightarrow> string" where
  "normalizeFilingStatus filingStatus = filter (\<lambda>c. c \<noteq> CHR ''_'') (toLowerCase filingStatus)"

definition lookupBrackets :: "StateTaxInfo \<Rightarrow> string \<Rightarrow> StateTaxBracket list member" where
  "lookupBrackets stateInfo key =
     (case map_of (brackets stateInfo) key of
        Some bs \<Rightarrow> Own bs
      | None \<Rightarrow> if key = ''constructor'' then Inherited else Absent)"

definition extNum :: "ext \<Rightarrow> jsnum" where
  \<comment> \<open>the number a bracket ceiling denotes\<close>
  "extNum m = (case m of Fin r \<Rightarrow> fl r | Infinity \<Rightarrow> PosInf)"

fun bracketLoop :: "jsnum \<Rightarrow> StateTaxBracket list \<Rightarrow> jsnum \<Rightarrow> jsnum" where
  "bracketLoop taxableIncome [] tax = tax"
| "bracketLoop taxableIncome (bracket # rest) tax =
     (if jsLe taxableIncome (fl (minB bracket)) then tax
      else (let taxableInThisBracket =
                  fsub (mathMin2 taxableIncome (extNum (maxB bracket))) (fl (minB bracket))
            in bracketLoop taxableIncome rest (fadd tax (fmul taxableInThisBracket (fl (rate bracket))))))"

definition calculateStateTaxLiability :: "jsnum \<Rightarrow> string \<Rightarrow> string \<Rightarrow> js_error + jsnum" where
  "calculateStateTaxLiability taxableIncome filingStatus stateCode' =
     (case getStateInfo stateCode' of
        None \<Rightarrow> Inr (Num 0)
      | Some stateInfo \<Rightarrow>
          if \<not> hasIncomeTax stateInfo then Inr (Num 0)
          else (case lookupBrackets stateInfo (normalizeFilingStatus filingStatus) of
                  Absent \<Rightarrow> Inr (Num 0)
                | Inherited \<Rightarrow> Inl (TypeError ''brackets is not iterable'')
                | Own bs \<Rightarrow>
                    if length bs = 0 then Inr (Num 0)
                    else Inr (roundCents (bracketLoop taxableIncome bs (Num 0)))))"

definition getStateStandardDeduction :: "string \<Rightarrow> string \<Rightarrow> jsnum" where
  "getStateStandardDeduction filingStatus stateCode' =
     (case getStateInfo stateCode' of
        None \<Rightarrow> Num 0
      | Some stateInfo \<Rightarrow>
          if \<not> hasIncomeTax stateInfo then Num 0
          else (let status = normalizeFilingStatus filingStatus;
                    sd = standardDeduction stateInfo
                in if status = ''single'' then fl (single sd)
                   else if status = ''marriedfilingjointly'' then fl (marriedFilingJointly sd)
                   else if status = ''marriedfilingseparately'' then fl (marriedFilingSeparately sd)
                   else if status = ''headofhousehold'' then fl (headOfHousehold sd)
                   else if status = ''qualifyingsurvivingspouse'' then
                     (case qualifyingSurvivingSpouse sd of
                        None \<Rightarrow> fl (marriedFilingJointly sd)
                      | Some v \<Rightarrow> orElse (fl v) (fl (marriedFilingJointly sd)))
                   else fl (single sd)))"

definition getStatePersonalExemption :: "string \<Rightarrow> jsnum" where
  \<comment> \<open>\<open>stateInfo?.personalExemption || 0\<close>\<close>
  "getStatePersonalExemption stateCode' =
     (case getStateInfo stateCode' of
        None \<Rightarrow> Num 0
      | Some stateInfo \<Rightarrow> (case personalExemption stateInfo of None \<Rightarrow> Num 0 | Some v \<Rightarrow> orZero (fl v)))"

record Dependent =
  qualifiesForCTC :: bool
  qualifiesForEITC :: bool

record StateTaxInput =
  in_adjustedGrossIncome :: jsnum
  in_filingStatus :: string
  in_stateCode :: string
  in_stateItemizedDeductions :: "jsnum option"
  in_dependents :: "Dependent list option"

record StateTaxCalculationResult =
  res_stateCode :: string
  res_stateName :: string
  res_hasIncomeTax :: bool
  stateStandardDeduction :: jsnum
  stateItemizedDeduction :: jsnum
  stateTaxableIncome :: jsnum
  stateTaxLiability :: jsnum
  statePersonalExemption :: jsnum
  stateEffectiveRate :: jsnum
  stateMarginalRate :: jsnum
  res_notes :: "string option"

definition marginalRateLoop :: "jsnum \<Rightarrow> StateTaxBracket list \<Rightarrow> jsnum" where
  "marginalRateLoop income bs =
     foldl (\<lambda>marginalRate bracket.
              if jsLt (fl (minB bracket)) income then fmul (fl (rate bracket)) (Num 100)
              else marginalRate) (Num 0) bs"

definition calculateStateTax :: "StateTaxInput \<Rightarrow> js_error + StateTaxCalculationResult" where
  "calculateStateTax data =
     (let adjustedGrossIncome = in_adjustedGrossIncome data;
          filingStatus = in_filingStatus data;
          code = in_stateCode data;
          stateItemizedDeductions = (case in_stateItemizedDeductions data of None \<Rightarrow> Num 0 | Some v \<Rightarrow> v);
          dependents = (case in_dependents data of None \<Rightarrow> [] | Some ds \<Rightarrow> ds)
      in case getStateInfo code of
           None \<Rightarrow> Inl (Error (''Unsupported state: '' @ code))
         | Some stateInfo \<Rightarrow>
            (let result = \<lparr>
                   res_stateCode = stateCode stateInfo,
                   res_stateName = stateName stateInfo,
                   res_hasIncomeTax = hasIncomeTax stateInfo,
                   stateStandardDeduction = Num 0,
                   stateItemizedDeduction = stateItemizedDeductions,
                   stateTaxableIncome = Num 0,
                   stateTaxLiability = Num 0,
                   statePersonalExemption = getStatePersonalExemption code,
                   stateEffectiveRate = Num 0,
                   stateMarginalRate = Num 0,
                   res_notes = stateNotes stateInfo \<rparr>
             in if \<not> hasIncomeTax stateInfo then Inr result
                else
                  (let r1 = result\<lparr>stateStandardDeduction := getStateStandardDeduction filingStatus code\<rparr>;
                       stateDeduction = mathMax2 (stateStandardDeduction r1) stateItemizedDeductions;
                       personalExemptionTotal =
                         fmul (statePersonalExemption r1)
                           (fadd (Num 1) (Num (of_nat (length dependents))));
                       r2 = r1\<lparr>stateTaxableIncome :=
                                 mathMax2 (Num 0)
                                   (fsub (fsub adjustedGrossIncome stateDeduction) personalExemptionTotal)\<rparr>
                   in case calculateStateTaxLiability (stateTaxableIncome r2) filingStatus code of
                        Inl e \<Rightarrow> Inl e
                      | Inr liability \<Rightarrow>
                         (let r3 = r2\<lparr>stateTaxLiability := liability\<rparr>;
                              r4 = r3\<lparr>stateEffectiveRate :=
                                        (if jsLt (Num 0) adjustedGrossIncome
                                         then fmul (fdiv (stateTaxLiability r3) adjustedGrossIncome) (Num 100)
                                         else Num 0)\<rparr>
                          in case lookupBrackets stateInfo (normalizeFilingStatus filingStatus) of
                               Absent \<Rightarrow> Inr r4
                             | Inherited \<Rightarrow> Inl (TypeError ''brackets is not iterable'')
                             | Own bs \<Rightarrow>
                                 Inr (r4\<lparr>stateMarginalRate :=
                                           marginalRateLoop (stateTaxableIncome r4) bs\<rparr>)))))"

section \<open>Federal calculation with state integration (enhanced-tax-calculations)\<close>

text \<open>
  The module \<open>tax-calculations\<close> (\<open>calculateTaxReturn\<close>, \<open>calculateTaxLiability\<close>,
  \<open>getStandardDeduction\<close> and the type \<open>TaxCalculationResult\<close>) is not part of the
  sources at hand. Its three functions are parameters of the model and may throw; the
  result type lists the fields its users read. The number formatters
  \<open>toLocaleString\<close> and \<open>toFixed\<close> are parameters as well. The pictographs at the
  head of the fixed message texts are written as their UTF-8 bytes; the texts are only
  built and passed on.
\<close>

record TaxCalculationResult =
  grossIncome :: jsnum
  adjustedGrossIncome :: jsnum
  fedStandardDeduction :: jsnum
  itemizedDeduction :: jsnum
  taxableIncome :: jsnum
  taxLiability :: jsnum
  childTaxCredit :: jsnum
  earnedIncomeCredit :: jsnum
  totalCredits :: jsnum
  totalWithholdings :: jsnum
  finalTax :: jsnum
  refundAmount :: jsnum
  amountOwed :: jsnum
  effectiveRate :: jsnum
  marginalRate :: jsnum

record FederalData =
  fd_totalIncome :: jsnum
  fd_filingStatus :: string
  fd_dependents :: "Dependent list"
  fd_itemizedDeductions :: jsnum
  fd_totalWithholdings :: "jsnum option"

record deps =
  calculateTaxReturn :: "FederalData \<Rightarrow> js_error + TaxCalculationResult"
  calculateTaxLiability :: "jsnum \<Rightarrow> string \<Rightarrow> js_error + jsnum"
  getStandardDeduction :: "string \<Rightarrow> js_error + jsnum"
  toLocaleString :: "jsnum \<Rightarrow> string"
  toFixed :: "jsnum \<Rightarrow> nat \<Rightarrow> string"

datatype deduction_method = standard | itemized

record DeductionComparison =
  dc_standardDeduction :: jsnum
  dc_itemizedDeduction :: jsnum
  standardTaxLiability :: jsnum
  itemizedTaxLiability :: jsnum
  recommendedMethod :: deduction_method
  taxSavings :: jsnum
  effectiveStandardRate :: jsnum
  effectiveItemizedRate :: jsnum

record CombinedTaxResult =
  federalTaxableIncome :: jsnum
  federalTaxLiability :: jsnum
  federalEffectiveRate :: jsnum
  federalMarginalRate :: jsnum
  c_stateTax :: StateTaxCalculationResult
  totalTaxLiability :: jsnum
  totalEffectiveRate :: jsnum
  c_totalCredits :: jsnum
  c_totalWithholdings :: jsnum
  c_finalTax :: jsnum
  c_refundAmount :: jsnum
  c_amountOwed :: jsnum

record EnhancedTaxCalculationResult = TaxCalculationResult +
  deductionComparison :: DeductionComparison
  taxOptimizationSuggestions :: "string list"
  stateTax :: "StateTaxCalculationResult option"
  combinedTaxResult :: "CombinedTaxResult option"

record CombinedData =
  cd_adjustedGrossIncome :: jsnum
  cd_federalTaxableIncome :: jsnum
  cd_federalTaxLiability :: jsnum
  cd_federalEffectiveRate :: jsnum
  cd_federalMarginalRate :: jsnum
  cd_filingStatus :: string
  cd_stateCode :: string
  cd_stateItemizedDeductions :: "jsnum option"
  cd_dependents :: "Dependent list option"
  cd_totalCredits :: "jsnum option"
  cd_totalWithholdings :: "jsnum option"

definition calculateCombinedTax :: "CombinedData \<Rightarrow> js_error + CombinedTaxResult" where
  "calculateCombinedTax data =
     (let stateItemizedDeductions = (case cd_stateItemizedDeductions data of None \<Rightarrow> Num 0 | Some v \<Rightarrow> v);
          dependents = (case cd_dependents data of None \<Rightarrow> [] | Some ds \<Rightarrow> ds);
          credits = (case cd_totalCredits data of None \<Rightarrow> Num 0 | Some v \<Rightarrow> v);
          withholdings = (case cd_totalWithholdings data of None \<Rightarrow> Num 0 | Some v \<Rightarrow> v)
      in case calculateStateTax \<lparr>
                in_adjustedGrossIncome = cd_adjustedGrossIncome data,
                in_filingStatus = cd_filingStatus data,
                in_stateCode = cd_stateCode data,
                in_stateItemizedDeductions = Some stateItemizedDeductions,
                in_dependents = Some dependents \<rparr> of
           Inl e \<Rightarrow> Inl e
         | Inr st \<Rightarrow>
            (let total = fadd (cd_federalTaxLiability data) (stateTaxLiability st);
                 totalRate = (if jsLt (Num 0) (cd_adjustedGrossIncome data)
                              then fmul (fdiv total (cd_adjustedGrossIncome data)) (Num 100)
                              else Num 0);
                 final = fsub (fsub total credits) withholdings
             in Inr \<lparr>
                  federalTaxableIncome = cd_federalTaxableIncome data,
                  federalTaxLiability = cd_federalTaxLiability data,
                  federalEffectiveRate = cd_federalEffectiveRate data,
                  federalMarginalRate = cd_federalMarginalRate data,
                  c_stateTax = st,
                  totalTaxLiability = total,
                  totalEffectiveRate = totalRate,
                  c_totalCredits = credits,
                  c_totalWithholdings = withholdings,
                  c_finalTax = final,
                  c_refundAmount = (if jsLt final (Num 0) then mathAbs final else Num 0),
                  c_amountOwed = (if jsLt (Num 0) final then final else Num 0) \<rparr>))"

definition calculateDeductionComparison ::
  "deps \<Rightarrow> jsnum \<Rightarrow> string \<Rightarrow> jsnum \<Rightarrow> Dependent list \<Rightarrow> js_error + DeductionComparison" where
  "calculateDeductionComparison D agi filingStatus itemizedDeductions dependents =
     (case getStandardDeduction D filingStatus of
        Inl e \<Rightarrow> Inl e
      | Inr standardDeduction' \<Rightarrow>
         (let itemizedDeduction' = orZero itemizedDeductions;
              standardTaxableIncome = mathMax2 (Num 0) (fsub agi standardDeduction');
              itemizedTaxableIncome = mathMax2 (Num 0) (fsub agi itemizedDeduction')
          in case calculateTaxLiability D standardTaxableIncome filingStatus of
               Inl e \<Rightarrow> Inl e
             | Inr standardTax \<Rightarrow>
                (case calculateTaxLiability D itemizedTaxableIncome filingStatus of
                   Inl e \<Rightarrow> Inl e
                 | Inr itemizedTax \<Rightarrow>
                     Inr \<lparr>
                       dc_standardDeduction = standardDeduction',
                       dc_itemizedDeduction = itemizedDeduction',
                       standardTaxLiability = standardTax,
                       itemizedTaxLiability = itemizedTax,
                       recommendedMethod = (if jsLt itemizedTax standardTax then itemized else standard),
                       taxSavings = mathAbs (fsub standardTax itemizedTax),
                       effectiveStandardRate =
                         (if jsLt (Num 0) agi then fmul (fdiv standardTax agi) (Num 100) else Num 0),
                       effectiveItemizedRate =
                         (if jsLt (Num 0) agi then fmul (fdiv itemizedTax agi) (Num 100) else Num 0) \<rparr>)))"

definition emoji :: "nat list \<Rightarrow> string" where
  "emoji bytes = map char_of bytes"

fun showNat :: "nat \<Rightarrow> string" where
  "showNat n = (if n < 10 then [char_of (48 + n)] else showNat (n div 10) @ [char_of (48 + n mod 10)])"

definition generateTaxOptimizationSuggestions ::
  "deps \<Rightarrow> DeductionComparison \<Rightarrow> jsnum \<Rightarrow> string \<Rightarrow> Dependent list \<Rightarrow> string list" where
  "generateTaxOptimizationSuggestions D comparison agi filingStatus dependents =
     (let s1 = (if recommendedMethod comparison = itemized then
                  [emoji [0xF0, 0x9F, 0x92, 0xA1] @ '' Itemizing deductions saves you $''
                     @ toLocaleString D (taxSavings comparison) @ '' compared to the standard deduction'']
                else if jsLt (Num 0) (taxSavings comparison) then
                  [emoji [0xF0, 0x9F, 0x92, 0xA1] @ '' The standard deduction saves you $''
                     @ toLocaleString D (taxSavings comparison) @ '' compared to itemizing'']
                else [''Both deduction methods result in the same tax liability'']);
          threshold = fsub (dc_standardDeduction comparison) (dc_itemizedDeduction comparison);
          s2 = (if recommendedMethod comparison = standard \<and> jsLt (Num 0) threshold
                   \<and> jsLt threshold (Num 5000) then
                  [emoji [0xF0, 0x9F, 0x94, 0x8D] @ '' You'' @ [CHR 0x27]
                     @ ''re close to benefiting from itemizing! You need $''
                     @ toLocaleString D threshold @ '' more in deductions to break even'']
                else []);
          s3 = (if filingStatus = ''MARRIED_FILING_SEPARATELY'' then
                  [emoji [0xF0, 0x9F, 0x92, 0xAD]
                     @ '' Consider whether filing jointly with your spouse would result in lower combined taxes'']
                else []);
          childTaxCreditEligible = length (filter qualifiesForCTC dependents);
          eicEligible = length (filter qualifiesForEITC dependents);
          s4 = (if length dependents > 0 \<and> childTaxCreditEligible > 0 then
                  [emoji [0xF0, 0x9F, 0x91, 0xB6] @ '' You may qualify for up to $''
                     @ toLocaleString D (fmul (Num (of_nat childTaxCreditEligible)) (Num 2000)) @ '' in Child Tax Credits'']
                else []);
          s5 = (if length dependents > 0 \<and> eicEligible > 0 then
                  [emoji [0xF0, 0x9F, 0x92, 0xB0] @ '' You may qualify for Earned Income Credit with ''
                     @ showNat eicEligible @ '' qualifying children'']
                else []);
          s6 = (if jsLt (Num 100000) agi then
                  [emoji [0xF0, 0x9F, 0x93, 0x8A]
                     @ '' Consider maximizing retirement contributions to reduce taxable income'']
                else []);
          s7 = (if jsLt agi (Num 50000) then
                  [emoji [0xF0, 0x9F, 0x8E, 0xAF]
                     @ '' Look into the Earned Income Tax Credit and other low-income tax benefits'']
                else [])
      in s1 @ s2 @ s3 @ s4 @ s5 @ s6 @ s7)"

definition calculateEnhancedTaxReturn :: "deps \<Rightarrow> FederalData \<Rightarrow> js_error + EnhancedTaxCalculationResult" where
  "calculateEnhancedTaxReturn D data =
     (case calculateTaxReturn D data of
        Inl e \<Rightarrow> Inl e
      | Inr basicResult \<Rightarrow>
         (case calculateDeductionComparison D (adjustedGrossIncome basicResult) (fd_filingStatus data)
                 (fd_itemizedDeductions data) (fd_dependents data) of
            Inl e \<Rightarrow> Inl e
          | Inr comparison \<Rightarrow>
             (let suggestions = generateTaxOptimizationSuggestions D comparison
                                  (adjustedGrossIncome basicResult) (fd_filingStatus data) (fd_dependents data);
                  optimizedDeduction = (if recommendedMethod comparison = itemized
                                        then dc_itemizedDeduction comparison
                                        else dc_standardDeduction comparison);
                  optimizedTaxableIncome = mathMax2 (Num 0) (fsub (adjustedGrossIncome basicResult) optimizedDeduction)
              in case calculateTaxLiability D optimizedTaxableIncome (fd_filingStatus data) of
                   Inl e \<Rightarrow> Inl e
                 | Inr optimizedTaxLiability \<Rightarrow>
                     Inr (TaxCalculationResult.extend
                            (basicResult\<lparr>
                               taxableIncome := optimizedTaxableIncome,
                               taxLiability := optimizedTaxLiability,
                               finalTax := mathMax2 (Num 0) (fsub optimizedTaxLiability (totalCredits basicResult)),
                               fedStandardDeduction := dc_standardDeduction comparison,
                               itemizedDeduction := dc_itemizedDeduction comparison\<rparr>)
                            (EnhancedTaxCalculationResult.fields comparison suggestions None None)))))"

definition generateStateTaxOptimizationSuggestions ::
  "deps \<Rightarrow> string list \<Rightarrow> StateTaxCalculationResult \<Rightarrow> DeductionComparison \<Rightarrow> string list" where
  "generateStateTaxOptimizationSuggestions D federalSuggestions st comparison =
     (if \<not> res_hasIncomeTax st then
        (emoji [0xF0, 0x9F, 0x92, 0xB0] @ '' Great news! '' @ res_stateName st
           @ '' has no state income tax, saving you money!'') # federalSuggestions
      else
        (let stateSavings = fmul (fsub (stateItemizedDeduction st) (stateStandardDeduction st))
                                 (fdiv (stateMarginalRate st) (Num 100));
             s1 = (if jsLt (Num 0) (stateTaxLiability st) then
                     [emoji [0xF0, 0x9F, 0x93, 0x8D] @ '' '' @ res_stateName st @ '' state tax: $''
                        @ toLocaleString D (stateTaxLiability st) @ '' (''
                        @ toFixed D (stateEffectiveRate st) 2 @ ''% effective rate)'']
                     @ (if jsLt (Num 0) (stateStandardDeduction st)
                           \<and> jsLt (stateStandardDeduction st) (stateItemizedDeduction st)
                           \<and> jsLt (Num 100) stateSavings
                        then [emoji [0xF0, 0x9F, 0x8F, 0x9B, 0xEF, 0xB8, 0x8F] @ '' Itemizing saves $''
                                @ toFixed D stateSavings 0 @ '' on '' @ res_stateName st @ '' state taxes'']
                        else [])
                     @ (if jsLt (Num 5) (stateEffectiveRate st)
                        then [emoji [0xE2, 0x9A, 0xA1] @ '' '' @ res_stateName st
                                @ '' has relatively high state taxes. Consider tax-advantaged retirement contributions.'']
                        else [])
                   else []);
             s2 = (if jsNotEqual (stateStandardDeduction st) (dc_standardDeduction comparison) then
                     [emoji [0xF0, 0x9F, 0x94, 0x84] @ '' Note: '' @ res_stateName st
                        @ '' has different deduction amounts than federal'']
                   else [])
         in federalSuggestions @ s1 @ s2))"

text \<open>
  The state argument of the combined calculation is the detected state. State detection
  returns a state code or, for one address, the function \<open>Object\<close> read from a plain
  object's prototype (see \<open>parseStateFromAddress\<close>); calling \<open>toUpperCase\<close> on that
  function throws inside the state calculation.
\<close>

datatype detected = StateCode string | ObjectConstructor

definition showDetected :: "detected \<Rightarrow> string" where
  \<comment> \<open>the value inside a template literal\<close>
  "showDetected d = (case d of StateCode c \<Rightarrow> c | ObjectConstructor \<Rightarrow> ''function Object() { [native code] }'')"

record TaxData =
  td_totalIncome :: jsnum
  td_filingStatus :: string
  td_dependents :: "Dependent list"
  td_itemizedDeductions :: jsnum
  td_totalWithholdings :: "jsnum option"
  td_stateCode :: "detected option"
  td_stateItemizedDeductions :: "jsnum option"

definition federalOnlyFallback :: "EnhancedTaxCalculationResult \<Rightarrow> detected \<Rightarrow> EnhancedTaxCalculationResult" where
  \<comment> \<open>the \<open>catch\<close> branch of \<open>calculateEnhancedTaxReturnWithState\<close>\<close>
  "federalOnlyFallback federalResult code =
     federalResult\<lparr>taxOptimizationSuggestions :=
       taxOptimizationSuggestions federalResult @
       [emoji [0xE2, 0x9A, 0xA0, 0xEF, 0xB8, 0x8F] @ '' State tax calculation failed for ''
          @ showDetected code @ ''. Showing federal taxes only.'']\<rparr>"

definition stateCalculationAttempt ::
  "EnhancedTaxCalculationResult \<Rightarrow> TaxData \<Rightarrow> detected \<Rightarrow> js_error + CombinedTaxResult" where
  \<comment> \<open>the call of \<open>calculateCombinedTax\<close> inside the \<open>try\<close> block\<close>
  "stateCalculationAttempt federalResult data code =
     (case code of
        ObjectConstructor \<Rightarrow> Inl (TypeError ''stateCode?.toUpperCase is not a function'')
      | StateCode c \<Rightarrow>
          calculateCombinedTax \<lparr>
            cd_adjustedGrossIncome = adjustedGrossIncome federalResult,
            cd_federalTaxableIncome = taxableIncome federalResult,
            cd_federalTaxLiability = taxLiability federalResult,
            cd_federalEffectiveRate = effectiveRate federalResult,
            cd_federalMarginalRate = marginalRate federalResult,
            cd_filingStatus = td_filingStatus data,
            cd_stateCode = c,
            cd_stateItemizedDeductions = Some
              (case td_stateItemizedDeductions data of
                 None \<Rightarrow> td_itemizedDeductions data
               | Some v \<Rightarrow> orElse v (td_itemizedDeductions data)),
            cd_dependents = Some (td_dependents data),
            cd_totalCredits = Some (totalCredits federalResult),
            cd_totalWithholdings = Some (totalWithholdings federalResult) \<rparr>)"

definition federalData :: "TaxData \<Rightarrow> FederalData" where
  \<comment> \<open>the argument object passed on to \<open>calculateEnhancedTaxReturn\<close>\<close>
  "federalData data = \<lparr>
     fd_totalIncome = td_totalIncome data,
     fd_filingStatus = td_filingStatus data,
     fd_dependents = td_dependents data,
     fd_itemizedDeductions = td_itemizedDeductions data,
     fd_totalWithholdings = td_totalWithholdings data \<rparr>"

definition stateCodeProvided :: "detected \<Rightarrow> bool" where
  \<comment> \<open>truthiness of the \<open>stateCode\<close> argument: a non-empty string or a function\<close>
  "stateCodeProvided code = (case code of StateCode c \<Rightarrow> c \<noteq> [] | ObjectConstructor \<Rightarrow> True)"

definition calculateEnhancedTaxReturnWithState ::
  "deps \<Rightarrow> TaxData \<Rightarrow> js_error + EnhancedTaxCalculationResult" where
  "calculateEnhancedTaxReturnWithState D data =
     (case calculateEnhancedTaxReturn D (federalData data) of
        Inl e \<Rightarrow> Inl e
      | Inr federalResult \<Rightarrow>
         (case td_stateCode data of
            None \<Rightarrow> Inr federalResult
          | Some code \<Rightarrow>
              if \<not> stateCodeProvided code then Inr federalResult
              else
                (case stateCalculationAttempt federalResult data code of
                   Inl e \<Rightarrow> Inr (federalOnlyFallback federalResult code)
                 | Inr combined \<Rightarrow>
                     Inr (federalResult\<lparr>
                            finalTax := c_finalTax combined,
                            refundAmount := c_refundAmount combined,
                            amountOwed := c_amountOwed combined,
                            stateTax := Some (c_stateTax combined),
                            combinedTaxResult := Some combined,
                            taxOptimizationSuggestions :=
                              generateStateTaxOptimizationSuggestions D
                                (taxOptimizationSuggestions federalResult) (c_stateTax combined)
                                (deductionComparison federalResult)\<rparr>))))"

section \<open>Extracted values and amount parsing (documents/[id]/process)\<close>

datatype jsval =
    JNull
  | JUndefined
  | JNumber jsnum
  | JString string
  | JBoolean bool
  | JArray "jsval list"
  | JObject "(string \<times> jsval) list"

type_synonym extracted = "(string \<times> jsval) list"

definition isDigit :: "char \<Rightarrow> bool" where
  "isDigit c = (c \<in> set ''0123456789'')"

definition digitValue :: "char \<Rightarrow> int" where
  "digitValue c = (case map_of (zip ''0123456789'' [0, 1, 2, 3, 4, 5, 6, 7, 8, 9]) c of
                     Some d \<Rightarrow> d | None \<Rightarrow> 0)"

definition digitsValue :: "string \<Rightarrow> int" where
  "digitsValue ds = foldl (\<lambda>n c. 10 * n + digitValue c) 0 ds"

definition exponentPart :: "string \<Rightarrow> int" where
  \<comment> \<open>\<open>ExponentPart\<close> of a decimal literal, 0 when the rest does not start with one\<close>
  "exponentPart r =
     (case r of
        [] \<Rightarrow> 0
      | c # r1 \<Rightarrow>
          if c = CHR ''e'' \<or> c = CHR ''E'' then
            (case r1 of
               [] \<Rightarrow> 0
             | s # r2 \<Rightarrow>
                 if s = CHR ''-'' then
                   (if takeWhile isDigit r2 = [] then 0 else - digitsValue (takeWhile isDigit r2))
                 else if s = CHR ''+'' then digitsValue (takeWhile isDigit r2)
                 else digitsValue (takeWhile isDigit r1))
          else 0)"

definition scale10 :: "rat \<Rightarrow> int \<Rightarrow> rat" where
  "scale10 m e = (if 0 \<le> e then m * 10 ^ nat e else m / 10 ^ nat (- e))"

definition parseFloat :: "string \<Rightarrow> jsnum" where
  \<comment> \<open>the built-in \<open>parseFloat\<close>: the longest prefix, after leading white space, that is a
      \<open>StrDecimalLiteral\<close>; its value rounded to a double\<close>
  "parseFloat inputString =
     (let trimmed = dropWhile isWhitespace inputString;
          negative = (trimmed \<noteq> [] \<and> hd trimmed = CHR ''-'');
          u = (if trimmed \<noteq> [] \<and> (hd trimmed = CHR ''-'' \<or> hd trimmed = CHR ''+'')
               then tl trimmed else trimmed)
      in if take 8 u = ''Infinity'' then (if negative then NegInf else PosInf)
         else
           (let ip = takeWhile isDigit u;
                r1 = dropWhile isDigit u;
                hasPoint = (r1 \<noteq> [] \<and> hd r1 = CHR ''.'');
                fp = (if hasPoint then takeWhile isDigit (tl r1) else []);
                r2 = (if hasPoint then dropWhile isDigit (tl r1) else r1)
            in if ip = [] \<and> fp = [] then NaN
               else
                 (let mantissa = of_int (digitsValue ip) + of_int (digitsValue fp) / 10 ^ length fp;
                      v = scale10 mantissa (exponentPart r2)
                  in fl (if negative then - v else v))))"

definition cleanAmount :: "string \<Rightarrow> string" where
  \<comment> \<open>\<open>value.replace(/[$,\s]/g, '')\<close>\<close>
  "cleanAmount s = filter (\<lambda>c. \<not> (c = CHR ''$'' \<or> c = CHR '','' \<or> isWhitespace c)) s"

definition parseAmount :: "jsval \<Rightarrow> jsnum" where
  "parseAmount v =
     (case v of
        JNull \<Rightarrow> Num 0
      | JUndefined \<Rightarrow> Num 0
      | JNumber n \<Rightarrow> (if n = NaN then Num 0 else n)
      | JString s \<Rightarrow>
          (let cleaned = cleanAmount s; parsed = parseFloat cleaned
           in if parsed = NaN then Num 0 else parsed)
      | JBoolean b \<Rightarrow> Num 0
      | JArray xs \<Rightarrow> Num 0
      | JObject kvs \<Rightarrow> Num 0)"

section \<open>State detection (state-detection)\<close>

text \<open>
  In a pattern without flags the classes \<open>\d\<close>, \<open>\w\<close> and \<open>[A-Z]\<close> and the
  assertion \<open>\b\<close> look at ASCII characters only; \<open>\s\<close> takes the same white space as
  \<open>trim\<close>.
\<close>

definition US_STATES :: "(string \<times> string) list" where
  "US_STATES = [
     (''AL'', ''Alabama''), (''AK'', ''Alaska''), (''AZ'', ''Arizona''),
     (''AR'', ''Arkansas''), (''CA'', ''California''), (''CO'', ''Colorado''),
     (''CT'', ''Connecticut''), (''DE'', ''Delaware''), (''FL'', ''Florida''),
     (''GA'', ''Georgia''), (''HI'', ''Hawaii''), (''ID'', ''Idaho''),
     (''IL'', ''Illinois''), (''IN'', ''Indiana''), (''IA'', ''Iowa''),
     (''KS'', ''Kansas''), (''KY'', ''Kentucky''), (''LA'', ''Louisiana''),
     (''ME'', ''Maine''), (''MD'', ''Maryland''), (''MA'', ''Massachusetts''),
     (''MI'', ''Michigan''), (''MN'', ''Minnesota''), (''MS'', ''Mississippi''),
     (''MO'', ''Missouri''), (''MT'', ''Montana''), (''NE'', ''Nebraska''),
     (''NV'', ''Nevada''), (''NH'', ''New Hampshire''), (''NJ'', ''New Jersey''),
     (''NM'', ''New Mexico''), (''NY'', ''New York''), (''NC'', ''North Carolina''),
     (''ND'', ''North Dakota''), (''OH'', ''Ohio''), (''OK'', ''Oklahoma''),
     (''OR'', ''Oregon''), (''PA'', ''Pennsylvania''), (''RI'', ''Rhode Island''),
     (''SC'', ''South Carolina''), (''SD'', ''South Dakota''), (''TN'', ''Tennessee''),
     (''TX'', ''Texas''), (''UT'', ''Utah''), (''VT'', ''Vermont''),
     (''VA'', ''Virginia''), (''WA'', ''Washington''), (''WV'', ''West Virginia''),
     (''WI'', ''Wisconsin''), (''WY'', ''Wyoming''), (''DC'', ''District of Columbia'')]"

definition STATE_NAME_TO_CODE :: "(string \<times> string) list" where
  "STATE_NAME_TO_CODE = map (\<lambda>(code, name). (toLowerCase name, code)) US_STATES"

definition isStateCode :: "string \<Rightarrow> bool" where
  \<comment> \<open>truthiness of \<open>US_STATES[key]\<close> for an upper-cased key\<close>
  "isStateCode key = (map_of US_STATES key \<noteq> None)"

definition stateNameToCode :: "string \<Rightarrow> detected option" where
  \<comment> \<open>\<open>STATE_NAME_TO_CODE[key]\<close> for a key of lower-case letters and white space: an own
      entry, or \<open>Object.prototype.constructor\<close>, the only inherited member with such a name\<close>
  "stateNameToCode key =
     (case map_of STATE_NAME_TO_CODE key of
        Some code \<Rightarrow> Some (StateCode code)
      | None \<Rightarrow> if key = ''constructor'' then Some ObjectConstructor else None)"

subsection \<open>Regular expressions\<close>

text \<open>
  A backtracking matcher for the constructs the address patterns use. A matcher state is
  the character before the current position, the rest of the input and the text of the
  capture group. \<open>matchRe\<close> lists the states after a match in the order in which a
  backtracking engine tries them: greedy quantifiers first try to take more. The first
  argument bounds the iterations of a star; an iteration must consume input, so the length
  of the input plus one is never exhausted.
\<close>

datatype regex =
    Chars string
  | Seq regex regex
  | Star regex
  | Opt regex
  | Group regex
  | WordBoundary
  | EndOfInput

type_synonym mstate = "char option \<times> string \<times> string option"

definition isWordChar :: "char \<Rightarrow> bool" where
  "isWordChar c = (c \<in> set (upperLetters @ lowerLetters @ ''0123456789_''))"

fun matchRe :: "nat \<Rightarrow> regex \<Rightarrow> mstate \<Rightarrow> mstate list" where
  "matchRe n (Chars cs) (p, rest, cap) =
     (case rest of [] \<Rightarrow> [] | c # r \<Rightarrow> if c \<in> set cs then [(Some c, r, cap)] else [])"
| "matchRe n (Seq a b) st = concat (map (matchRe n b) (matchRe n a st))"
| "matchRe n (Opt a) st = matchRe n a st @ [st]"
| "matchRe 0 (Star a) st = [st]"
| "matchRe (Suc k) (Star a) st =
     concat (map (\<lambda>st'. if length (fst (snd st')) < length (fst (snd st))
                         then matchRe k (Star a) st' else [])
                 (matchRe (Suc k) a st)) @ [st]"
| "matchRe n (Group a) (p, rest, cap) =
     map (\<lambda>(p', rest', cap'). (p', rest', Some (take (length rest - length rest') rest)))
         (matchRe n a (p, rest, cap))"
| "matchRe n WordBoundary (p, rest, cap) =
     (let wordBefore = (case p of None \<Rightarrow> False | Some c \<Rightarrow> isWordChar c);
          wordAfter = (case rest of [] \<Rightarrow> False | c # r \<Rightarrow> isWordChar c)
      in if wordBefore \<noteq> wordAfter then [(p, rest, cap)] else [])"
| "matchRe n EndOfInput (p, rest, cap) = (if rest = [] then [(p, rest, cap)] else [])"

fun searchFrom :: "nat \<Rightarrow> regex \<Rightarrow> char option \<Rightarrow> string \<Rightarrow> mstate option" where
  "searchFrom n r p [] = (case matchRe n r (p, [], None) of st # sts \<Rightarrow> Some st | [] \<Rightarrow> None)"
| "searchFrom n r p (c # cs) =
     (case matchRe n r (p, c # cs, None) of
        st # sts \<Rightarrow> Some st
      | [] \<Rightarrow> searchFrom n r (Some c) cs)"

definition regexMatch1 :: "regex \<Rightarrow> string \<Rightarrow> string option" where
  \<comment> \<open>\<open>address.match(pattern)\<close> followed by \<open>match[1]\<close>: group 1 of the leftmost match\<close>
  "regexMatch1 r s =
     (case searchFrom (Suc (length s)) r None s of
        None \<Rightarrow> None
      | Some (p, rest, cap) \<Rightarrow> cap)"

definition plusRe :: "regex \<Rightarrow> regex" where
  "plusRe r = Seq r (Star r)"

definition whitespaceChars :: string where
  "whitespaceChars = [CHR 0x09, CHR 0x0A, CHR 0x0B, CHR 0x0C, CHR 0x0D, CHR '' '', CHR 0xA0]"

definition reSpace :: regex where "reSpace = Chars whitespaceChars"
definition reUpper :: regex where "reUpper = Chars upperLetters"
definition reDigit :: regex where "reDigit = Chars ''0123456789''"
definition reAlphaSpace :: regex where "reAlphaSpace = Chars (upperLetters @ lowerLetters @ whitespaceChars)"

definition reZip :: regex where
  \<comment> \<open>\<open>\d{5}(?:-\d{4})?\<close>\<close>
  "reZip = Seq reDigit (Seq reDigit (Seq reDigit (Seq reDigit (Seq reDigit
             (Opt (Seq (Chars ''-'') (Seq reDigit (Seq reDigit (Seq reDigit reDigit)))))))))"

definition patternCommaCodeZip :: regex where
  \<comment> \<open>\<open>/,\s*([A-Z]{2})\s+\d{5}(?:-\d{4})?/\<close>\<close>
  "patternCommaCodeZip =
     Seq (Chars '','') (Seq (Star reSpace) (Seq (Group (Seq reUpper reUpper)) (Seq (plusRe reSpace) reZip)))"

definition patternCodeZip :: regex where
  \<comment> \<open>\<open>/\s+([A-Z]{2})\s+\d{5}(?:-\d{4})?/\<close>\<close>
  "patternCodeZip = Seq (plusRe reSpace) (Seq (Group (Seq reUpper reUpper)) (Seq (plusRe reSpace) reZip))"

definition patternCommaNameZip :: regex where
  \<comment> \<open>\<open>/,\s*([A-Za-z\s]+)\s+\d{5}(?:-\d{4})?/\<close>\<close>
  "patternCommaNameZip =
     Seq (Chars '','') (Seq (Star reSpace) (Seq (Group (plusRe reAlphaSpace)) (Seq (plusRe reSpace) reZip)))"

definition patternCodeAtEnd :: regex where
  \<comment> \<open>\<open>/\b([A-Z]{2})\s*$/\<close>\<close>
  "patternCodeAtEnd = Seq WordBoundary (Seq (Group (Seq reUpper reUpper)) (Seq (Star reSpace) EndOfInput))"

definition patternNameAtEnd :: regex where
  \<comment> \<open>\<open>/\b([A-Za-z\s]+)\s*$/\<close>\<close>
  "patternNameAtEnd = Seq WordBoundary (Seq (Group (plusRe reAlphaSpace)) (Seq (Star reSpace) EndOfInput))"

definition addressPatterns :: "regex list" where
  "addressPatterns = [patternCommaCodeZip, patternCodeZip, patternCommaNameZip, patternCodeAtEnd,
                      patternNameAtEnd]"

fun tryPatterns :: "regex list \<Rightarrow> string \<Rightarrow> detected option" where
  "tryPatterns [] address = None"
| "tryPatterns (pattern # patterns) address =
     (case regexMatch1 pattern address of
        None \<Rightarrow> tryPatterns patterns address
      | Some g \<Rightarrow>
          if g = [] then tryPatterns patterns address
          else if isStateCode (toUpperCase (trim g)) then Some (StateCode (toUpperCase (trim g)))
          else (case stateNameToCode (toLowerCase (trim g)) of
                  Some code \<Rightarrow> Some code
                | None \<Rightarrow> tryPatterns patterns address))"

definition parseStateFromAddress :: "string \<Rightarrow> detected option" where
  "parseStateFromAddress address = tryPatterns addressPatterns address"

subsection \<open>The three tiers\<close>

datatype det_source = src_address | src_employer | src_document_type | src_unknown

record StateDetectionResult =
  detectedState :: "detected option"
  confidence :: jsnum
  source :: det_source
  rawData :: extracted
  llmReasoning :: "jsval option"

definition field :: "extracted \<Rightarrow> string \<Rightarrow> jsval" where
  \<comment> \<open>\<open>data[name]\<close> for the fixed field names the code reads\<close>
  "field data name = (case map_of data name of Some v \<Rightarrow> v | None \<Rightarrow> JUndefined)"

definition unknownResult :: "extracted \<Rightarrow> StateDetectionResult" where
  "unknownResult data = \<lparr>detectedState = None, confidence = Num 0, source = src_unknown,
                           rawData = data, llmReasoning = None\<rparr>"

fun directLoop :: "(string \<times> det_source) list \<Rightarrow> extracted \<Rightarrow> StateDetectionResult" where
  "directLoop [] data = unknownResult data"
| "directLoop ((name, src) # others) data =
     (case field data name of
        JString stateValue \<Rightarrow>
          if stateValue \<noteq> [] \<and> isStateCode (toUpperCase (trim stateValue)) then
            \<lparr>detectedState = Some (StateCode (toUpperCase (trim stateValue))),
             confidence = fl (95 / 100), source = src, rawData = data, llmReasoning = None\<rparr>
          else directLoop others data
      | _ \<Rightarrow> directLoop others data)"

definition stateFields :: "(string \<times> det_source) list" where
  \<comment> \<open>each field with \<open>field.includes('employee') ? 'address' : 'employer'\<close>\<close>
  "stateFields = [(''employeeState'', src_address), (''employerState'', src_employer),
                  (''recipientState'', src_employer), (''payerState'', src_employer)]"

definition extractDirectStateField :: "extracted \<Rightarrow> StateDetectionResult" where
  "extractDirectStateField data = directLoop stateFields data"

fun addressLoop :: "(string \<times> det_source) list \<Rightarrow> extracted \<Rightarrow> StateDetectionResult" where
  "addressLoop [] data = unknownResult data"
| "addressLoop ((name, src) # others) data =
     (case field data name of
        JString address \<Rightarrow>
          if address \<noteq> [] then
            (case parseStateFromAddress address of
               Some state \<Rightarrow>
                 \<lparr>detectedState = Some state, confidence = fl (85 / 100), source = src,
                  rawData = data, llmReasoning = None\<rparr>
             | None \<Rightarrow> addressLoop others data)
          else addressLoop others data
      | _ \<Rightarrow> addressLoop others data)"

definition addressFields :: "(string \<times> det_source) list" where
  "addressFields = [(''employeeAddress'', src_address), (''recipientAddress'', src_address),
                    (''employerAddress'', src_employer), (''payerAddress'', src_employer)]"

definition extractStateFromAddresses :: "extracted \<Rightarrow> StateDetectionResult" where
  "extractStateFromAddresses data = addressLoop addressFields data"

text \<open>
  The classifier is reached by an HTTP request. What the request does is an input of the
  model, as a function of what is sent (the document type and the extracted data): the
  request is rejected, answers with a status that is not ok, has a body that is not JSON,
  or has a JSON body. \<open>ToNumber\<close> of a string, array or object is a parameter.
\<close>

datatype llm_outcome = FetchRejected | StatusNotOk nat | BodyNotJson | JsonBody jsval

record detect_env =
  classify :: "string \<Rightarrow> extracted \<Rightarrow> llm_outcome"
  toNumber :: "jsval \<Rightarrow> jsnum"

definition truthy :: "jsval \<Rightarrow> bool" where
  "truthy v =
     (case v of
        JNull \<Rightarrow> False
      | JUndefined \<Rightarrow> False
      | JNumber n \<Rightarrow> n \<noteq> Num 0 \<and> n \<noteq> NaN
      | JString s \<Rightarrow> s \<noteq> []
      | JBoolean b \<Rightarrow> b
      | JArray xs \<Rightarrow> True
      | JObject kvs \<Rightarrow> True)"

definition clampConfidence :: "detect_env \<Rightarrow> jsval \<Rightarrow> jsnum" where
  \<comment> \<open>\<open>Math.min(Math.max(result.confidence || 0.7, 0), 1)\<close>\<close>
  "clampConfidence env c =
     (let n = (if \<not> truthy c then fl (7 / 10)
               else (case c of JNumber m \<Rightarrow> m | JBoolean b \<Rightarrow> Num 1 | _ \<Rightarrow> toNumber env c))
      in mathMin2 (mathMax2 n (Num 0)) (Num 1))"

definition llmAttempt :: "detect_env \<Rightarrow> string \<Rightarrow> extracted \<Rightarrow> js_error + StateDetectionResult" where
  \<comment> \<open>the body of the \<open>try\<close> block of \<open>detectStateUsingLLM\<close>\<close>
  "llmAttempt env documentType data =
     (case classify env documentType data of
        FetchRejected \<Rightarrow> Inl (TypeError ''fetch failed'')
      | StatusNotOk status \<Rightarrow> Inl (Error ''LLM API failed with status'')
      | BodyNotJson \<Rightarrow> Inl (Error ''Unexpected token in JSON'')
      | JsonBody JNull \<Rightarrow> Inl (TypeError ''Cannot read properties of null'')
      | JsonBody (JObject kvs) \<Rightarrow>
          (case field kvs ''stateCode'' of
             JString s \<Rightarrow>
               if s \<noteq> [] \<and> isStateCode (toUpperCase s) then
                 Inr \<lparr>detectedState = Some (StateCode (toUpperCase s)),
                      confidence = clampConfidence env (field kvs ''confidence''),
                      source = src_document_type, rawData = data,
                      llmReasoning = Some (field kvs ''reasoning'')\<rparr>
               else Inr (unknownResult data)
           | v \<Rightarrow> if truthy v then Inl (TypeError ''result.stateCode.toUpperCase is not a function'')
                  else Inr (unknownResult data))
      | JsonBody v \<Rightarrow> Inr (unknownResult data))"

definition detectStateUsingLLM :: "detect_env \<Rightarrow> string \<Rightarrow> extracted \<Rightarrow> StateDetectionResult" where
  "detectStateUsingLLM env documentType data =
     (case llmAttempt env documentType data of
        Inl e \<Rightarrow> unknownResult data
      | Inr r \<Rightarrow> r)"

definition detectStateFromDocument :: "detect_env \<Rightarrow> string \<Rightarrow> extracted \<Rightarrow> StateDetectionResult" where
  "detectStateFromDocument env documentType data =
     (let directState = extractDirectStateField data
      in if detectedState directState \<noteq> None then directState
         else
           (let addressState = extractStateFromAddresses data
            in if detectedState addressState \<noteq> None then addressState
               else
                 (let llmState = detectStateUsingLLM env documentType data
                  in if detectedState llmState \<noteq> None then llmState
                     else unknownResult data)))"

text \<open>
  The answer of the classifier carries a valid state: a JSON object whose \<open>stateCode\<close>
  is a string that is a state code once upper-cased. Anything else is a failed request
  or an invalid code.
\<close>

definition spec_validClassifierAnswer :: "llm_outcome \<Rightarrow> bool" where
  "spec_validClassifierAnswer outcome =
     (case outcome of
        JsonBody (JObject kvs) \<Rightarrow>
          (case field kvs ''stateCode'' of JString s \<Rightarrow> isStateCode (toUpperCase s) | _ \<Rightarrow> False)
      | _ \<Rightarrow> False)"

section \<open>Persistent data (Prisma models)\<close>

type_synonym ident = string

datatype ProcessingStatus = PENDING | PROCESSING | COMPLETED | FAILED

datatype StateDetectionSource = ADDRESS | EMPLOYER | DOCUMENT_TYPE | MANUAL | UNKNOWN

record User =
  user_id :: ident
  user_email :: string

record Document =
  doc_id :: ident
  doc_taxReturnId :: ident
  doc_fileName :: string
  doc_filePath :: string
  doc_documentType :: string
  doc_processingStatus :: ProcessingStatus
  doc_extractedData :: "extracted option"
  doc_ocrText :: "string option"
  doc_isVerified :: bool
  doc_createdAt :: int
  doc_updatedAt :: int

record IncomeEntry =
  ie_taxReturnId :: ident
  ie_documentId :: "ident option"
  ie_incomeType :: string
  ie_description :: string
  ie_amount :: rat
  ie_employerName :: "string option"
  ie_employerEIN :: "string option"
  ie_payerName :: "string option"
  ie_payerTIN :: "string option"
  ie_federalTaxWithheld :: "rat option"

record DocumentExtractedEntry =
  dee_documentId :: ident

record DependentRow =
  dep_taxReturnId :: ident
  dep_qualifiesForCTC :: bool
  dep_qualifiesForEITC :: bool

record TaxReturn =
  tr_id :: ident
  tr_userId :: ident
  tr_filingStatus :: string
  tr_firstName :: "string option"
  tr_lastName :: "string option"
  tr_ssn :: "string option"
  tr_address :: "string option"
  tr_city :: "string option"
  tr_state :: "string option"
  tr_zipCode :: "string option"
  tr_totalIncome :: rat
  tr_adjustedGrossIncome :: rat
  tr_standardDeduction :: rat
  tr_itemizedDeduction :: rat
  tr_taxableIncome :: rat
  tr_taxLiability :: rat
  tr_totalCredits :: rat
  tr_totalWithholdings :: rat
  tr_refundAmount :: rat
  tr_amountOwed :: rat
  tr_stateTaxLiability :: rat
  tr_stateStandardDeduction :: rat
  tr_stateTaxableIncome :: rat
  tr_stateEffectiveRate :: rat
  tr_stateItemizedDeduction :: rat
  tr_detectedState :: "string option"
  tr_stateConfidence :: "jsnum option"
  tr_stateSource :: "StateDetectionSource option"
  tr_lastSavedAt :: int
  tr_updatedAt :: int

record Database =
  users :: "User list"
  documents :: "Document list"
  incomeEntries :: "IncomeEntry list"
  extractedEntries :: "DocumentExtractedEntry list"
  dependentRows :: "DependentRow list"
  taxReturns :: "TaxReturn list"

definition findUser :: "Database \<Rightarrow> string \<Rightarrow> User option" where
  "findUser db email = find (\<lambda>u. user_email u = email) (users db)"


definition findTaxReturn :: "Database \<Rightarrow> ident \<Rightarrow> TaxReturn option" where
  "findTaxReturn db i = find (\<lambda>t. tr_id t = i) (taxReturns db)"

definition updateDocument :: "ident \<Rightarrow> (Document \<Rightarrow> Document) \<Rightarrow> Database \<Rightarrow> Database" where
  "updateDocument i f db = db\<lparr>documents := map (\<lambda>d. if doc_id d = i then f d else d) (documents db)\<rparr>"

definition updateTaxReturn :: "ident \<Rightarrow> (TaxReturn \<Rightarrow> TaxReturn) \<Rightarrow> Database \<Rightarrow> Database" where
  "updateTaxReturn i f db = db\<lparr>taxReturns := map (\<lambda>t. if tr_id t = i then f t else t) (taxReturns db)\<rparr>"

section \<open>Deleting a document (documents/[id], DELETE)\<close>








section \<open>Status stream (documents/[id]/status-stream, GET)\<close>

text \<open>
  The stream polls the stored document. What each \<open>findUnique\<close> returns and what
  \<open>Date.now()\<close> reads at that moment are inputs of the model, indexed by the number of
  reads made so far; the timer delays between polls are not modelled. The loop is run
  with fuel: it has no bound of its own when reads keep failing before the tenth
  successful poll.
\<close>

datatype poll_read = ReadFails string | ReadFinds "Document option"

record stream_env =
  st_sessionEmail :: "string option"
  st_reads :: "nat \<Rightarrow> poll_read"
  st_clock :: "nat \<Rightarrow> int"

datatype stages = StagesAllComplete | StagesExtracting | StagesUploaded

record status_update =
  su_documentId :: ident
  su_status :: ProcessingStatus
  su_fileName :: string
  su_documentType :: string
  su_pollCount :: nat
  su_hasExtractedData :: bool
  su_hasOcrText :: bool
  su_isVerified :: bool
  su_updatedAt :: int
  su_ocrText :: "string option"
  su_extractedData :: "extracted option"
  su_progress :: "jsnum option"
  su_elapsedTime :: "jsnum option"
  su_message :: "string option"
  su_processingStages :: stages

datatype stream_event =
    Connected ident ProcessingStatus
  | StatusUpdate status_update
  | CompletedEvent
  | ErrorEvent string
  | TimeoutEvent

datatype stream_response =
    StreamUnauthorized
  | StreamUserNotFound
  | StreamDocumentNotFound
  | StreamOpened "stream_event list" bool

definition maxPolls :: nat where
  "maxPolls = 300"

definition baseUpdate :: "Document \<Rightarrow> nat \<Rightarrow> stages \<Rightarrow> status_update" where
  "baseUpdate currentDoc pollCount st = \<lparr>
     su_documentId = doc_id currentDoc,
     su_status = doc_processingStatus currentDoc,
     su_fileName = doc_fileName currentDoc,
     su_documentType = doc_documentType currentDoc,
     su_pollCount = pollCount + 1,
     su_hasExtractedData = (doc_extractedData currentDoc \<noteq> None),
     su_hasOcrText = (case doc_ocrText currentDoc of None \<Rightarrow> False | Some t \<Rightarrow> t \<noteq> []),
     su_isVerified = doc_isVerified currentDoc,
     su_updatedAt = doc_updatedAt currentDoc,
     su_ocrText = None,
     su_extractedData = None,
     su_progress = None,
     su_elapsedTime = None,
     su_message = None,
     su_processingStages = st \<rparr>"

definition completedUpdate :: "Document \<Rightarrow> nat \<Rightarrow> status_update" where
  "completedUpdate currentDoc pollCount =
     (baseUpdate currentDoc pollCount StagesAllComplete)
       \<lparr>su_ocrText := doc_ocrText currentDoc, su_extractedData := doc_extractedData currentDoc\<rparr>"

definition processingUpdate :: "Document \<Rightarrow> nat \<Rightarrow> int \<Rightarrow> status_update" where
  "processingUpdate currentDoc pollCount now =
     (let elapsed = fsub (Num (of_int now)) (Num (of_int (doc_updatedAt currentDoc)));
          estimatedDuration = Num (5 * 60 * 1000);
          progress = mathMin2 (Num 95) (mathFloor (fmul (fdiv elapsed estimatedDuration) (Num 100)))
      in (baseUpdate currentDoc pollCount StagesExtracting)
           \<lparr>su_progress := Some progress,
            su_elapsedTime := Some elapsed,
            su_message := Some
              (if jsLt elapsed (Num 60000) then ''Starting document analysis with Azure AI...''
               else if jsLt elapsed (Num 180000) then ''Extracting text and identifying form fields...''
               else if jsLt elapsed (Num 300000) then ''Processing tax information and validating data...''
               else ''Finalizing extraction and performing quality checks...'')\<rparr>)"

fun pollDocument ::
  "nat \<Rightarrow> stream_env \<Rightarrow> nat \<Rightarrow> nat \<Rightarrow> stream_event list \<Rightarrow> (stream_event list \<times> bool) option"
where
  "pollDocument 0 env k pollCount sent = None"
| "pollDocument (Suc fuel) env k pollCount sent =
     (case st_reads env k of
        ReadFails msg \<Rightarrow>
          (let sent1 = sent @ [ErrorEvent ''Error checking document status'']
           in if pollCount < 10 then pollDocument fuel env (k + 1) pollCount sent1
              else Some (sent1, True))
      | ReadFinds None \<Rightarrow> Some (sent @ [ErrorEvent ''Document not found''], True)
      | ReadFinds (Some currentDoc) \<Rightarrow>
          if doc_processingStatus currentDoc = COMPLETED then
            Some (sent @ [StatusUpdate (completedUpdate currentDoc pollCount), CompletedEvent], True)
          else if doc_processingStatus currentDoc = FAILED then
            Some (sent @ [ErrorEvent ''Document processing failed''], True)
          else
            (let sent1 = sent @
                   [StatusUpdate
                      (if doc_processingStatus currentDoc = PROCESSING
                       then processingUpdate currentDoc pollCount (st_clock env k)
                       else baseUpdate currentDoc pollCount StagesUploaded)];
                 pollCount1 = pollCount + 1
             in if pollCount1 < maxPolls then pollDocument fuel env (k + 1) pollCount1 sent1
                else Some (sent1 @ [TimeoutEvent], True)))"

definition findOwnedDocument :: "Database \<Rightarrow> ident \<Rightarrow> ident \<Rightarrow> Document option" where
  \<comment> \<open>\<open>findFirst({ where: { id, taxReturn: { userId } } })\<close>\<close>
  "findOwnedDocument db documentId userId =
     find (\<lambda>d. doc_id d = documentId \<and>
               list_ex (\<lambda>t. tr_id t = doc_taxReturnId d \<and> tr_userId t = userId) (taxReturns db))
          (documents db)"

definition GET_status_stream ::
  "nat \<Rightarrow> stream_env \<Rightarrow> ident \<Rightarrow> Database \<Rightarrow> stream_response option" where
  "GET_status_stream fuel env paramsId db =
     (case st_sessionEmail env of
        None \<Rightarrow> Some StreamUnauthorized
      | Some email \<Rightarrow>
         (case findUser db email of
            None \<Rightarrow> Some StreamUserNotFound
          | Some user \<Rightarrow>
             (case findOwnedDocument db paramsId (user_id user) of
                None \<Rightarrow> Some StreamDocumentNotFound
              | Some document \<Rightarrow>
                 (case pollDocument fuel env 0 0
                         [Connected (doc_id document) (doc_processingStatus document)] of
                    None \<Rightarrow> None
                  | Some (sent, isClosed) \<Rightarrow> Some (StreamOpened sent isClosed)))))"

definition isStatusUpdate :: "stream_event \<Rightarrow> bool" where
  "isStatusUpdate e = (case e of StatusUpdate u \<Rightarrow> True | _ \<Rightarrow> False)"

section \<open>Document processing (documents/[id]/process, POST)\<close>

text \<open>
  The collaborators of the pipeline are inputs of the model: the extraction service, the
  classifier behind state detection, the duplicate detector, the two form mappers and the
  federal tax module may each return or throw. Every call that leaves the process is
  recorded. One time stamp stands for all \<open>new Date()\<close> of a request. The database
  layer's own validation of enum values and decimal ranges is not modelled, except that a
  decimal column does not take a number that is not finite and a text column does not take
  a function. A decimal read from the database becomes a number by
  \<open>parseFloat(d.toString())\<close>, the double nearest to it; a number written to a decimal
  column is kept at its own value.
\<close>

datatype ext_call =
    CallExtraction string string
  | CallClassifier
  | CallDuplicateCheck

record DuplicateResult =
  isDuplicate :: bool
  dup_confidence :: jsnum
  matchingDocuments :: "ident list"

record Form1040Mapping =
  m_firstName :: "string option"
  m_lastName :: "string option"
  m_ssn :: "string option"
  m_address :: "string option"
  m_city :: "string option"
  m_state :: "string option"
  m_zipCode :: "string option"

record process_env =
  pe_sessionEmail :: "string option"
  pe_now :: int
  pe_azureConfigured :: bool
  pe_development :: bool
  pe_extract :: "string \<Rightarrow> string \<Rightarrow> js_error + extracted"
  pe_detect :: detect_env
  pe_checkForDuplicates :: "string \<Rightarrow> extracted \<Rightarrow> ident \<Rightarrow> js_error + DuplicateResult"
  pe_mapW2 :: "extracted \<Rightarrow> js_error + Form1040Mapping"
  pe_map1099 :: "extracted \<Rightarrow> js_error + Form1040Mapping"
  pe_deps :: deps
  pe_toString :: "jsval \<Rightarrow> string"
  pe_documentUpdateSucceeds :: bool
  pe_taxReturnUpdateSucceeds :: bool
  pe_markFailedSucceeds :: bool

record completed_payload =
  cp_documentId :: ident
  cp_extractedData :: "extracted option"
  cp_ocrText :: "string option"
  cp_processingStatus :: ProcessingStatus
  cp_documentType :: string
  cp_fileName :: string
  cp_detectedState :: "string option"
  cp_stateConfidence :: "jsnum option"
  cp_stateSource :: "StateDetectionSource option"
  cp_totalIncome :: jsnum
  cp_adjustedGrossIncome :: jsnum
  cp_taxableIncome :: jsnum
  cp_taxLiability :: jsnum
  cp_stateTaxLiability :: jsnum
  cp_refundAmount :: jsnum
  cp_amountOwed :: jsnum
  cp_createdAt :: int
  cp_updatedAt :: int

record processed_payload =
  pp_documentId :: ident
  pp_extractedData :: "extracted option"
  pp_ocrText :: "string option"
  pp_processingStatus :: ProcessingStatus
  pp_documentType :: string
  pp_fileName :: string
  pp_detectedState :: "string option"
  pp_stateConfidence :: "jsnum option"
  pp_stateSource :: "StateDetectionSource option"
  pp_stateDetectionResult :: "StateDetectionResult option"
  pp_taxCalculations :: "EnhancedTaxCalculationResult option"
  pp_form1040Mapping :: "Form1040Mapping option"
  pp_duplicateCheck :: "DuplicateResult option"
  pp_processedAt :: int
  pp_processingTime :: int
  pp_requiresManualReview :: bool
  pp_suggestedActions :: "string list"

datatype process_response =
    Unauthorized401
  | UserNotFound404
  | DocumentNotFound404
  | AlreadyCompleted200 completed_payload
  | Conflict409
  | Processed200 processed_payload
  | Failed500 string string

subsection \<open>Helper functions of the route\<close>

definition isPositive :: "jsnum \<Rightarrow> bool" where
  \<comment> \<open>\<open>n > 0\<close>\<close>
  "isPositive n = jsLt (Num 0) n"

definition getIncomeAmountFromForm1099 :: "extracted \<Rightarrow> string \<Rightarrow> jsnum" where
  "getIncomeAmountFromForm1099 extractedData documentType =
     (if documentType = ''FORM_1099_INT'' then orZero (parseAmount (field extractedData ''interestIncome''))
      else if documentType = ''FORM_1099_DIV'' then orZero (parseAmount (field extractedData ''ordinaryDividends''))
      else if documentType = ''FORM_1099_MISC'' then
        mathMax2 (orZero (parseAmount (field extractedData ''rents'')))
          (mathMax2 (orZero (parseAmount (field extractedData ''royalties'')))
             (mathMax2 (orZero (parseAmount (field extractedData ''otherIncome'')))
                (orZero (parseAmount (field extractedData ''nonemployeeCompensation'')))))
      else if documentType = ''FORM_1099_NEC'' then
        orZero (parseAmount (field extractedData ''nonemployeeCompensation''))
      else Num 0)"

definition mapDocumentTypeToIncomeType :: "string \<Rightarrow> string" where
  "mapDocumentTypeToIncomeType documentType =
     (if documentType = ''FORM_1099_INT'' then ''INTEREST''
      else if documentType = ''FORM_1099_DIV'' then ''DIVIDENDS''
      else if documentType = ''FORM_1099_MISC'' \<or> documentType = ''FORM_1099_NEC'' then ''BUSINESS_INCOME''
      else ''OTHER_INCOME'')"

definition mapStateDetectionSourceToEnum :: "det_source \<Rightarrow> StateDetectionSource" where
  "mapStateDetectionSourceToEnum src =
     (case src of
        src_address \<Rightarrow> ADDRESS
      | src_employer \<Rightarrow> EMPLOYER
      | src_document_type \<Rightarrow> DOCUMENT_TYPE
      | src_unknown \<Rightarrow> UNKNOWN)"

definition confidenceBelow :: "jsnum \<Rightarrow> bool" where
  \<comment> \<open>\<open>(confidence || 0) < 0.8\<close>\<close>
  "confidenceBelow c = jsLt (orZero c) (fl (8 / 10))"

definition generateSuggestedActions ::
  "DuplicateResult option \<Rightarrow> StateDetectionResult option \<Rightarrow> EnhancedTaxCalculationResult option \<Rightarrow> string list" where
  "generateSuggestedActions duplicateResult stateResult taxResult =
     (let a1 = (case duplicateResult of
                  Some d \<Rightarrow> if isDuplicate d then [''Review potential duplicate documents before proceeding''] else []
                | None \<Rightarrow> []);
          a2 = (if confidenceBelow (case stateResult of Some r \<Rightarrow> confidence r | None \<Rightarrow> Num 0)
                then [''Verify state information for accurate tax calculations''] else []);
          a3 = (case taxResult of
                  Some r \<Rightarrow> if length (taxOptimizationSuggestions r) > 0
                            then [''Review tax optimization suggestions to maximize savings''] else []
                | None \<Rightarrow> []);
          actions = a1 @ a2 @ a3
      in if length actions = 0 then [''Document processed successfully - review extracted data'']
         else actions)"

fun includesStr :: "string \<Rightarrow> string \<Rightarrow> bool" where
  "includesStr [] sub = (sub = [])"
| "includesStr (c # cs) sub = (take (length sub) (c # cs) = sub \<or> includesStr cs sub)"

definition errorMessage :: "js_error \<Rightarrow> string" where
  "errorMessage e = (case e of TypeError m \<Rightarrow> m | Error m \<Rightarrow> m)"

definition categorizeError :: "js_error \<Rightarrow> string" where
  "categorizeError e =
     (let message = toLowerCase (errorMessage e)
      in if includesStr message ''azure'' \<or> includesStr message ''document intelligence'' then ''EXTRACTION_ERROR''
         else if includesStr message ''database'' \<or> includesStr message ''prisma'' then ''DATABASE_ERROR''
         else if includesStr message ''state detection'' then ''STATE_DETECTION_ERROR''
         else if includesStr message ''duplicate'' then ''DUPLICATE_DETECTION_ERROR''
         else if includesStr message ''tax calculation'' then ''CALCULATION_ERROR''
         else if includesStr message ''mapping'' then ''MAPPING_ERROR''
         else if includesStr message ''authentication'' \<or> includesStr message ''unauthorized'' then ''AUTH_ERROR''
         else ''UNKNOWN_ERROR'')"

definition getUserFriendlyErrorMessage :: "string \<Rightarrow> string" where
  "getUserFriendlyErrorMessage errorType =
     (if errorType = ''EXTRACTION_ERROR'' then
        ''Unable to extract data from document. Please ensure the document is clear and try again.''
      else if errorType = ''DATABASE_ERROR'' then ''Database error occurred. Please try again later.''
      else if errorType = ''STATE_DETECTION_ERROR'' then
        ''State detection failed. You may need to manually enter your state information.''
      else if errorType = ''DUPLICATE_DETECTION_ERROR'' then
        ''Error checking for duplicate documents. Processing continued successfully.''
      else if errorType = ''CALCULATION_ERROR'' then
        ''Tax calculation error occurred. Please review your information.''
      else if errorType = ''MAPPING_ERROR'' then
        ''Error mapping document data. Some fields may need manual entry.''
      else if errorType = ''AUTH_ERROR'' then ''Authentication error. Please log in again.''
      else ''Document processing failed. Please try again or contact support.'')"

definition stringOr :: "process_env \<Rightarrow> jsval \<Rightarrow> string \<Rightarrow> string" where
  \<comment> \<open>\<open>String(v || fallback)\<close>, also \<open>${v || fallback}\<close> inside a template literal\<close>
  "stringOr env v fallback =
     (if \<not> truthy v then fallback else (case v of JString s \<Rightarrow> s | _ \<Rightarrow> pe_toString env v))"

definition optionOr :: "string option \<Rightarrow> string option \<Rightarrow> string option" where
  \<comment> \<open>\<open>a || b\<close> on optional strings\<close>
  "optionOr a b = (case a of Some s \<Rightarrow> if s \<noteq> [] then Some s else b | None \<Rightarrow> b)"

definition toDecimal :: "jsnum \<Rightarrow> rat option" where
  \<comment> \<open>a number written to a decimal column; a number that is not finite is refused\<close>
  "toDecimal n = (case n of Num r \<Rightarrow> Some r | _ \<Rightarrow> None)"

definition decimalValue :: "jsnum \<Rightarrow> rat" where
  "decimalValue n = (case toDecimal n of Some r \<Rightarrow> r | None \<Rightarrow> 0)"

definition numberOfDecimal :: "rat \<Rightarrow> jsnum" where
  \<comment> \<open>\<open>parseFloat(d.toString())\<close> for a decimal read from the database\<close>
  "numberOfDecimal d = fl d"

subsection \<open>Stages of the pipeline\<close>

definition completedPayload :: "Document \<Rightarrow> TaxReturn \<Rightarrow> completed_payload" where
  "completedPayload document taxReturn = \<lparr>
     cp_documentId = doc_id document,
     cp_extractedData = doc_extractedData document,
     cp_ocrText = doc_ocrText document,
     cp_processingStatus = doc_processingStatus document,
     cp_documentType = doc_documentType document,
     cp_fileName = doc_fileName document,
     cp_detectedState = tr_detectedState taxReturn,
     cp_stateConfidence = tr_stateConfidence taxReturn,
     cp_stateSource = tr_stateSource taxReturn,
     cp_totalIncome = numberOfDecimal (tr_totalIncome taxReturn),
     cp_adjustedGrossIncome = numberOfDecimal (tr_adjustedGrossIncome taxReturn),
     cp_taxableIncome = numberOfDecimal (tr_taxableIncome taxReturn),
     cp_taxLiability = numberOfDecimal (tr_taxLiability taxReturn),
     cp_stateTaxLiability = numberOfDecimal (tr_stateTaxLiability taxReturn),
     cp_refundAmount = numberOfDecimal (tr_refundAmount taxReturn),
     cp_amountOwed = numberOfDecimal (tr_amountOwed taxReturn),
     cp_createdAt = doc_createdAt document,
     cp_updatedAt = doc_updatedAt document \<rparr>"

definition personalInfoUpdate :: "Form1040Mapping \<Rightarrow> TaxReturn \<Rightarrow> TaxReturn \<Rightarrow> TaxReturn" where
  \<comment> \<open>\<open>updatedTaxReturnData\<close> after mapping, as an update of the stored tax return\<close>
  "personalInfoUpdate mapping currentTaxReturn t =
     t\<lparr>tr_firstName := optionOr (m_firstName mapping) (tr_firstName currentTaxReturn),
       tr_lastName := optionOr (m_lastName mapping) (tr_lastName currentTaxReturn),
       tr_ssn := optionOr (m_ssn mapping) (tr_ssn currentTaxReturn),
       tr_address := optionOr (m_address mapping) (tr_address currentTaxReturn),
       tr_city := optionOr (m_city mapping) (tr_city currentTaxReturn),
       tr_state := optionOr (m_state mapping) (tr_state currentTaxReturn),
       tr_zipCode := optionOr (m_zipCode mapping) (tr_zipCode currentTaxReturn)\<rparr>"

definition createIncomeEntry :: "IncomeEntry \<Rightarrow> Database \<Rightarrow> Database" where
  "createIncomeEntry e db = db\<lparr>incomeEntries := incomeEntries db @ [e]\<rparr>"

definition startsWith :: "string \<Rightarrow> string \<Rightarrow> bool" where
  "startsWith s pre = (take (length pre) s = pre)"

definition mappingStage ::
  "process_env \<Rightarrow> Document \<Rightarrow> string \<Rightarrow> extracted \<Rightarrow> Database
     \<Rightarrow> Form1040Mapping option \<times> (TaxReturn \<Rightarrow> TaxReturn) \<times> Database" where
  \<comment> \<open>step 11; an exception inside leaves what was assigned before it\<close>
  "mappingStage env document finalDocumentType extractedData db =
     (case findTaxReturn db (doc_taxReturnId document) of
        None \<Rightarrow> (None, id, db)
      | Some currentTaxReturn \<Rightarrow>
          if finalDocumentType = ''W2'' then
            (case pe_mapW2 env extractedData of
               Inl e \<Rightarrow> (None, id, db)
             | Inr mapping \<Rightarrow>
                 (let wagesAmount = orZero (parseAmount (field extractedData ''wages''));
                      federalTaxWithheld = orZero (parseAmount (field extractedData ''federalTaxWithheld''))
                  in if isPositive wagesAmount then
                       (case (toDecimal wagesAmount, toDecimal federalTaxWithheld) of
                          (Some amount, Some withheld) \<Rightarrow>
                            (Some mapping, personalInfoUpdate mapping currentTaxReturn,
                             createIncomeEntry \<lparr>
                               ie_taxReturnId = doc_taxReturnId document,
                               ie_documentId = Some (doc_id document),
                               ie_incomeType = ''W2_WAGES'',
                               ie_description = ''W2 wages from ''
                                 @ stringOr env (field extractedData ''employerName'') ''Employer'',
                               ie_amount = amount,
                               ie_employerName = Some (stringOr env (field extractedData ''employerName'') []),
                               ie_employerEIN = Some (stringOr env (field extractedData ''employerEIN'') []),
                               ie_payerName = None,
                               ie_payerTIN = None,
                               ie_federalTaxWithheld = Some withheld \<rparr> db)
                        | _ \<Rightarrow> (Some mapping, id, db))
                     else (Some mapping, personalInfoUpdate mapping currentTaxReturn, db)))
          else if startsWith finalDocumentType ''FORM_1099'' then
            (case pe_map1099 env extractedData of
               Inl e \<Rightarrow> (None, id, db)
             | Inr mapping \<Rightarrow>
                 (let incomeAmount = getIncomeAmountFromForm1099 extractedData finalDocumentType
                  in if isPositive incomeAmount then
                       (case toDecimal incomeAmount of
                          Some amount \<Rightarrow>
                            (Some mapping, personalInfoUpdate mapping currentTaxReturn,
                             createIncomeEntry \<lparr>
                               ie_taxReturnId = doc_taxReturnId document,
                               ie_documentId = Some (doc_id document),
                               ie_incomeType = mapDocumentTypeToIncomeType finalDocumentType,
                               ie_description = finalDocumentType @ '' income from ''
                                 @ stringOr env (field extractedData ''payerName'') ''Payer'',
                               ie_amount = amount,
                               ie_employerName = None,
                               ie_employerEIN = None,
                               ie_payerName = Some (stringOr env (field extractedData ''payerName'') []),
                               ie_payerTIN = Some (stringOr env (field extractedData ''payerTIN'') []),
                               ie_federalTaxWithheld = None \<rparr> db)
                        | None \<Rightarrow> (Some mapping, id, db))
                     else (Some mapping, personalInfoUpdate mapping currentTaxReturn, db)))
          else (None, id, db))"

definition validIncomeEntries :: "Database \<Rightarrow> ident \<Rightarrow> IncomeEntry list" where
  \<comment> \<open>entries of the tax return whose document reference is set and resolves\<close>
  "validIncomeEntries db taxReturnId =
     filter (\<lambda>e. ie_taxReturnId e = taxReturnId \<and>
               (case ie_documentId e of
                  None \<Rightarrow> False
                | Some d \<Rightarrow> d \<in> set (map doc_id (documents db))))
            (incomeEntries db)"

definition deleteOrphanedEntries :: "ident \<Rightarrow> Database \<Rightarrow> Database" where
  "deleteOrphanedEntries taxReturnId db =
     db\<lparr>incomeEntries :=
          filter (\<lambda>e. \<not> (ie_taxReturnId e = taxReturnId \<and> ie_documentId e = None)) (incomeEntries db)\<rparr>"

definition calculationUpdate ::
  "jsnum \<Rightarrow> EnhancedTaxCalculationResult \<Rightarrow> (TaxReturn \<Rightarrow> TaxReturn) option" where
  \<comment> \<open>the calculated fields of \<open>updatedTaxReturnData\<close>; \<open>None\<close> when one of them is a number
      the tax return update of step 13 refuses\<close>
  "calculationUpdate totalIncome r =
     (let stateTaxLiability' = (case stateTax r of None \<Rightarrow> Num 0 | Some st \<Rightarrow> orZero (stateTaxLiability st));
          stateStandardDeduction' =
            (case stateTax r of None \<Rightarrow> Num 0 | Some st \<Rightarrow> orZero (stateStandardDeduction st));
          stateTaxableIncome' = (case stateTax r of None \<Rightarrow> Num 0 | Some st \<Rightarrow> orZero (stateTaxableIncome st));
          stateEffectiveRate' = (case stateTax r of None \<Rightarrow> Num 0 | Some st \<Rightarrow> orZero (stateEffectiveRate st))
      in if list_all (\<lambda>n. toDecimal n \<noteq> None)
              [totalIncome, adjustedGrossIncome r, fedStandardDeduction r, itemizedDeduction r,
               taxableIncome r, taxLiability r, totalCredits r, totalWithholdings r, refundAmount r,
               amountOwed r, stateTaxLiability', stateStandardDeduction', stateTaxableIncome',
               stateEffectiveRate']
         then Some (\<lambda>t. t\<lparr>tr_totalIncome := decimalValue totalIncome,
                           tr_adjustedGrossIncome := decimalValue (adjustedGrossIncome r),
                           tr_standardDeduction := decimalValue (fedStandardDeduction r),
                           tr_itemizedDeduction := decimalValue (itemizedDeduction r),
                           tr_taxableIncome := decimalValue (taxableIncome r),
                           tr_taxLiability := decimalValue (taxLiability r),
                           tr_totalCredits := decimalValue (totalCredits r),
                           tr_totalWithholdings := decimalValue (totalWithholdings r),
                           tr_refundAmount := decimalValue (refundAmount r),
                           tr_amountOwed := decimalValue (amountOwed r),
                           tr_stateTaxLiability := decimalValue stateTaxLiability',
                           tr_stateStandardDeduction := decimalValue stateStandardDeduction',
                           tr_stateTaxableIncome := decimalValue stateTaxableIncome',
                           tr_stateEffectiveRate := decimalValue stateEffectiveRate'\<rparr>)
         else None)"

definition pipelineTaxData :: "TaxReturn \<Rightarrow> detected option \<Rightarrow> Database \<Rightarrow> TaxData" where
  \<comment> \<open>\<open>taxData\<close> of step 12, from the tax return as loaded at the start of the request\<close>
  "pipelineTaxData taxReturn detectedStateCode db = \<lparr>
     td_totalIncome = foldl (\<lambda>sum entry. fadd sum (numberOfDecimal (ie_amount entry))) (Num 0)
                        (validIncomeEntries db (tr_id taxReturn)),
     td_filingStatus = tr_filingStatus taxReturn,
     td_dependents = map (\<lambda>r. \<lparr>qualifiesForCTC = dep_qualifiesForCTC r,
                                 qualifiesForEITC = dep_qualifiesForEITC r\<rparr>)
                       (filter (\<lambda>r. dep_taxReturnId r = tr_id taxReturn) (dependentRows db)),
     td_itemizedDeductions = numberOfDecimal (tr_itemizedDeduction taxReturn),
     td_totalWithholdings = Some (numberOfDecimal (tr_totalWithholdings taxReturn)),
     td_stateCode = detectedStateCode,
     td_stateItemizedDeductions = Some (numberOfDecimal (tr_stateItemizedDeduction taxReturn)) \<rparr>"

definition calculationStage ::
  "process_env \<Rightarrow> TaxReturn \<Rightarrow> detected option \<Rightarrow> Database
     \<Rightarrow> EnhancedTaxCalculationResult option \<times> (TaxReturn \<Rightarrow> TaxReturn) option \<times> Database" where
  \<comment> \<open>step 12; the \<open>catch\<close> keeps the pipeline going when the calculation throws\<close>
  "calculationStage env taxReturn detectedStateCode db =
     (let taxData = pipelineTaxData taxReturn detectedStateCode db;
          db1 = deleteOrphanedEntries (tr_id taxReturn) db
      in case calculateEnhancedTaxReturnWithState (pe_deps env) taxData of
           Inl e \<Rightarrow> (None, Some id, db1)
         | Inr r \<Rightarrow> (Some r, calculationUpdate (td_totalIncome taxData) r, db1))"

definition ocrTextOf :: "extracted \<Rightarrow> string option option" where
  \<comment> \<open>\<open>extractedData.fullText || null\<close>; the outer \<open>None\<close> is a value no text column takes\<close>
  "ocrTextOf extractedData =
     (let v = field extractedData ''fullText''
      in if \<not> truthy v then Some None else (case v of JString s \<Rightarrow> Some (Some s) | _ \<Rightarrow> None))"

definition stateUpdate :: "StateDetectionResult \<Rightarrow> string \<Rightarrow> TaxReturn \<Rightarrow> TaxReturn" where
  "stateUpdate r code t =
     t\<lparr>tr_detectedState := Some code,
       tr_stateConfidence := Some (confidence r),
       tr_stateSource := Some (mapStateDetectionSourceToEnum (source r)),
       tr_state := Some code\<rparr>"

definition persistStage ::
  "process_env \<Rightarrow> Document \<Rightarrow> string \<Rightarrow> extracted \<Rightarrow> StateDetectionResult
     \<Rightarrow> DuplicateResult option \<Rightarrow> Form1040Mapping option \<Rightarrow> EnhancedTaxCalculationResult option
     \<Rightarrow> (TaxReturn \<Rightarrow> TaxReturn) option \<Rightarrow> Database \<Rightarrow> (js_error + processed_payload) \<times> Database" where
  \<comment> \<open>step 13: the document update, then the tax return update, then the response\<close>
  "persistStage env document finalDocumentType extractedData stateDetectionResult duplicateCheckResult
       form1040Mapping taxCalculationResult updatedTaxReturnData db =
     (case (if pe_documentUpdateSucceeds env then ocrTextOf extractedData else None) of
        None \<Rightarrow> (Inl (Error ''Database update failed: document update''), db)
      | Some ocrText \<Rightarrow>
         (let toCompleted = (\<lambda>d. d\<lparr>doc_processingStatus := COMPLETED,
                                     doc_ocrText := ocrText,
                                     doc_extractedData := Some extractedData,
                                     doc_documentType := finalDocumentType,
                                     doc_isVerified := False,
                                     doc_updatedAt := pe_now env\<rparr>);
              updatedDocument = toCompleted document;
              db1 = updateDocument (doc_id document) toCompleted db;
              stamp = (\<lambda>t. t\<lparr>tr_lastSavedAt := pe_now env, tr_updatedAt := pe_now env\<rparr>);
              taxReturnUpdate =
                (case updatedTaxReturnData of
                   None \<Rightarrow> None
                 | Some fieldUpdates \<Rightarrow>
                    (case detectedState stateDetectionResult of
                       None \<Rightarrow> Some (stamp \<circ> fieldUpdates)
                     | Some (StateCode code) \<Rightarrow>
                         Some (stateUpdate stateDetectionResult code \<circ> stamp \<circ> fieldUpdates)
                     | Some ObjectConstructor \<Rightarrow> None))
          in case (if pe_taxReturnUpdateSucceeds env then taxReturnUpdate else None) of
               None \<Rightarrow> (Inl (Error ''Database update failed: tax return update''), db1)
             | Some f \<Rightarrow>
                (case findTaxReturn db1 (doc_taxReturnId document) of
                   None \<Rightarrow> (Inl (Error ''Database update failed: record to update not found''), db1)
                 | Some stored \<Rightarrow>
                    (let updatedTaxReturn = f stored;
                         db2 = updateTaxReturn (doc_taxReturnId document) f db1
                     in (Inr \<lparr>
                           pp_documentId = doc_id updatedDocument,
                           pp_extractedData = doc_extractedData updatedDocument,
                           pp_ocrText = doc_ocrText updatedDocument,
                           pp_processingStatus = doc_processingStatus updatedDocument,
                           pp_documentType = doc_documentType updatedDocument,
                           pp_fileName = doc_fileName updatedDocument,
                           pp_detectedState = tr_detectedState updatedTaxReturn,
                           pp_stateConfidence = tr_stateConfidence updatedTaxReturn,
                           pp_stateSource = tr_stateSource updatedTaxReturn,
                           pp_stateDetectionResult = Some stateDetectionResult,
                           pp_taxCalculations = taxCalculationResult,
                           pp_form1040Mapping = form1040Mapping,
                           pp_duplicateCheck = duplicateCheckResult,
                           pp_processedAt = pe_now env,
                           pp_processingTime = pe_now env - doc_createdAt updatedDocument,
                           pp_requiresManualReview =
                             ((case duplicateCheckResult of Some d \<Rightarrow> isDuplicate d | None \<Rightarrow> False)
                              \<or> confidenceBelow (confidence stateDetectionResult)),
                           pp_suggestedActions =
                             generateSuggestedActions duplicateCheckResult (Some stateDetectionResult)
                               taxCalculationResult \<rparr>, db2)))))"

definition correctedTypeOf :: "jsval \<Rightarrow> string \<Rightarrow> string option" where
  \<comment> \<open>step 8: the document type after \<open>extractedData.correctedDocumentType\<close>; \<open>None\<close> when
      the corrected type is a value the document update rejects\<close>
  "correctedTypeOf corrected current =
     (case corrected of
        JString s \<Rightarrow> Some (if s \<noteq> [] then s else current)
      | v \<Rightarrow> if truthy v then None else Some current)"

definition classifierReached :: "extracted \<Rightarrow> bool" where
  \<comment> \<open>state detection gets as far as the classifier request\<close>
  "classifierReached extractedData =
     (detectedState (extractDirectStateField extractedData) = None
      \<and> detectedState (extractStateFromAddresses extractedData) = None)"

record pipeline_state =
  ps_finalDocumentType :: string
  ps_extractedData :: extracted
  ps_stateDetectionResult :: StateDetectionResult
  ps_duplicateCheckResult :: "DuplicateResult option"
  ps_form1040Mapping :: "Form1040Mapping option"
  ps_mappedData :: "TaxReturn \<Rightarrow> TaxReturn"
  ps_db :: Database
  ps_calls :: "ext_call list"

definition pipelineBeforeCalculation ::
  "process_env \<Rightarrow> Document \<Rightarrow> Database \<Rightarrow> (js_error \<times> Database \<times> ext_call list) + pipeline_state" where
  \<comment> \<open>steps 4 to 11; \<open>Inl\<close> is an exception that reaches the outer \<open>catch\<close>\<close>
  "pipelineBeforeCalculation env document db =
     (let db1 = updateDocument (doc_id document)
                  (\<lambda>d. d\<lparr>doc_processingStatus := PROCESSING, doc_updatedAt := pe_now env\<rparr>) db
      in if \<not> pe_azureConfigured env then
           Inl (Error ''Azure Document Intelligence credentials not configured. Please contact support.'',
                db1, [])
         else
           (case pe_extract env (doc_filePath document) (doc_documentType document) of
              Inl extractionError \<Rightarrow>
                Inl (Error (''Document extraction failed: '' @ errorMessage extractionError), db1,
                     [CallExtraction (doc_filePath document) (doc_documentType document)])
            | Inr extractedData \<Rightarrow>
               (let calls1 = [CallExtraction (doc_filePath document) (doc_documentType document)];
                    corrected = field extractedData ''correctedDocumentType''
                in case correctedTypeOf corrected (doc_documentType document) of
                     None \<Rightarrow> Inl (Error ''Invalid value for argument documentType'', db1, calls1)
                   | Some finalDocumentType \<Rightarrow>
                     (let db2 = (if truthy corrected
                                 then updateDocument (doc_id document)
                                        (\<lambda>d. d\<lparr>doc_documentType := finalDocumentType\<rparr>) db1
                                 else db1);
                          stateDetectionResult =
                            detectStateFromDocument (pe_detect env) finalDocumentType extractedData;
                          calls2 = calls1 @ (if classifierReached extractedData then [CallClassifier] else []);
                          duplicateCheckResult =
                            (case pe_checkForDuplicates env finalDocumentType extractedData
                                    (doc_taxReturnId document) of
                               Inl e \<Rightarrow> None
                             | Inr r \<Rightarrow> Some r);
                          calls3 = calls2 @ [CallDuplicateCheck]
                      in case mappingStage env document finalDocumentType extractedData db2 of
                           (form1040Mapping, mappedData, db3) \<Rightarrow>
                             Inr \<lparr>ps_finalDocumentType = finalDocumentType,
                                  ps_extractedData = extractedData,
                                  ps_stateDetectionResult = stateDetectionResult,
                                  ps_duplicateCheckResult = duplicateCheckResult,
                                  ps_form1040Mapping = form1040Mapping,
                                  ps_mappedData = mappedData,
                                  ps_db = db3,
                                  ps_calls = calls3\<rparr>))))"

definition processPipeline ::
  "process_env \<Rightarrow> Document \<Rightarrow> TaxReturn \<Rightarrow> Database
     \<Rightarrow> (js_error + processed_payload) \<times> Database \<times> ext_call list" where
  \<comment> \<open>steps 4 to 13; \<open>Inl\<close> is an exception that reaches the outer \<open>catch\<close>\<close>
  "processPipeline env document taxReturn db =
     (case pipelineBeforeCalculation env document db of
        Inl (error, db', calls) \<Rightarrow> (Inl error, db', calls)
      | Inr ps \<Rightarrow>
         (case calculationStage env taxReturn (detectedState (ps_stateDetectionResult ps)) (ps_db ps) of
            (taxCalculationResult, calculatedData, db4) \<Rightarrow>
              (case persistStage env document (ps_finalDocumentType ps) (ps_extractedData ps)
                      (ps_stateDetectionResult ps) (ps_duplicateCheckResult ps) (ps_form1040Mapping ps)
                      taxCalculationResult
                      (map_option (\<lambda>calculated. calculated \<circ> ps_mappedData ps) calculatedData) db4 of
                 (outcome, db5) \<Rightarrow> (outcome, db5, ps_calls ps))))"

definition markFailed :: "process_env \<Rightarrow> ident \<Rightarrow> Database \<Rightarrow> Database" where
  \<comment> \<open>the update to FAILED in the outer \<open>catch\<close>; its own failure is swallowed\<close>
  "markFailed env paramsId db =
     (if pe_markFailedSucceeds env
      then updateDocument paramsId
             (\<lambda>d. d\<lparr>doc_processingStatus := FAILED, doc_updatedAt := pe_now env\<rparr>) db
      else db)"

definition POST :: "process_env \<Rightarrow> ident \<Rightarrow> Database \<Rightarrow> process_response \<times> Database \<times> ext_call list" where
  "POST env paramsId db =
     (case pe_sessionEmail env of
        None \<Rightarrow> (Unauthorized401, db, [])
      | Some email \<Rightarrow>
         (case findUser db email of
            None \<Rightarrow> (UserNotFound404, db, [])
          | Some user \<Rightarrow>
             (case findOwnedDocument db paramsId (user_id user) of
                None \<Rightarrow> (DocumentNotFound404, db, [])
              | Some document \<Rightarrow>
                 (case findTaxReturn db (doc_taxReturnId document) of
                    None \<Rightarrow> (DocumentNotFound404, db, [])
                  | Some taxReturn \<Rightarrow>
                      if doc_processingStatus document = COMPLETED then
                        (AlreadyCompleted200 (completedPayload document taxReturn), db, [])
                      else if doc_processingStatus document = PROCESSING then (Conflict409, db, [])
                      else
                        (case processPipeline env document taxReturn db of
                           (Inr payload, db', calls) \<Rightarrow> (Processed200 payload, db', calls)
                         | (Inl error, db', calls) \<Rightarrow>
                             (Failed500 (categorizeError error)
                                (if pe_development env then errorMessage error
                                 else getUserFriendlyErrorMessage (categorizeError error)),
                              markFailed env paramsId db', calls))))))"

definition responseStatus :: "process_response \<Rightarrow> int" where
  \<comment> \<open>the HTTP status of each response\<close>
  "responseStatus r =
     (case r of
        Unauthorized401 \<Rightarrow> 401
      | UserNotFound404 \<Rightarrow> 404
      | DocumentNotFound404 \<Rightarrow> 404
      | AlreadyCompleted200 p \<Rightarrow> 200
      | Conflict409 \<Rightarrow> 409
      | Processed200 p \<Rightarrow> 200
      | Failed500 errorType message \<Rightarrow> 500)"

definition responseErrorType :: "process_response \<Rightarrow> string option" where
  "responseErrorType r = (case r of Failed500 errorType message \<Rightarrow> Some errorType | _ \<Rightarrow> None)"

definition responseTaxCalculations :: "process_response \<Rightarrow> EnhancedTaxCalculationResult option" where
  "responseTaxCalculations r = (case r of Processed200 p \<Rightarrow> pp_taxCalculations p | _ \<Rightarrow> None)"

text \<open>
  The accumulation the specification describes for the bracket table: every bracket whose
  floor lies below the income contributes the part of the income inside it, at its rate,
  and the sum is rounded to cents. \<open>spec_marginalTax\<close> and \<open>spec_roundToCents\<close> read
  this in exact arithmetic, with the table's numbers as they are written.
\<close>

definition spec_marginalTax :: "rat \<Rightarrow> StateTaxBracket list \<Rightarrow> rat" where
  "spec_marginalTax I bs =
     (\<Sum>b \<leftarrow> filter (\<lambda>b. minB b < I) bs.
        ((case maxB b of Infinity \<Rightarrow> I | Fin m \<Rightarrow> min I m) - minB b) * rate b)"

definition spec_roundToCents :: "rat \<Rightarrow> rat" where
  "spec_roundToCents x = of_int \<lfloor>x * 100 + 1 / 2\<rfloor> / 100"

text \<open>
  The same accumulation in double arithmetic: the brackets are taken in the order of the
  table, every difference, product and sum is rounded to a double, and the rounding to
  cents multiplies by 100, takes the nearest integer and divides by 100, in doubles too.
\<close>

definition spec_cappedIncome :: "jsnum \<Rightarrow> StateTaxBracket \<Rightarrow> jsnum" where
  "spec_cappedIncome I b = (case maxB b of Infinity \<Rightarrow> I | Fin m \<Rightarrow> if jsLe I (fl m) then I else fl m)"

definition spec_bracketTax :: "jsnum \<Rightarrow> StateTaxBracket \<Rightarrow> jsnum" where
  "spec_bracketTax I b = fmul (fsub (spec_cappedIncome I b) (fl (minB b))) (fl (rate b))"

definition spec_doubleSum :: "jsnum \<Rightarrow> StateTaxBracket list \<Rightarrow> jsnum" where
  "spec_doubleSum I bs =
     foldl (\<lambda>tax b. fadd tax (spec_bracketTax I b)) (Num 0) (filter (\<lambda>b. jsLt (fl (minB b)) I) bs)"

definition spec_doubleCents :: "jsnum \<Rightarrow> jsnum" where
  "spec_doubleCents t =
     (case fmul t (Num 100) of Num c \<Rightarrow> fl (of_int \<lfloor>c + 1 / 2\<rfloor> / 100) | other \<Rightarrow> other)"

definition isDouble :: "jsnum \<Rightarrow> bool" where
  \<comment> \<open>a finite number is one of the doubles\<close>
  "isDouble x = (case x of Num r \<Rightarrow> fl r = Num r | _ \<Rightarrow> True)"

section \<open>Example data\<close>

definition demoTaxReturn :: TaxReturn where
  "demoTaxReturn = \<lparr>tr_id = ''t1'', tr_userId = ''u1'', tr_filingStatus = ''SINGLE'',
     tr_firstName = None, tr_lastName = None, tr_ssn = None, tr_address = None, tr_city = None,
     tr_state = None, tr_zipCode = None,
     tr_totalIncome = 85000, tr_adjustedGrossIncome = 85000, tr_standardDeduction = 14600,
     tr_itemizedDeduction = 0, tr_taxableIncome = 70400, tr_taxLiability = 10541,
     tr_totalCredits = 0, tr_totalWithholdings = 9000, tr_refundAmount = 0, tr_amountOwed = 1541,
     tr_stateTaxLiability = 3000, tr_stateStandardDeduction = 0, tr_stateTaxableIncome = 0,
     tr_stateEffectiveRate = 0, tr_stateItemizedDeduction = 0,
     tr_detectedState = None, tr_stateConfidence = None, tr_stateSource = None,
     tr_lastSavedAt = 0, tr_updatedAt = 0\<rparr>"

definition demoDocument :: "ident \<Rightarrow> ProcessingStatus \<Rightarrow> Document" where
  "demoDocument i st = \<lparr>doc_id = i, doc_taxReturnId = ''t1'', doc_fileName = ''w2.pdf'',
     doc_filePath = ''/uploads/w2.pdf'', doc_documentType = ''W2'', doc_processingStatus = st,
     doc_extractedData = None, doc_ocrText = None, doc_isVerified = False,
     doc_createdAt = 0, doc_updatedAt = 0\<rparr>"

definition demoEntry :: "ident option \<Rightarrow> rat \<Rightarrow> rat option \<Rightarrow> IncomeEntry" where
  "demoEntry d a w = \<lparr>ie_taxReturnId = ''t1'', ie_documentId = d, ie_incomeType = ''W2_WAGES'',
     ie_description = ''W2 wages'', ie_amount = a, ie_employerName = None, ie_employerEIN = None,
     ie_payerName = None, ie_payerTIN = None, ie_federalTaxWithheld = w\<rparr>"

definition demoDatabase :: Database where
  "demoDatabase = \<lparr>
     users = [\<lparr>user_id = ''u1'', user_email = ''ann@example.org''\<rparr>],
     documents = [demoDocument ''d1'' COMPLETED, demoDocument ''d2'' COMPLETED],
     incomeEntries = [demoEntry (Some ''d1'') 55000 (Some 6000), demoEntry (Some ''d2'') 30000 (Some 3000),
                      demoEntry None 700 None],
     extractedEntries = [\<lparr>dee_documentId = ''d1''\<rparr>],
     dependentRows = [],
     taxReturns = [demoTaxReturn]\<rparr>"


definition demoStreamEnv :: stream_env where
  "demoStreamEnv = \<lparr>st_sessionEmail = Some ''ann@example.org'',
     st_reads = (\<lambda>k. ReadFinds (Some (demoDocument ''d1'' PROCESSING))),
     st_clock = (\<lambda>k. 2000 * int k)\<rparr>"

definition demoStreamDatabase :: Database where
  "demoStreamDatabase = demoDatabase\<lparr>documents := [demoDocument ''d1'' PROCESSING]\<rparr>"

definition demoDeps :: deps where
  \<comment> \<open>a stand-in for the federal module: one flat 10% bracket, no credits\<close>
  "demoDeps = \<lparr>
     calculateTaxReturn = (\<lambda>d. Inr \<lparr>
        grossIncome = fd_totalIncome d, adjustedGrossIncome = fd_totalIncome d,
        fedStandardDeduction = Num 14600, itemizedDeduction = fd_itemizedDeductions d,
        taxableIncome = mathMax2 (Num 0) (fsub (fd_totalIncome d) (Num 14600)),
        taxLiability = fdiv (mathMax2 (Num 0) (fsub (fd_totalIncome d) (Num 14600))) (Num 10),
        childTaxCredit = Num 0, earnedIncomeCredit = Num 0, totalCredits = Num 0,
        totalWithholdings = (case fd_totalWithholdings d of None \<Rightarrow> Num 0 | Some w \<Rightarrow> w),
        finalTax = fdiv (mathMax2 (Num 0) (fsub (fd_totalIncome d) (Num 14600))) (Num 10),
        refundAmount = Num 0, amountOwed = Num 0, effectiveRate = Num 0, marginalRate = Num 10 \<rparr>),
     calculateTaxLiability = (\<lambda>income status. Inr (fdiv income (Num 10))),
     getStandardDeduction = (\<lambda>status. Inr (Num 14600)),
     toLocaleString = (\<lambda>r. ''n''),
     toFixed = (\<lambda>r digits. ''n'') \<rparr>"

definition demoTaxData :: "detected option \<Rightarrow> TaxData" where
  "demoTaxData code = \<lparr>td_totalIncome = Num 80000, td_filingStatus = ''SINGLE'', td_dependents = [],
     td_itemizedDeductions = Num 5000, td_totalWithholdings = Some (Num 6000), td_stateCode = code,
     td_stateItemizedDeductions = Some (Num 5000)\<rparr>"

definition demoEnvUnreachable :: detect_env where
  "demoEnvUnreachable = \<lparr>classify = (\<lambda>documentType data. FetchRejected), toNumber = (\<lambda>v. NaN)\<rparr>"

definition demoExtractedZZ :: extracted where
  "demoExtractedZZ = [(''employeeState'', JString ''ZZ''), (''employeeAddress'', JString ''1 Infinite Loop''),
                      (''wages'', JString ''$55,000.00'')]"

definition demoFailingDeps :: deps where
  \<comment> \<open>a federal module whose tax return calculation throws\<close>
  "demoFailingDeps = demoDeps\<lparr>calculateTaxReturn := (\<lambda>d. Inl (Error ''Tax calculation failed''))\<rparr>"

definition demoFailingLiabilityDeps :: deps where
  \<comment> \<open>a federal module whose tax liability calculation throws on an income above 50000\<close>
  "demoFailingLiabilityDeps =
     demoDeps\<lparr>calculateTaxLiability :=
       (\<lambda>income status. if jsLt (Num 50000) income then Inl (Error ''Invalid taxable income'')
                         else Inr (fdiv income (Num 10)))\<rparr>"

definition demoProcessEnv :: "deps \<Rightarrow> process_env" where
  "demoProcessEnv D = \<lparr>
     pe_sessionEmail = Some ''ann@example.org'',
     pe_now = 5000,
     pe_azureConfigured = True,
     pe_development = False,
     pe_extract = (\<lambda>path documentType. Inr demoExtractedZZ),
     pe_detect = demoEnvUnreachable,
     pe_checkForDuplicates = (\<lambda>documentType data taxReturnId.
        Inr \<lparr>isDuplicate = False, dup_confidence = Num 0, matchingDocuments = []\<rparr>),
     pe_mapW2 = (\<lambda>data. Inr \<lparr>m_firstName = Some ''Ann'', m_lastName = None, m_ssn = None,
        m_address = None, m_city = None, m_state = None, m_zipCode = None\<rparr>),
     pe_map1099 = (\<lambda>data. Inl (Error ''not a 1099'')),
     pe_deps = D,
     pe_toString = (\<lambda>v. ''value''),
     pe_documentUpdateSucceeds = True,
     pe_taxReturnUpdateSucceeds = True,
     pe_markFailedSucceeds = True \<rparr>"

definition demoPendingDatabase :: Database where
  "demoPendingDatabase = demoDatabase\<lparr>documents := [demoDocument ''d3'' PENDING], incomeEntries := []\<rparr>"

definition demoBracketsCA :: "StateTaxBracket list" where
  \<comment> \<open>the brackets of California for a single filer, as in the table\<close>
  "demoBracketsCA = [
     \<lparr>minB = 0, maxB = Fin 10099, rate = 1 / 100\<rparr>,
     \<lparr>minB = 10100, maxB = Fin 23942, rate = 2 / 100\<rparr>,
     \<lparr>minB = 23943, maxB = Fin 37788, rate = 4 / 100\<rparr>,
     \<lparr>minB = 37789, maxB = Fin 52455, rate = 6 / 100\<rparr>,
     \<lparr>minB = 52456, maxB = Fin 66295, rate = 8 / 100\<rparr>,
     \<lparr>minB = 66296, maxB = Fin 338639, rate = 93 / 1000\<rparr>,
     \<lparr>minB = 338640, maxB = Fin 406364, rate = 103 / 1000\<rparr>,
     \<lparr>minB = 406365, maxB = Fin 677278, rate = 113 / 1000\<rparr>,
     \<lparr>minB = 677279, maxB = Infinity, rate = 123 / 1000\<rparr>]"

definition demoConstructorAddress :: extracted where
  "demoConstructorAddress = [(''employeeAddress'', JString ''12345 Constructor'')]"

definition demoCompletedDocument :: Document where
  "demoCompletedDocument = \<lparr>doc_id = ''d7'', doc_taxReturnId = ''t7'', doc_fileName = ''w2-2023.pdf'',
     doc_filePath = ''/uploads/w2-2023.pdf'', doc_documentType = ''W2'',
     doc_processingStatus = COMPLETED,
     doc_extractedData = Some [(''wages'', JString ''85,000.00''), (''employeeState'', JString ''CA'')],
     doc_ocrText = Some ''Form W-2 Wage and Tax Statement'', doc_isVerified = False,
     doc_createdAt = 1000, doc_updatedAt = 4000\<rparr>"

definition demoCompletedTaxReturn :: TaxReturn where
  "demoCompletedTaxReturn = demoTaxReturn\<lparr>tr_id := ''t7'',
     tr_taxLiability := 105411 / 10, tr_amountOwed := 15411 / 10, tr_stateTaxLiability := 300055 / 100,
     tr_detectedState := Some ''CA'', tr_stateConfidence := Some (fl (95 / 100)),
     tr_stateSource := Some ADDRESS\<rparr>"

definition demoCompletedDatabase :: Database where
  "demoCompletedDatabase = \<lparr>
     users = [\<lparr>user_id = ''u1'', user_email = ''ann@example.org''\<rparr>],
     documents = [demoCompletedDocument],
     incomeEntries = [(demoEntry (Some ''d7'') 85000 (Some 9000))\<lparr>ie_taxReturnId := ''t7''\<rparr>],
     extractedEntries = [],
     dependentRows = [],
     taxReturns = [demoTaxReturn, demoCompletedTaxReturn]\<rparr>"

section \<open>Properties of rounding to doubles\<close>

lemma powInt_eq: "0 \<le> n \<Longrightarrow> powInt b n = b ^ nat n"
proof (induction b n rule: powInt.induct)
  case (1 b n)
  show ?case
  proof (cases "n \<le> 0")
    case True
    with 1 show ?thesis by (simp add: powInt.simps)
  next
    case False
    then have h: "0 \<le> n div 2" by simp
    have ih: "powInt b (n div 2) = b ^ nat (n div 2)"
      using 1 False h by (cases "even n") auto
    have n2: "nat n = 2 * nat (n div 2) + (if even n then 0 else 1)"
      using False by (auto elim!: evenE oddE simp: nat_mult_distrib nat_add_distrib)
    have "powInt b n = (if even n then b ^ nat (n div 2) * b ^ nat (n div 2)
                         else b * (b ^ nat (n div 2) * b ^ nat (n div 2)))"
      using False ih by (subst powInt.simps) simp
    also have "\<dots> = b ^ (2 * nat (n div 2) + (if even n then 0 else 1))"
      by (simp add: power_add power_mult power2_eq_square mult_2)
    also have "\<dots> = b ^ nat n" using n2 by simp
    finally show ?thesis .
  qed
qed

lemma pow2_eq: "pow2 e = power_int 2 e"
  by (simp add: pow2_def powInt_eq power_int_def field_simps)

lemma pow2_pos: "0 < pow2 e"
  by (simp add: pow2_eq)

lemma pow2_add: "pow2 (a + b) = pow2 a * pow2 b"
  by (simp add: pow2_eq power_int_add)

lemma pow2_mono: "a \<le> b \<Longrightarrow> pow2 a \<le> pow2 b"
  by (simp add: pow2_eq power_int_increasing)

lemma pow2_strict_mono: "a < b \<Longrightarrow> pow2 a < pow2 b"
  by (simp add: pow2_eq power_int_strict_increasing)

lemma pow2_nat: "pow2 (int n) = 2 ^ n"
  by (simp add: pow2_eq)

lemma ilog2_bounds: "1 \<le> n \<Longrightarrow> 0 \<le> ilog2 n \<and> 2 ^ nat (ilog2 n) \<le> n \<and> n < 2 ^ nat (ilog2 n + 1)"
proof (induction n rule: ilog2.induct)
  case (1 n)
  show ?case
  proof (cases "n < 2")
    case True
    with 1 show ?thesis by (simp add: ilog2.simps)
  next
    case False
    then have h: "1 \<le> n div 2" by simp
    from 1 False h have ih: "0 \<le> ilog2 (n div 2)" "2 ^ nat (ilog2 (n div 2)) \<le> n div 2"
      "n div 2 < 2 ^ nat (ilog2 (n div 2) + 1)" by auto
    have e: "ilog2 n = 1 + ilog2 (n div 2)" using False by (simp add: ilog2.simps)
    have n1: "nat (1 + ilog2 (n div 2)) = Suc (nat (ilog2 (n div 2)))" using ih(1) by simp
    have n2: "nat (1 + ilog2 (n div 2) + 1) = Suc (nat (ilog2 (n div 2) + 1))" using ih(1) by simp
    show ?thesis unfolding e n1 n2 using ih by auto
  qed
qed

lemma floorLog2_bounds:
  assumes "0 < x"
  shows "pow2 (floorLog2 x) \<le> x \<and> x < pow2 (floorLog2 x + 1)"
proof -
  obtain p q where pq: "quotient_of x = (p, q)" by (cases "quotient_of x")
  then have q: "0 < q" and x: "x = of_int p / of_int q"
    by (auto simp: quotient_of_denom_pos quotient_of_div)
  from assms x q have p: "1 \<le> p" by (simp add: zero_less_divide_iff)
  define a where "a = ilog2 p"
  define b where "b = ilog2 q"
  from ilog2_bounds[of p] p have a: "0 \<le> a" "2 ^ nat a \<le> p" "p < 2 ^ nat (a + 1)"
    by (auto simp: a_def)
  from ilog2_bounds[of q] q have b: "0 \<le> b" "2 ^ nat b \<le> q" "q < 2 ^ nat (b + 1)"
    by (auto simp: b_def)
  have pa: "pow2 a \<le> of_int p" "of_int p < pow2 (a + 1)"
    using a by (simp_all add: pow2_eq power_int_def of_int_le_numeral_power_cancel_iff
        of_int_less_numeral_power_cancel_iff)
  have qb: "pow2 b \<le> of_int q" "of_int q < pow2 (b + 1)"
    using b by (simp_all add: pow2_eq power_int_def of_int_le_numeral_power_cancel_iff
        of_int_less_numeral_power_cancel_iff)
  have qpos: "(0::rat) < of_int q" using q by simp
  have lo: "pow2 (a - b - 1) < x"
  proof -
    have "pow2 (a - b - 1) * of_int q < pow2 (a - b - 1) * pow2 (b + 1)"
      using qb(2) pow2_pos[of "a - b - 1"] by simp
    also have "\<dots> = pow2 a" by (simp add: pow2_add[symmetric])
    also have "\<dots> \<le> of_int p" by (rule pa(1))
    finally show ?thesis using qpos by (simp add: x pos_less_divide_eq)
  qed
  have hi: "x < pow2 (a - b + 1)"
  proof -
    have "of_int p < pow2 (a + 1)" by (rule pa(2))
    also have "\<dots> = pow2 (a - b + 1) * pow2 b" by (simp add: pow2_add[symmetric])
    also have "\<dots> \<le> pow2 (a - b + 1) * of_int q"
      using qb(1) pow2_pos[of "a - b + 1"] by simp
    finally show ?thesis using qpos by (simp add: x pos_divide_less_eq)
  qed
  have fl: "floorLog2 x = (if x < pow2 (a - b) then a - b - 1 else a - b)"
    by (simp add: floorLog2_def pq a_def b_def Let_def)
  show ?thesis
  proof (cases "x < pow2 (a - b)")
    case True
    with lo fl show ?thesis by simp
  next
    case False
    with hi fl show ?thesis by simp
  qed
qed

lemma floorLog2_unique:
  assumes "pow2 e \<le> x" "x < pow2 (e + 1)"
  shows "floorLog2 x = e"
proof -
  have x: "0 < x" using assms(1) pow2_pos[of e] by simp
  note b = floorLog2_bounds[OF x]
  have "\<not> floorLog2 x + 1 \<le> e"
  proof
    assume "floorLog2 x + 1 \<le> e"
    then have "pow2 (floorLog2 x + 1) \<le> pow2 e" by (rule pow2_mono)
    with b assms(1) show False by simp
  qed
  moreover have "\<not> e + 1 \<le> floorLog2 x"
  proof
    assume "e + 1 \<le> floorLog2 x"
    then have "pow2 (e + 1) \<le> pow2 (floorLog2 x)" by (rule pow2_mono)
    with b assms(2) show False by simp
  qed
  ultimately show ?thesis by simp
qed

lemma roundHalfEven_of_int: "roundHalfEven (of_int m) = m"
  by (simp add: roundHalfEven_def)

lemma roundHalfEven_bounds:
  assumes "of_int lo \<le> x" "x \<le> of_int hi"
  shows "lo \<le> roundHalfEven x \<and> roundHalfEven x \<le> hi"
proof -
  have f: "lo \<le> \<lfloor>x\<rfloor>" using assms(1) by (simp add: le_floor_iff)
  have c: "\<lfloor>x\<rfloor> \<le> hi" using assms(2) by (simp add: floor_le_iff) 
  have "x - of_int \<lfloor>x\<rfloor> \<noteq> 0 \<Longrightarrow> \<lfloor>x\<rfloor> + 1 \<le> hi"
  proof -
    assume "x - of_int \<lfloor>x\<rfloor> \<noteq> 0"
    moreover have "of_int \<lfloor>x\<rfloor> \<le> x" by simp
    ultimately have "of_int \<lfloor>x\<rfloor> < x" by linarith
    with assms(2) have "(of_int \<lfloor>x\<rfloor> :: rat) < of_int hi" by simp
    then show ?thesis by simp
  qed
  then show ?thesis using f c
    by (auto simp: roundHalfEven_def Let_def)
qed

lemma pow2_52: "pow2 (e - 52) * 2 ^ 52 = pow2 e"
proof -
  have "pow2 (e - 52) * pow2 (int 52) = pow2 ((e - 52) + int 52)" by (rule pow2_add[symmetric])
  then show ?thesis unfolding pow2_nat by simp
qed

lemma pow2_53: "pow2 (e - 52) * 2 ^ 53 = pow2 (e + 1)"
proof -
  have "pow2 (e - 52) * pow2 (int 53) = pow2 ((e - 52) + int 53)" by (rule pow2_add[symmetric])
  then show ?thesis unfolding pow2_nat by (simp add: add.commute)
qed

lemma fl_of_scaled:
  assumes m: "0 < m" "m \<le> 2 ^ 53"
    and e: "- 1022 \<le> e" "e \<le> 1023" "\<not> (e = 1023 \<and> 2 ^ 53 \<le> m)"
    and sub: "m < 2 ^ 52 \<Longrightarrow> e = - 1022"
    and s: "s = 1 \<or> s = - 1"
  shows "fl (s * of_int m * pow2 (e - 52)) = Num (s * of_int m * pow2 (e - 52))"
proof -
  define u where "u = pow2 (e - 52)"
  define y where "y = s * of_int m * u"
  have u: "0 < u" by (simp add: u_def pow2_pos)
  have mpos: "(0::rat) < of_int m" using m(1) by simp
  have ay: "\<bar>y\<bar> = of_int m * u" using s u mpos by (auto simp: y_def abs_mult)
  have ypos: "(0 < y) = (s = 1)" using s u mpos by (auto simp: y_def zero_less_mult_iff)
  have y0: "y \<noteq> 0" using s u mpos by (auto simp: y_def)
  have sy: "(if 0 < y then 1 else - 1) = s" using ypos s by auto
  have fly: "fl y = flAt y (max (floorLog2 \<bar>y\<bar>) (- 1022))" using y0 by (simp add: fl_def)
  consider (top) "m = 2 ^ 53" | (normal) "2 ^ 52 \<le> m" "m < 2 ^ 53" | (subnormal) "m < 2 ^ 52"
    using m(2) by linarith
  then have "fl y = Num y"
  proof cases
    case top
    then have e1: "e < 1023" using e by simp
    have ay': "\<bar>y\<bar> = pow2 (e + 1)" using pow2_53[of e] by (simp add: ay top u_def mult.commute)
    have "floorLog2 \<bar>y\<bar> = e + 1"
      by (rule floorLog2_unique) (simp_all add: ay' pow2_strict_mono)
    then have ex: "max (floorLog2 \<bar>y\<bar>) (- 1022) = e + 1" using e by simp
    have "\<bar>y\<bar> / pow2 (e + 1 - 52) = 2 ^ 52"
      using pow2_52[of "e + 1"] pow2_pos[of "e + 1 - 52"] by (simp add: ay' field_simps)
    then have "roundHalfEven (\<bar>y\<bar> / pow2 (e + 1 - 52)) = 2 ^ 52"
      using roundHalfEven_of_int[of "2 ^ 52"] by simp
    then have "fl y = Num (s * 2 ^ 52 * pow2 (e + 1 - 52))"
      using e1 sy by (simp add: fly ex flAt_def flScaled_def)
    also have "s * 2 ^ 52 * pow2 (e + 1 - 52) = s * pow2 (e + 1)"
      using pow2_52[of "e + 1"] by (simp add: mult.assoc mult.commute)
    also have "\<dots> = y" using pow2_53[of e] by (simp add: y_def top u_def mult.assoc mult.commute)
    finally show ?thesis .
  next
    case normal
    have lo: "pow2 e \<le> \<bar>y\<bar>"
    proof -
      have "pow2 e = 2 ^ 52 * u" using pow2_52[of e] by (simp add: u_def mult.commute)
      also have "\<dots> \<le> of_int m * u" using normal(1) u by simp
      finally show ?thesis by (simp add: ay)
    qed
    have hi: "\<bar>y\<bar> < pow2 (e + 1)"
    proof -
      have "of_int m * u < 2 ^ 53 * u" using normal(2) u by simp
      also have "\<dots> = pow2 (e + 1)" using pow2_53[of e] by (simp add: u_def mult.commute)
      finally show ?thesis by (simp add: ay)
    qed
    have "floorLog2 \<bar>y\<bar> = e" using lo hi by (rule floorLog2_unique)
    then have ex: "max (floorLog2 \<bar>y\<bar>) (- 1022) = e" using e by simp
    have "\<bar>y\<bar> / pow2 (e - 52) = of_int m" using u by (simp add: ay u_def)
    then have "roundHalfEven (\<bar>y\<bar> / pow2 (e - 52)) = m" by (simp add: roundHalfEven_of_int)
    then have "fl y = Num (s * of_int m * pow2 (e - 52))"
      using e normal sy by (simp add: fly ex flAt_def flScaled_def)
    then show ?thesis by (simp add: y_def u_def)
  next
    case subnormal
    then have e': "e = - 1022" by (rule sub)
    have hi: "\<bar>y\<bar> < pow2 e"
    proof -
      have "of_int m * u < 2 ^ 52 * u" using subnormal u by simp
      also have "\<dots> = pow2 e" using pow2_52[of e] by (simp add: u_def mult.commute)
      finally show ?thesis by (simp add: ay)
    qed
    have "0 < \<bar>y\<bar>" using y0 by simp
    from floorLog2_bounds[OF this] hi have "pow2 (floorLog2 \<bar>y\<bar>) < pow2 e" by simp
    then have "floorLog2 \<bar>y\<bar> < e" using pow2_mono[of e "floorLog2 \<bar>y\<bar>"] by fastforce
    then have ex: "max (floorLog2 \<bar>y\<bar>) (- 1022) = e" using e' by simp
    have "\<bar>y\<bar> / pow2 (e - 52) = of_int m" using u by (simp add: ay u_def)
    then have "roundHalfEven (\<bar>y\<bar> / pow2 (e - 52)) = m" by (simp add: roundHalfEven_of_int)
    then have "fl y = Num (s * of_int m * pow2 (e - 52))"
      using e' sy by (simp add: fly ex flAt_def flScaled_def)
    then show ?thesis by (simp add: y_def u_def)
  qed
  then show ?thesis by (simp add: y_def u_def)
qed

lemma fl_idem:
  assumes "fl x = Num y"
  shows "fl y = Num y"
proof (cases "x = 0")
  case True
  with assms show ?thesis by (simp add: fl_def)
next
  case False
  define a where "a = \<bar>x\<bar>"
  define e where "e = max (floorLog2 a) (- 1022)"
  define m where "m = roundHalfEven (a / pow2 (e - 52))"
  define s :: rat where "s = (if 0 < x then 1 else - 1)"
  have a: "0 < a" using False by (simp add: a_def)
  have flx: "fl x = flScaled x e m" using False by (simp add: fl_def flAt_def a_def e_def m_def)
  from assms flx have nov: "\<not> (1023 < e \<or> (e = 1023 \<and> 2 ^ 53 \<le> m))"
    by (auto simp: flScaled_def split: if_splits)
  with assms flx have y: "y = s * of_int m * pow2 (e - 52)"
    by (auto simp: flScaled_def s_def split: if_splits)
  have u: "0 < pow2 (e - 52)" by (rule pow2_pos)
  have ehi: "a < pow2 (e + 1)"
  proof -
    from floorLog2_bounds[OF a] have "a < pow2 (floorLog2 a + 1)" by simp
    also have "\<dots> \<le> pow2 (e + 1)" by (rule pow2_mono) (simp add: e_def)
    finally show ?thesis .
  qed
  have q0: "of_int 0 \<le> a / pow2 (e - 52)" using a u by simp
  have q1: "a / pow2 (e - 52) \<le> of_int (2 ^ 53)"
    using ehi u pow2_53[of e] by (simp add: pos_divide_le_eq mult.commute)
  from roundHalfEven_bounds[OF q0 q1] have mb: "0 \<le> m" "m \<le> 2 ^ 53" by (simp_all add: m_def)
  show ?thesis
  proof (cases "m = 0")
    case True
    then show ?thesis by (simp add: y fl_def)
  next
    case m0: False
    have sub: "e = - 1022" if "m < 2 ^ 52"
    proof (rule ccontr)
      assume "e \<noteq> - 1022"
      then have ef: "e = floorLog2 a" by (simp add: e_def max_def split: if_splits)
      from floorLog2_bounds[OF a] have "pow2 e \<le> a" by (simp add: ef)
      then have "of_int (2 ^ 52) \<le> a / pow2 (e - 52)"
        using u pow2_52[of e] by (simp add: pos_le_divide_eq mult.commute)
      from roundHalfEven_bounds[OF this q1] have "2 ^ 52 \<le> m" by (simp add: m_def)
      with that show False by simp
    qed
    have "fl (s * of_int m * pow2 (e - 52)) = Num (s * of_int m * pow2 (e - 52))"
    proof (rule fl_of_scaled)
      show "0 < m" using mb m0 by simp
      show "m \<le> 2 ^ 53" by (rule mb)
      show "- 1022 \<le> e" by (simp add: e_def)
      show "e \<le> 1023" using nov by simp
      show "\<not> (e = 1023 \<and> 2 ^ 53 \<le> m)" using nov by simp
      show "m < 2 ^ 52 \<Longrightarrow> e = - 1022" by (rule sub)
      show "s = 1 \<or> s = - 1" by (simp add: s_def)
    qed
    then show ?thesis by (simp add: y)
  qed
qed

lemma fl_not_NaN: "fl x \<noteq> NaN"
  by (simp add: fl_def flAt_def flScaled_def)

lemma isDouble_fl: "isDouble (fl x)"
  by (auto simp: isDouble_def fl_not_NaN dest: fl_idem split: jsnum.splits)

lemma isDouble_fadd: "isDouble (fadd x y)"
  by (cases x; cases y) (simp_all add: isDouble_fl, simp_all add: isDouble_def)

lemma isDouble_fmul: "isDouble (fmul x y)"
  by (cases x; cases y) (simp_all add: isDouble_fl, simp_all add: isDouble_def infOfSign_def)

lemma fadd_zero_left: "isDouble z \<Longrightarrow> fadd (Num 0) z = z"
  by (cases z) (simp_all add: isDouble_def)

lemma fsub_zero_right: "isDouble z \<Longrightarrow> fsub z (Num 0) = z"
  by (cases z) (simp_all add: isDouble_def fsub_def fneg_def)

lemma jsLe_trans: "jsLe x y \<Longrightarrow> jsLe y z \<Longrightarrow> jsLe x z"
  by (cases x; cases y; cases z) simp_all

lemma jsLt_iff_not_jsLe: "x \<noteq> NaN \<Longrightarrow> y \<noteq> NaN \<Longrightarrow> jsLt x y = (\<not> jsLe y x)"
  by (cases x; cases y) (auto simp: jsLt_def)

section \<open>Properties of the state tax calculation\<close>

lemmas state_info_defs =
  CA_info_def NY_info_def TX_info_def FL_info_def IL_info_def PA_info_def OH_info_def
  GA_info_def NC_info_def MI_info_def WA_info_def NV_info_def SD_info_def TN_info_def
  WY_info_def UT_info_def AZ_info_def

lemmas js_string_defs =
  toUpperCase_def toUpperChar_def toLowerCase_def toLowerChar_def upperLetters_def
  lowerLetters_def upperLatin_def lowerLatin_def

lemma table_brackets_taxed:
  "\<forall>(c, info) \<in> set STATE_TAX_DATA. brackets info \<noteq> [] \<longrightarrow> hasIncomeTax info"
  by (simp add: STATE_TAX_DATA_def state_info_defs)

lemma getStateInfo_taxed:
  assumes "getStateInfo code = Some info" "map_of (brackets info) k = Some bs"
  shows "hasIncomeTax info"
proof -
  from assms(1) have "(toUpperCase code, info) \<in> set STATE_TAX_DATA"
    unfolding getStateInfo_def by (rule map_of_SomeD)
  moreover from assms(2) have "brackets info \<noteq> []" by auto
  ultimately show ?thesis using table_brackets_taxed by blast
qed

lemma getStateInfo_CA: "getStateInfo ''CA'' = Some CA_info"
  by (simp add: getStateInfo_def STATE_TAX_DATA_def js_string_defs)

lemma getStateInfo_IL: "getStateInfo ''IL'' = Some IL_info"
  by (simp add: getStateInfo_def STATE_TAX_DATA_def js_string_defs)

lemma getStateInfo_TX: "getStateInfo ''TX'' = Some TX_info"
  by (simp add: getStateInfo_def STATE_TAX_DATA_def js_string_defs)

lemma normalize_SINGLE: "normalizeFilingStatus ''SINGLE'' = ''single''"
  by (simp add: normalizeFilingStatus_def js_string_defs)

lemma roundCents_spec: "roundCents t = spec_doubleCents t"
  by (cases "fmul t (Num 100)") (simp_all add: roundCents_def spec_doubleCents_def mathRound_def infOfSign_def signOf_def)

lemma mathMin2_spec: "I \<noteq> NaN \<Longrightarrow> mathMin2 I (extNum (maxB b)) = spec_cappedIncome I b"
  by (cases I; cases "maxB b") (simp_all add: mathMin2_def extNum_def spec_cappedIncome_def fl_not_NaN)

lemma bracketLoop_spec:
  assumes "I \<noteq> NaN"
    and "sorted_wrt (\<lambda>a b. jsLe (fl (minB a)) (fl (minB b))) bs"
  shows "bracketLoop I bs tax
           = foldl (\<lambda>tax b. fadd tax (spec_bracketTax I b)) tax (filter (\<lambda>b. jsLt (fl (minB b)) I) bs)"
  using assms(2)
proof (induction bs arbitrary: tax)
  case Nil
  then show ?case by simp
next
  case (Cons b bs)
  show ?case
  proof (cases "jsLe I (fl (minB b))")
    case True
    have "\<not> jsLt (fl (minB x)) I" if "x \<in> set (b # bs)" for x
    proof -
      from that Cons.prems have "jsLe (fl (minB b)) (fl (minB x))"
        by (cases "fl (minB b)") (auto simp: fl_not_NaN)
      with True have "jsLe I (fl (minB x))" by (rule jsLe_trans)
      then show ?thesis using assms(1) by (simp add: jsLt_iff_not_jsLe fl_not_NaN)
    qed
    then have "filter (\<lambda>x. jsLt (fl (minB x)) I) (b # bs) = []"
      by (simp only: filter_empty_conv) blast
    with True show ?thesis by simp
  next
    case False
    then have lt: "jsLt (fl (minB b)) I" using assms(1) by (simp add: jsLt_iff_not_jsLe fl_not_NaN)
    from Cons.prems have "sorted_wrt (\<lambda>a b. jsLe (fl (minB a)) (fl (minB b))) bs" by simp
    from Cons.IH[OF this] False lt show ?thesis
      by (simp add: Let_def mathMin2_spec[OF assms(1)] spec_bracketTax_def)
  qed
qed

lemma getStateInfo_NC: "getStateInfo ''NC'' = Some NC_info"
  by (simp add: getStateInfo_def STATE_TAX_DATA_def js_string_defs)

lemma spec_doubleCents_0: "spec_doubleCents (Num 0) = Num 0"
  by code_simp

text \<open>
  Claim C4, as amended. For a double \<open>I \<ge> 0\<close>, any filing status and any state of the table
  whose bracket list for the normalized filing status is ascending in its floors,
  \<open>calculateStateTaxLiability\<close> returns the marginal accumulation in double arithmetic,
  rounded to cents in double arithmetic: starting from 0, for each bracket with
  \<open>min < I\<close> in the order of the table, the product of \<open>min(I, max) - min\<close> and the rate is
  added, every operation rounded to the nearest double; the sum is multiplied by 100,
  rounded to the nearest integer and divided by 100. For the one-bracket flat table
  \<open>{min: 0, max: Infinity, rate: r}\<close> this is the double product of \<open>I\<close> and the double
  \<open>r'\<close> that the literal \<open>r\<close> denotes, rounded to cents in the same way.
\<close>

theorem calculateStateTaxLiability_marginal:
  assumes "jsLe (Num 0) I"
    and "isDouble I"
    and "getStateInfo code = Some info"
    and "map_of (brackets info) (normalizeFilingStatus fs) = Some bs"
    and "sorted_wrt (\<lambda>a b. jsLe (fl (minB a)) (fl (minB b))) bs"
  shows "calculateStateTaxLiability I fs code = Inr (spec_doubleCents (spec_doubleSum I bs))
       \<and> (bs = [\<lparr>minB = 0, maxB = Infinity, rate = r\<rparr>] \<and> fl r = Num r' \<longrightarrow>
            calculateStateTaxLiability I fs code = Inr (spec_doubleCents (fmul I (Num r'))))"
proof -
  have taxed: "hasIncomeTax info" using assms(3,4) by (rule getStateInfo_taxed)
  have nn: "I \<noteq> NaN" using assms(1) by (cases I) simp_all
  have main: "calculateStateTaxLiability I fs code = Inr (spec_doubleCents (spec_doubleSum I bs))"
  proof (cases "bs = []")
    case True
    then show ?thesis using assms(3,4) taxed
      by (simp add: calculateStateTaxLiability_def lookupBrackets_def spec_doubleSum_def
          spec_doubleCents_0)
  next
    case False
    then show ?thesis using assms(3,4) taxed bracketLoop_spec[OF nn assms(5), of "Num 0"]
      by (simp add: calculateStateTaxLiability_def lookupBrackets_def spec_doubleSum_def
          roundCents_spec)
  qed
  have flat: "spec_doubleSum I [\<lparr>minB = 0, maxB = Infinity, rate = r\<rparr>] = fmul I (Num r')"
    if r: "fl r = Num r'"
  proof (cases "jsLt (Num 0) I")
    case True
    have "spec_bracketTax I \<lparr>minB = 0, maxB = Infinity, rate = r\<rparr> = fmul I (Num r')"
      using r assms(2) by (simp add: spec_bracketTax_def spec_cappedIncome_def fl_def fsub_zero_right)
    moreover have "fadd (Num 0) (fmul I (Num r')) = fmul I (Num r')"
      by (rule fadd_zero_left) (rule isDouble_fmul)
    ultimately show ?thesis using True by (simp add: spec_doubleSum_def fl_def)
  next
    case False
    with assms(1) have "I = Num 0" by (cases I) (auto simp: jsLt_def)
    then show ?thesis by (simp add: spec_doubleSum_def fl_def jsLt_def)
  qed
  show ?thesis using main flat by auto
qed

theorem calculateStateTaxLiability_marginal_witness:
  "calculateStateTaxLiability (Num 170) ''SINGLE'' ''NC''
     = Inr (spec_doubleCents (spec_doubleSum (Num 170) [\<lparr>minB = 0, maxB = Infinity, rate = 475 / 10000\<rparr>]))
   \<and> calculateStateTaxLiability (Num 170) ''SINGLE'' ''NC''
     = Inr (spec_doubleCents (fmul (Num 170) (Num (3422735716801577 / 72057594037927936))))
   \<and> spec_doubleCents (fmul (Num 170) (Num (3422735716801577 / 72057594037927936)))
     = Num (1135751531027497 / 140737488355328)
   \<and> fl (807 / 100) = Num (1135751531027497 / 140737488355328)
   \<and> calculateStateTaxLiability (Num 74798) ''SINGLE'' ''CA''
     = Inr (spec_doubleCents (spec_doubleSum (Num 74798) demoBracketsCA))
   \<and> spec_doubleCents (spec_doubleSum (Num 74798) demoBracketsCA)
     = Num (8157056864144589 / 2199023255552)
   \<and> fl (37094 / 10) = Num (8157056864144589 / 2199023255552)"
proof -
  let ?bs = "[\<lparr>minB = 0, maxB = Infinity, rate = 475 / 10000\<rparr>]"
  have h1: "jsLe (Num 0) (Num 170)" by simp
  have h2: "isDouble (Num 170)" by code_simp
  have h4: "map_of (brackets NC_info) (normalizeFilingStatus ''SINGLE'') = Some ?bs"
    by (simp add: normalize_SINGLE NC_info_def)
  have h5: "sorted_wrt (\<lambda>a b. jsLe (fl (minB a)) (fl (minB b))) ?bs" by simp
  have r: "fl (475 / 10000) = Num (3422735716801577 / 72057594037927936)" by code_simp
  have v: "spec_doubleCents (fmul (Num 170) (Num (3422735716801577 / 72057594037927936)))
             = Num (1135751531027497 / 140737488355328)" by code_simp
  have w: "fl (807 / 100) = Num (1135751531027497 / 140737488355328)" by code_simp
  note t = calculateStateTaxLiability_marginal[OF h1 h2 getStateInfo_NC h4 h5,
      of "475 / 10000" "3422735716801577 / 72057594037927936"]
  from t have c1: "calculateStateTaxLiability (Num 170) ''SINGLE'' ''NC''
      = Inr (spec_doubleCents (spec_doubleSum (Num 170) ?bs))" by (rule conjunct1)
  from t r have c2: "calculateStateTaxLiability (Num 170) ''SINGLE'' ''NC''
      = Inr (spec_doubleCents (fmul (Num 170) (Num (3422735716801577 / 72057594037927936))))"
    by blast
  have g1: "jsLe (Num 0) (Num 74798)" by simp
  have g2: "isDouble (Num 74798)" by code_simp
  have g4: "map_of (brackets CA_info) (normalizeFilingStatus ''SINGLE'') = Some demoBracketsCA"
    by (simp add: normalize_SINGLE CA_info_def demoBracketsCA_def)
  have g5: "sorted_wrt (\<lambda>a b. jsLe (fl (minB a)) (fl (minB b))) demoBracketsCA" by code_simp
  from calculateStateTaxLiability_marginal[OF g1 g2 getStateInfo_CA g4 g5]
  have c3: "calculateStateTaxLiability (Num 74798) ''SINGLE'' ''CA''
      = Inr (spec_doubleCents (spec_doubleSum (Num 74798) demoBracketsCA))" by (rule conjunct1)
  have v': "spec_doubleCents (spec_doubleSum (Num 74798) demoBracketsCA)
             = Num (8157056864144589 / 2199023255552)" by code_simp
  have w': "fl (37094 / 10) = Num (8157056864144589 / 2199023255552)" by code_simp
  show ?thesis by (intro conjI c1 c2 v w c3 v' w')
qed

theorem calculateStateTaxLiability_exact_counterexample:
  "map_of (brackets NC_info) (normalizeFilingStatus ''SINGLE'')
     = Some [\<lparr>minB = 0, maxB = Infinity, rate = 475 / 10000\<rparr>]
   \<and> calculateStateTaxLiability (Num 170) ''SINGLE'' ''NC'' = Inr (fl (807 / 100))
   \<and> spec_roundToCents (spec_marginalTax 170 [\<lparr>minB = 0, maxB = Infinity, rate = 475 / 10000\<rparr>])
       = 808 / 100
   \<and> spec_roundToCents (170 * (475 / 10000)) = 808 / 100
   \<and> fl (807 / 100) \<noteq> fl (808 / 100)"
  by code_simp

text \<open>
  Claim C5. For every state of the table with \<open>hasIncomeTax = false\<close> and every input
  (adjusted gross income, filing status, itemized deductions, dependents),
  \<open>calculateStateTax\<close> returns a result whose state tax liability, state effective rate
  and state taxable income are all 0.
\<close>

theorem calculateStateTax_no_income_tax:
  assumes "getStateInfo (in_stateCode data) = Some info"
    and "\<not> hasIncomeTax info"
  shows "\<exists>r. calculateStateTax data = Inr r \<and> stateTaxLiability r = Num 0
             \<and> stateEffectiveRate r = Num 0 \<and> stateTaxableIncome r = Num 0"
  using assms by (simp add: calculateStateTax_def Let_def)

theorem calculateStateTax_no_income_tax_witness:
  "\<exists>r. calculateStateTax \<lparr>in_adjustedGrossIncome = Num 250000, in_filingStatus = ''SINGLE'',
            in_stateCode = ''TX'', in_stateItemizedDeductions = Some (Num 12000),
            in_dependents = Some [\<lparr>qualifiesForCTC = True, qualifiesForEITC = False\<rparr>]\<rparr> = Inr r
       \<and> stateTaxLiability r = Num 0 \<and> stateEffectiveRate r = Num 0 \<and> stateTaxableIncome r = Num 0"
proof -
  have h2: "\<not> hasIncomeTax TX_info" by (simp add: TX_info_def)
  show ?thesis
    by (rule calculateStateTax_no_income_tax[where info = TX_info])
       (simp_all add: getStateInfo_TX h2)
qed

section \<open>Properties of the combined calculation\<close>

lemma calculateEnhancedTaxReturn_no_state:
  "calculateEnhancedTaxReturn D d = Inr r \<Longrightarrow> stateTax r = None \<and> combinedTaxResult r = None"
  by (auto simp: calculateEnhancedTaxReturn_def Let_def TaxCalculationResult.extend_def
      EnhancedTaxCalculationResult.fields_def split: sum.splits)

lemma unsupported_state_throws:
  "getStateInfo c = None \<Longrightarrow>
   stateCalculationAttempt federalResult data (StateCode c) = Inl (Error (''Unsupported state: '' @ c))"
  by (simp add: stateCalculationAttempt_def calculateCombinedTax_def calculateStateTax_def Let_def)

text \<open>
  Claim C6. When a state code is supplied and the state tax calculation throws (as it
  does for an unsupported state code), \<open>calculateEnhancedTaxReturnWithState\<close> does not
  throw: it returns the federal result unchanged except that one suggestion naming the
  failed state is appended to \<open>taxOptimizationSuggestions\<close>; \<open>stateTax\<close> and
  \<open>combinedTaxResult\<close> are not set. (An empty state code counts as no state code: the
  state calculation is then not run at all.)
\<close>

theorem state_failure_falls_back:
  assumes "calculateEnhancedTaxReturn D (federalData data) = Inr federalResult"
    and "td_stateCode data = Some code"
    and "stateCodeProvided code"
    and "stateCalculationAttempt federalResult data code = Inl e"
  shows "\<exists>r. calculateEnhancedTaxReturnWithState D data = Inr r
           \<and> TaxCalculationResult.truncate r = TaxCalculationResult.truncate federalResult
           \<and> deductionComparison r = deductionComparison federalResult
           \<and> taxOptimizationSuggestions r = taxOptimizationSuggestions federalResult @
                [emoji [0xE2, 0x9A, 0xA0, 0xEF, 0xB8, 0x8F] @ '' State tax calculation failed for ''
                   @ showDetected code @ ''. Showing federal taxes only.'']
           \<and> stateTax r = None \<and> combinedTaxResult r = None"
proof -
  note thrown = assms(4)
  have r: "calculateEnhancedTaxReturnWithState D data = Inr (federalOnlyFallback federalResult code)"
    using assms(1-3) thrown by (simp add: calculateEnhancedTaxReturnWithState_def)
  from calculateEnhancedTaxReturn_no_state[OF assms(1)]
  have "stateTax (federalOnlyFallback federalResult code) = None"
       "combinedTaxResult (federalOnlyFallback federalResult code) = None"
    by (simp_all add: federalOnlyFallback_def)
  moreover have "TaxCalculationResult.truncate (federalOnlyFallback federalResult code)
                   = TaxCalculationResult.truncate federalResult"
    by (simp add: federalOnlyFallback_def TaxCalculationResult.truncate_def)
  ultimately show ?thesis using r by (simp add: federalOnlyFallback_def)
qed

theorem state_failure_falls_back_witness:
  "\<exists>r. calculateEnhancedTaxReturnWithState demoDeps (demoTaxData (Some (StateCode ''ZZ''))) = Inr r
       \<and> taxLiability r = Num 6540
       \<and> last (taxOptimizationSuggestions r) =
             emoji [0xE2, 0x9A, 0xA0, 0xEF, 0xB8, 0x8F] @ '' State tax calculation failed for ''
               @ ''ZZ'' @ ''. Showing federal taxes only.''
       \<and> stateTax r = None \<and> combinedTaxResult r = None"
proof -
  let ?data = "demoTaxData (Some (StateCode ''ZZ''))"
  have "case calculateEnhancedTaxReturn demoDeps (federalData ?data) of
          Inl e \<Rightarrow> False | Inr f \<Rightarrow> taxLiability f = Num 6540"
    by code_simp
  then obtain f where f: "calculateEnhancedTaxReturn demoDeps (federalData ?data) = Inr f"
    and tl: "taxLiability f = Num 6540"
    by (cases "calculateEnhancedTaxReturn demoDeps (federalData ?data)") auto
  have h2: "td_stateCode ?data = Some (StateCode ''ZZ'')" by (simp add: demoTaxData_def)
  have h3: "stateCodeProvided (StateCode ''ZZ'')" by (simp add: stateCodeProvided_def)
  have "getStateInfo ''ZZ'' = None"
    by (simp add: getStateInfo_def STATE_TAX_DATA_def js_string_defs)
  then have h4: "stateCalculationAttempt f ?data (StateCode ''ZZ'')
                   = Inl (Error (''Unsupported state: '' @ ''ZZ''))"
    by (rule unsupported_state_throws)
  from state_failure_falls_back[OF f h2 h3 h4] obtain r where
    r: "calculateEnhancedTaxReturnWithState demoDeps ?data = Inr r"
       "TaxCalculationResult.truncate r = TaxCalculationResult.truncate f"
       "taxOptimizationSuggestions r = taxOptimizationSuggestions f @
          [emoji [0xE2, 0x9A, 0xA0, 0xEF, 0xB8, 0x8F] @ '' State tax calculation failed for ''
             @ showDetected (StateCode ''ZZ'') @ ''. Showing federal taxes only.'']"
       "stateTax r = None" "combinedTaxResult r = None"
    by blast
  from r(2) tl have "taxLiability r = Num 6540"
    by (simp add: TaxCalculationResult.truncate_def)
  with r show ?thesis by (simp add: showDetected_def)
qed

section \<open>Properties of state detection\<close>

lemma directLoop_none:
  "(\<forall>(name, src) \<in> set fs. \<forall>s. field data name = JString s \<longrightarrow> \<not> isStateCode (toUpperCase (trim s)))
   \<Longrightarrow> directLoop fs data = unknownResult data"
proof (induction fs)
  case Nil
  then show ?case by simp
next
  case (Cons f fs)
  obtain name src where f: "f = (name, src)" by (cases f)
  from Cons.prems have rest: "directLoop fs data = unknownResult data"
    by (intro Cons.IH) auto
  from Cons.prems f have "\<forall>s. field data name = JString s \<longrightarrow> \<not> isStateCode (toUpperCase (trim s))"
    by auto
  then show ?case using rest f by (simp split: jsval.splits)
qed

lemma addressLoop_none:
  "(\<forall>(name, src) \<in> set fs. \<forall>s. field data name = JString s \<longrightarrow> parseStateFromAddress s = None)
   \<Longrightarrow> addressLoop fs data = unknownResult data"
proof (induction fs)
  case Nil
  then show ?case by simp
next
  case (Cons f fs)
  obtain name src where f: "f = (name, src)" by (cases f)
  from Cons.prems have rest: "addressLoop fs data = unknownResult data"
    by (intro Cons.IH) auto
  from Cons.prems f have "\<forall>s. field data name = JString s \<longrightarrow> parseStateFromAddress s = None"
    by auto
  then show ?case using rest f by (simp split: jsval.splits)
qed

lemma llm_none:
  "\<not> spec_validClassifierAnswer (classify env documentType data)
   \<Longrightarrow> detectStateUsingLLM env documentType data = unknownResult data"
  by (auto simp: detectStateUsingLLM_def llmAttempt_def spec_validClassifierAnswer_def
      split: llm_outcome.splits jsval.splits sum.splits if_splits)

lemma detectState_unknown_when_all_fail:
  assumes "\<forall>(name, src) \<in> set stateFields. \<forall>s. field data name = JString s \<longrightarrow>
             \<not> isStateCode (toUpperCase (trim s))"
    and "\<forall>(name, src) \<in> set addressFields. \<forall>s. field data name = JString s \<longrightarrow>
             parseStateFromAddress s = None"
    and "\<not> spec_validClassifierAnswer (classify env documentType data)"
  shows "detectStateFromDocument env documentType data = unknownResult data"
proof -
  have d: "extractDirectStateField data = unknownResult data"
    unfolding extractDirectStateField_def using assms(1) by (rule directLoop_none)
  have a: "extractStateFromAddresses data = unknownResult data"
    unfolding extractStateFromAddresses_def using assms(2) by (rule addressLoop_none)
  have l: "detectStateUsingLLM env documentType data = unknownResult data"
    using assms(3) by (rule llm_none)
  show ?thesis by (simp add: detectStateFromDocument_def d a l unknownResult_def)
qed

lemma constructor_direct:
  "detectedState (extractDirectStateField demoConstructorAddress) = None"
  by code_simp

lemma constructor_address:
  "extractStateFromAddresses demoConstructorAddress
     = \<lparr>detectedState = Some ObjectConstructor, confidence = fl (85 / 100), source = src_address,
        rawData = demoConstructorAddress, llmReasoning = None\<rparr>"
  by code_simp

lemma constructor_names_no_state:
  "regexMatch1 patternNameAtEnd ''12345 Constructor'' = Some '' Constructor''
   \<and> \<not> isStateCode (toUpperCase (trim '' Constructor''))
   \<and> map_of STATE_NAME_TO_CODE (toLowerCase (trim '' Constructor'')) = None
   \<and> stateNameToCode (toLowerCase (trim '' Constructor'')) = Some ObjectConstructor"
  by code_simp

text \<open>
  Claim C7. When no direct state field holds a valid state code after trimming and
  upper-casing, no address field matches a pattern that resolves to a known state, and the
  classifier call fails or answers without a valid state code, \<open>detectStateFromDocument\<close>
  is to return confidence 0, source unknown and no detected state. The code does not do so
  for an address whose last word is \<open>Constructor\<close>: no state is named, yet the lookup of
  the lower-cased word in \<open>STATE_NAME_TO_CODE\<close> finds the member \<open>constructor\<close> that
  every object inherits, and the address tier returns that function as the detected state,
  with confidence 0.85 and source address, whatever the classifier would answer.
\<close>

theorem detectState_constructor_address:
  "detectStateFromDocument env documentType [(''employeeAddress'', JString ''12345 Constructor'')]
     = \<lparr>detectedState = Some ObjectConstructor, confidence = fl (85 / 100), source = src_address,
        rawData = [(''employeeAddress'', JString ''12345 Constructor'')], llmReasoning = None\<rparr>
   \<and> fl (85 / 100) = Num (7656119366529843 / 9007199254740992)
   \<and> confidence (detectStateFromDocument env documentType
         [(''employeeAddress'', JString ''12345 Constructor'')]) \<noteq> Num 0
   \<and> source (detectStateFromDocument env documentType
         [(''employeeAddress'', JString ''12345 Constructor'')]) \<noteq> src_unknown
   \<and> detectedState (detectStateFromDocument env documentType
         [(''employeeAddress'', JString ''12345 Constructor'')]) \<noteq> None"
proof -
  have c: "fl (85 / 100) = Num (7656119366529843 / 9007199254740992)" by code_simp
  have "detectStateFromDocument env documentType demoConstructorAddress
          = extractStateFromAddresses demoConstructorAddress"
    using constructor_direct by (simp add: detectStateFromDocument_def Let_def constructor_address)
  then have "detectStateFromDocument env documentType demoConstructorAddress
      = \<lparr>detectedState = Some ObjectConstructor, confidence = fl (85 / 100), source = src_address,
          rawData = demoConstructorAddress, llmReasoning = None\<rparr>"
    by (simp add: constructor_address)
  then show ?thesis using c unfolding demoConstructorAddress_def by simp
qed

section \<open>Properties of document deletion\<close>













section \<open>Properties of the status stream\<close>

lemma pollDocument_processing:
  assumes reads: "\<forall>k. \<exists>d. st_reads env k = ReadFinds (Some d) \<and> doc_processingStatus d = PROCESSING"
  shows "pollCount < maxPolls \<Longrightarrow> maxPolls - pollCount \<le> fuel \<Longrightarrow>
         \<exists>ups. pollDocument fuel env k pollCount sent = Some (sent @ ups @ [TimeoutEvent], True)
               \<and> length ups = maxPolls - pollCount \<and> (\<forall>e \<in> set ups. isStatusUpdate e)"
proof (induction fuel arbitrary: k pollCount sent)
  case 0
  then show ?case by simp
next
  case (Suc fuel)
  from reads obtain d where d: "st_reads env k = ReadFinds (Some d)" "doc_processingStatus d = PROCESSING"
    by blast
  let ?u = "StatusUpdate (processingUpdate d pollCount (st_clock env k))"
  show ?case
  proof (cases "pollCount + 1 < maxPolls")
    case True
    with Suc.prems have "maxPolls - (pollCount + 1) \<le> fuel" by simp
    from Suc.IH[OF True this, of "k + 1" "sent @ [?u]"] obtain ups where
      ups: "pollDocument fuel env (k + 1) (pollCount + 1) (sent @ [?u])
              = Some ((sent @ [?u]) @ ups @ [TimeoutEvent], True)"
           "length ups = maxPolls - (pollCount + 1)" "\<forall>e \<in> set ups. isStatusUpdate e"
      by blast
    have "pollDocument (Suc fuel) env k pollCount sent = Some (sent @ (?u # ups) @ [TimeoutEvent], True)"
      using d True ups(1) by (simp add: Let_def)
    moreover have "length (?u # ups) = maxPolls - pollCount" using ups(2) True by simp
    moreover have "\<forall>e \<in> set (?u # ups). isStatusUpdate e" using ups(3) by (simp add: isStatusUpdate_def)
    ultimately show ?thesis by blast
  next
    case False
    with Suc.prems have eq: "maxPolls - pollCount = 1" by simp
    have "pollDocument (Suc fuel) env k pollCount sent = Some (sent @ [?u] @ [TimeoutEvent], True)"
      using d False by (simp add: Let_def)
    moreover have "length [?u] = maxPolls - pollCount" using eq by simp
    moreover have "\<forall>e \<in> set [?u]. isStatusUpdate e" by (simp add: isStatusUpdate_def)
    ultimately show ?thesis by blast
  qed
qed

text \<open>
  Claim C9. When the stream is opened for a document and every poll succeeds and finds the
  document in status PROCESSING, then (given fuel for 300 polls) the stream emits the
  connected event, 300 status updates, and then exactly one timeout event, and closes:
  the timeout event is the last event sent and the only one of its type.
\<close>

theorem status_stream_timeout:
  assumes "st_sessionEmail env = Some email"
    and "findUser db email = Some user"
    and "findOwnedDocument db i (user_id user) = Some document"
    and "\<forall>k. \<exists>d. st_reads env k = ReadFinds (Some d) \<and> doc_processingStatus d = PROCESSING"
    and "maxPolls \<le> fuel"
  shows "\<exists>ups sent. GET_status_stream fuel env i db = Some (StreamOpened sent True)
           \<and> sent = Connected (doc_id document) (doc_processingStatus document) # ups @ [TimeoutEvent]
           \<and> length ups = 300 \<and> (\<forall>e \<in> set ups. isStatusUpdate e)
           \<and> count_list sent TimeoutEvent = 1 \<and> last sent = TimeoutEvent"
proof -
  let ?c = "Connected (doc_id document) (doc_processingStatus document)"
  have "0 < maxPolls" by (simp add: maxPolls_def)
  from pollDocument_processing[OF assms(4) this, of fuel 0 "[?c]"] assms(5)
  obtain ups where ups: "pollDocument fuel env 0 0 [?c] = Some ([?c] @ ups @ [TimeoutEvent], True)"
    "length ups = maxPolls" "\<forall>e \<in> set ups. isStatusUpdate e"
    by auto
  have g: "GET_status_stream fuel env i db = Some (StreamOpened (?c # ups @ [TimeoutEvent]) True)"
    using assms(1-3) ups(1) by (simp add: GET_status_stream_def)
  have "count_list ups TimeoutEvent = 0"
    using ups(3) by (auto simp: count_list_0_iff isStatusUpdate_def)
  then have c: "count_list (?c # ups @ [TimeoutEvent]) TimeoutEvent = 1" by simp
  have l: "last (?c # ups @ [TimeoutEvent]) = TimeoutEvent" by simp
  from g c l ups(2,3) show ?thesis unfolding maxPolls_def by blast
qed

theorem status_stream_timeout_witness:
  "\<exists>ups sent. GET_status_stream 300 demoStreamEnv ''d1'' demoStreamDatabase = Some (StreamOpened sent True)
      \<and> sent = Connected ''d1'' PROCESSING # ups @ [TimeoutEvent]
      \<and> length ups = 300 \<and> list_all isStatusUpdate ups
      \<and> count_list sent TimeoutEvent = 1 \<and> last sent = TimeoutEvent"
proof -
  have h1: "st_sessionEmail demoStreamEnv = Some ''ann@example.org''"
    by (simp add: demoStreamEnv_def)
  have h2: "findUser demoStreamDatabase ''ann@example.org''
              = Some \<lparr>user_id = ''u1'', user_email = ''ann@example.org''\<rparr>"
    by (simp add: findUser_def demoStreamDatabase_def demoDatabase_def)
  have h3: "findOwnedDocument demoStreamDatabase ''d1''
               (user_id \<lparr>user_id = ''u1'', user_email = ''ann@example.org''\<rparr>)
              = Some (demoDocument ''d1'' PROCESSING)"
    by (simp add: findOwnedDocument_def demoStreamDatabase_def demoDatabase_def demoDocument_def
        demoTaxReturn_def)
  have h4: "\<forall>k. \<exists>d. st_reads demoStreamEnv k = ReadFinds (Some d) \<and> doc_processingStatus d = PROCESSING"
    by (simp add: demoStreamEnv_def demoDocument_def)
  have h5: "maxPolls \<le> 300" by (simp add: maxPolls_def)
  from status_stream_timeout[OF h1 h2 h3 h4 h5] show ?thesis
    by (simp add: demoDocument_def list_all_iff)
qed

section \<open>Properties of document processing\<close>

lemma findOwnedDocument_taxReturn:
  assumes "findOwnedDocument db i uid = Some document"
  shows "\<exists>t. findTaxReturn db (doc_taxReturnId document) = Some t"
    and "doc_id document = i" and "document \<in> set (documents db)"
proof -
  from assms have p: "doc_id document = i"
      "list_ex (\<lambda>t. tr_id t = doc_taxReturnId document \<and> tr_userId t = uid) (taxReturns db)"
      "document \<in> set (documents db)"
    unfolding findOwnedDocument_def by (auto simp: find_Some_iff)
  from p(2) have "\<exists>t \<in> set (taxReturns db). tr_id t = doc_taxReturnId document"
    by (auto simp: list_ex_iff)
  then have "find (\<lambda>t. tr_id t = doc_taxReturnId document) (taxReturns db) \<noteq> None"
    by (auto simp: find_None_iff)
  then show "\<exists>t. findTaxReturn db (doc_taxReturnId document) = Some t"
    unfolding findTaxReturn_def by auto
  from p show "doc_id document = i" "document \<in> set (documents db)" by simp_all
qed

text \<open>
  Claim C2. When the caller's document is already COMPLETED, the process endpoint makes
  no call to any external service and writes nothing: the database (the document, its
  income entries, the tax return) is returned as it was, and the answer is built from the
  stored rows alone. Its document fields are those of the stored document, its state
  fields those of the stored tax return, and its amounts are the stored amounts of that
  tax return, each as the double nearest to the stored decimal.
\<close>

theorem POST_completed_unchanged:
  assumes "pe_sessionEmail env = Some email"
    and "findUser db email = Some user"
    and "findOwnedDocument db i (user_id user) = Some document"
    and "doc_processingStatus document = COMPLETED"
  shows "\<exists>taxReturn payload.
           findTaxReturn db (doc_taxReturnId document) = Some taxReturn
         \<and> POST env i db = (AlreadyCompleted200 payload, db, [])
         \<and> cp_documentId payload = doc_id document
         \<and> cp_extractedData payload = doc_extractedData document
         \<and> cp_ocrText payload = doc_ocrText document
         \<and> cp_processingStatus payload = COMPLETED
         \<and> cp_documentType payload = doc_documentType document
         \<and> cp_fileName payload = doc_fileName document
         \<and> cp_detectedState payload = tr_detectedState taxReturn
         \<and> cp_stateConfidence payload = tr_stateConfidence taxReturn
         \<and> cp_stateSource payload = tr_stateSource taxReturn
         \<and> cp_totalIncome payload = fl (tr_totalIncome taxReturn)
         \<and> cp_adjustedGrossIncome payload = fl (tr_adjustedGrossIncome taxReturn)
         \<and> cp_taxableIncome payload = fl (tr_taxableIncome taxReturn)
         \<and> cp_taxLiability payload = fl (tr_taxLiability taxReturn)
         \<and> cp_stateTaxLiability payload = fl (tr_stateTaxLiability taxReturn)
         \<and> cp_refundAmount payload = fl (tr_refundAmount taxReturn)
         \<and> cp_amountOwed payload = fl (tr_amountOwed taxReturn)
         \<and> cp_createdAt payload = doc_createdAt document
         \<and> cp_updatedAt payload = doc_updatedAt document"
proof -
  from findOwnedDocument_taxReturn(1)[OF assms(3)] obtain t where
    t: "findTaxReturn db (doc_taxReturnId document) = Some t" by blast
  have "POST env i db = (AlreadyCompleted200 (completedPayload document t), db, [])"
    using assms t by (simp add: POST_def)
  with t assms(4) show ?thesis
    by (intro exI[of _ t] exI[of _ "completedPayload document t"])
       (simp add: completedPayload_def numberOfDecimal_def)
qed

theorem POST_completed_unchanged_witness:
  "\<exists>payload. POST (demoProcessEnv demoDeps) ''d7'' demoCompletedDatabase
                = (AlreadyCompleted200 payload, demoCompletedDatabase, [])
     \<and> cp_documentId payload = ''d7''
     \<and> cp_extractedData payload = Some [(''wages'', JString ''85,000.00''), (''employeeState'', JString ''CA'')]
     \<and> cp_ocrText payload = Some ''Form W-2 Wage and Tax Statement''
     \<and> cp_processingStatus payload = COMPLETED
     \<and> cp_documentType payload = ''W2''
     \<and> cp_fileName payload = ''w2-2023.pdf''
     \<and> cp_detectedState payload = Some ''CA''
     \<and> cp_stateConfidence payload = Some (Num (4278419646001971 / 4503599627370496))
     \<and> cp_stateSource payload = Some ADDRESS
     \<and> cp_totalIncome payload = Num 85000
     \<and> cp_adjustedGrossIncome payload = Num 85000
     \<and> cp_taxableIncome payload = Num 70400
     \<and> cp_taxLiability payload = Num (5795031009774797 / 549755813888)
     \<and> cp_stateTaxLiability payload = Num (3299139614723277 / 1099511627776)
     \<and> cp_refundAmount payload = Num 0
     \<and> cp_amountOwed payload = Num (3388914739131187 / 2199023255552)
     \<and> cp_createdAt payload = 1000
     \<and> cp_updatedAt payload = 4000"
proof -
  have h1: "pe_sessionEmail (demoProcessEnv demoDeps) = Some ''ann@example.org''"
    by (simp add: demoProcessEnv_def)
  have h2: "findUser demoCompletedDatabase ''ann@example.org''
              = Some \<lparr>user_id = ''u1'', user_email = ''ann@example.org''\<rparr>"
    by (simp add: findUser_def demoCompletedDatabase_def)
  have h3: "findOwnedDocument demoCompletedDatabase ''d7''
               (user_id \<lparr>user_id = ''u1'', user_email = ''ann@example.org''\<rparr>)
              = Some demoCompletedDocument"
    by (simp add: findOwnedDocument_def demoCompletedDatabase_def demoCompletedDocument_def
        demoCompletedTaxReturn_def demoTaxReturn_def)
  have h4: "doc_processingStatus demoCompletedDocument = COMPLETED"
    by (simp add: demoCompletedDocument_def)
  have t: "findTaxReturn demoCompletedDatabase (doc_taxReturnId demoCompletedDocument)
             = Some demoCompletedTaxReturn"
    by (simp add: findTaxReturn_def demoCompletedDatabase_def demoCompletedDocument_def
        demoCompletedTaxReturn_def demoTaxReturn_def)
  have n: "fl 85000 = Num 85000" "fl 70400 = Num 70400" "fl 0 = Num 0"
      "fl (105411 / 10) = Num (5795031009774797 / 549755813888)"
      "fl (300055 / 100) = Num (3299139614723277 / 1099511627776)"
      "fl (15411 / 10) = Num (3388914739131187 / 2199023255552)"
      "fl (95 / 100) = Num (4278419646001971 / 4503599627370496)"
    by code_simp+
  from POST_completed_unchanged[OF h1 h2 h3 h4] t n show ?thesis
    by (auto simp: demoCompletedDocument_def demoCompletedTaxReturn_def demoTaxReturn_def)
qed

text \<open>
  Claim C3. When the caller's document is in status PROCESSING, the process request is
  answered with the conflict response (HTTP 409) and nothing else happens: no external
  call is made, no income entry is created, and the database is returned as it was.
\<close>

theorem POST_processing_conflict:
  assumes "pe_sessionEmail env = Some email"
    and "findUser db email = Some user"
    and "findOwnedDocument db i (user_id user) = Some document"
    and "doc_processingStatus document = PROCESSING"
  shows "POST env i db = (Conflict409, db, []) \<and> responseStatus (fst (POST env i db)) = 409"
proof -
  from findOwnedDocument_taxReturn(1)[OF assms(3)] obtain t where
    t: "findTaxReturn db (doc_taxReturnId document) = Some t" by blast
  have "POST env i db = (Conflict409, db, [])"
    using assms t by (simp add: POST_def)
  then show ?thesis by (simp add: responseStatus_def)
qed

theorem POST_processing_conflict_witness:
  "POST (demoProcessEnv demoDeps) ''d1'' demoStreamDatabase = (Conflict409, demoStreamDatabase, [])
   \<and> responseStatus (fst (POST (demoProcessEnv demoDeps) ''d1'' demoStreamDatabase)) = 409"
proof -
  have h1: "pe_sessionEmail (demoProcessEnv demoDeps) = Some ''ann@example.org''"
    by (simp add: demoProcessEnv_def)
  have h2: "findUser demoStreamDatabase ''ann@example.org''
              = Some \<lparr>user_id = ''u1'', user_email = ''ann@example.org''\<rparr>"
    by (simp add: findUser_def demoStreamDatabase_def demoDatabase_def)
  have h3: "findOwnedDocument demoStreamDatabase ''d1''
               (user_id \<lparr>user_id = ''u1'', user_email = ''ann@example.org''\<rparr>)
              = Some (demoDocument ''d1'' PROCESSING)"
    by (simp add: findOwnedDocument_def demoStreamDatabase_def demoDatabase_def demoDocument_def
        demoTaxReturn_def)
  have h4: "doc_processingStatus (demoDocument ''d1'' PROCESSING) = PROCESSING"
    by (simp add: demoDocument_def)
  show ?thesis by (rule POST_processing_conflict[OF h1 h2 h3 h4])
qed

lemma mappingStage_frame:
  assumes "mappingStage env document ft ed db = (m, f, db')"
  shows "documents db' = documents db \<and> taxReturns db' = taxReturns db"
  using assms
  by (auto simp: mappingStage_def createIncomeEntry_def Let_def
      split: option.splits sum.splits if_splits prod.splits)

lemma updateDocument_frame:
  "taxReturns (updateDocument i f db) = taxReturns db"
  "findTaxReturn (updateDocument i f db) x = findTaxReturn db x"
  by (simp_all add: updateDocument_def findTaxReturn_def)

lemma updateDocument_ids:
  assumes "\<And>d. doc_id (f d) = doc_id d"
  shows "map doc_id (documents (updateDocument i f db)) = map doc_id (documents db)"
  using assms by (simp add: updateDocument_def)

lemma deleteOrphanedEntries_frame:
  "documents (deleteOrphanedEntries x db) = documents db"
  "taxReturns (deleteOrphanedEntries x db) = taxReturns db"
  by (simp_all add: deleteOrphanedEntries_def)

lemma updateTaxReturn_frame:
  "documents (updateTaxReturn i f db) = documents db"
  by (simp add: updateTaxReturn_def)

lemma updateDocument_status:
  assumes "\<And>d. doc_processingStatus (f d) = COMPLETED"
  shows "\<forall>d \<in> set (documents (updateDocument i f db)). doc_id d = i \<longrightarrow> doc_processingStatus d = COMPLETED"
  using assms by (auto simp: updateDocument_def)

lemma persistStage_success:
  assumes "pe_documentUpdateSucceeds env" "pe_taxReturnUpdateSucceeds env"
    and "ocrTextOf ed = Some ocr"
    and "detectedState sdr \<noteq> Some ObjectConstructor"
    and "findTaxReturn db (doc_taxReturnId document) = Some stored"
  shows "\<exists>payload db'. persistStage env document ft ed sdr dup m calc (Some upd) db = (Inr payload, db')
           \<and> pp_taxCalculations payload = calc \<and> pp_processingStatus payload = COMPLETED
           \<and> map doc_id (documents db') = map doc_id (documents db)
           \<and> (\<forall>d \<in> set (documents db'). doc_id d = doc_id document \<longrightarrow> doc_processingStatus d = COMPLETED)"
proof -
  let ?toCompleted = "\<lambda>d. d\<lparr>doc_processingStatus := COMPLETED, doc_ocrText := ocr,
      doc_extractedData := Some ed, doc_documentType := ft, doc_isVerified := False,
      doc_updatedAt := pe_now env\<rparr>"
  let ?db1 = "updateDocument (doc_id document) ?toCompleted db"
  have ids: "map doc_id (documents ?db1) = map doc_id (documents db)"
    by (rule updateDocument_ids) simp
  have status: "\<forall>d \<in> set (documents ?db1). doc_id d = doc_id document \<longrightarrow> doc_processingStatus d = COMPLETED"
    by (rule updateDocument_status) simp
  have tr: "findTaxReturn ?db1 (doc_taxReturnId document) = Some stored"
    using assms(5) by (simp add: updateDocument_frame)
  show ?thesis
  proof (cases "detectedState sdr")
    case None
    then show ?thesis using assms(1-3) tr ids status
      by (simp add: persistStage_def Let_def updateTaxReturn_frame)
  next
    case (Some c)
    with assms(4) obtain code where "c = StateCode code" by (cases c) auto
    with Some show ?thesis using assms(1-3) tr ids status
      by (simp add: persistStage_def Let_def updateTaxReturn_frame)
  qed
qed

lemma pipelineBeforeCalculation_frame:
  assumes "pipelineBeforeCalculation env document db = Inr ps"
  shows "map doc_id (documents (ps_db ps)) = map doc_id (documents db)
       \<and> taxReturns (ps_db ps) = taxReturns db"
proof -
  define db1 where "db1 = updateDocument (doc_id document)
      (\<lambda>d. d\<lparr>doc_processingStatus := PROCESSING, doc_updatedAt := pe_now env\<rparr>) db"
  have ids1: "map doc_id (documents db1) = map doc_id (documents db)"
    unfolding db1_def by (rule updateDocument_ids) simp
  have tr1: "taxReturns db1 = taxReturns db"
    unfolding db1_def by (simp add: updateDocument_frame)
  have az: "pe_azureConfigured env"
  proof (rule ccontr)
    assume "\<not> pe_azureConfigured env"
    then have "\<exists>e. pipelineBeforeCalculation env document db = Inl e"
      by (simp add: pipelineBeforeCalculation_def Let_def)
    with assms show False by auto
  qed
  obtain ed where ex: "pe_extract env (doc_filePath document) (doc_documentType document) = Inr ed"
  proof (cases "pe_extract env (doc_filePath document) (doc_documentType document)")
    case (Inl e)
    with az have "\<exists>e. pipelineBeforeCalculation env document db = Inl e"
      by (simp add: pipelineBeforeCalculation_def Let_def)
    with assms show ?thesis by auto
  next
    case (Inr ed)
    then show ?thesis by (rule that)
  qed
  obtain ft where ct: "correctedTypeOf (field ed ''correctedDocumentType'') (doc_documentType document)
                         = Some ft"
  proof (cases "correctedTypeOf (field ed ''correctedDocumentType'') (doc_documentType document)")
    case None
    with az ex have "\<exists>e. pipelineBeforeCalculation env document db = Inl e"
      by (simp add: pipelineBeforeCalculation_def Let_def)
    with assms show ?thesis by auto
  next
    case (Some ft)
    then show ?thesis by (rule that)
  qed
  define db2 where "db2 = (if truthy (field ed ''correctedDocumentType'')
      then updateDocument (doc_id document) (\<lambda>d. d\<lparr>doc_documentType := ft\<rparr>) db1 else db1)"
  have ids2: "map doc_id (documents db2) = map doc_id (documents db)"
    unfolding db2_def using ids1 by (simp add: updateDocument_ids)
  have tr2: "taxReturns db2 = taxReturns db"
    unfolding db2_def using tr1 by (simp add: updateDocument_frame)
  obtain m f db3 where ms: "mappingStage env document ft ed db2 = (m, f, db3)"
    by (cases "mappingStage env document ft ed db2") auto
  have "ps_db ps = db3"
    using assms az ex ct ms
    unfolding pipelineBeforeCalculation_def db1_def[symmetric] Let_def
    by (auto simp: db2_def[symmetric])
  with mappingStage_frame[OF ms] ids2 tr2 show ?thesis by simp
qed

lemma calculationStage_failure:
  assumes "calculateEnhancedTaxReturnWithState (pe_deps env) (pipelineTaxData t code db) = Inl err"
  shows "calculationStage env t code db = (None, Some id, deleteOrphanedEntries (tr_id t) db)"
  using assms by (simp add: calculationStage_def Let_def)

text \<open>
  Claim C8, as amended. A failure of the tax calculation of step 12, a failure of its federal
  part included, is not fatal: when the calculation throws on the data the pipeline hands
  to it, the \<open>catch\<close> of step 12 lets the pipeline go on, and when the two updates of
  step 13 succeed the document is marked COMPLETED and the answer is the success payload
  with no tax calculation in it; no error is surfaced.
\<close>

theorem calculation_failure_not_fatal:
  assumes "pe_sessionEmail env = Some email"
    and "findUser db email = Some user"
    and "findOwnedDocument db i (user_id user) = Some document"
    and "findTaxReturn db (doc_taxReturnId document) = Some taxReturn"
    and "doc_processingStatus document \<noteq> COMPLETED"
    and "doc_processingStatus document \<noteq> PROCESSING"
    and "pipelineBeforeCalculation env document db = Inr ps"
    and "calculateEnhancedTaxReturnWithState (pe_deps env)
           (pipelineTaxData taxReturn (detectedState (ps_stateDetectionResult ps)) (ps_db ps)) = Inl err"
    and "pe_documentUpdateSucceeds env"
    and "pe_taxReturnUpdateSucceeds env"
    and "ocrTextOf (ps_extractedData ps) = Some ocr"
    and "detectedState (ps_stateDetectionResult ps) \<noteq> Some ObjectConstructor"
  shows "\<exists>payload db' calls. POST env i db = (Processed200 payload, db', calls)
           \<and> pp_taxCalculations payload = None \<and> pp_processingStatus payload = COMPLETED
           \<and> (\<exists>d \<in> set (documents db'). doc_id d = i)
           \<and> (\<forall>d \<in> set (documents db'). doc_id d = i \<longrightarrow> doc_processingStatus d = COMPLETED)"
proof -
  note t = assms(4)
  from findOwnedDocument_taxReturn[OF assms(3)] have
    di: "doc_id document = i" and dm: "document \<in> set (documents db)" by blast+
  define db4 where "db4 = deleteOrphanedEntries (tr_id taxReturn) (ps_db ps)"
  have cs: "calculationStage env taxReturn (detectedState (ps_stateDetectionResult ps)) (ps_db ps)
              = (None, Some id, db4)"
    unfolding db4_def by (rule calculationStage_failure[OF assms(8)])
  note fr = pipelineBeforeCalculation_frame[OF assms(7)]
  have ids4: "map doc_id (documents db4) = map doc_id (documents db)"
    unfolding db4_def using fr by (simp add: deleteOrphanedEntries_frame)
  have tr4: "findTaxReturn db4 (doc_taxReturnId document) = Some taxReturn"
    using t fr unfolding db4_def findTaxReturn_def by (simp add: deleteOrphanedEntries_frame)
  from persistStage_success[OF assms(9,10,11,12) tr4,
      of "ps_finalDocumentType ps" "ps_duplicateCheckResult ps" "ps_form1040Mapping ps" None
         "id \<circ> ps_mappedData ps"]
  obtain payload db5 where
    ps: "persistStage env document (ps_finalDocumentType ps) (ps_extractedData ps)
           (ps_stateDetectionResult ps) (ps_duplicateCheckResult ps) (ps_form1040Mapping ps) None
           (Some (id \<circ> ps_mappedData ps)) db4 = (Inr payload, db5)"
    and p1: "pp_taxCalculations payload = None" "pp_processingStatus payload = COMPLETED"
    and ids5: "map doc_id (documents db5) = map doc_id (documents db4)"
    and c5: "\<forall>d \<in> set (documents db5). doc_id d = doc_id document \<longrightarrow> doc_processingStatus d = COMPLETED"
    by blast
  have pipe: "processPipeline env document taxReturn db = (Inr payload, db5, ps_calls ps)"
    using assms(7) cs ps by (simp add: processPipeline_def)
  have post: "POST env i db = (Processed200 payload, db5, ps_calls ps)"
    using assms(1-6) pipe by (simp add: POST_def)
  from dm di have "i \<in> set (map doc_id (documents db))" by force
  then have "i \<in> set (map doc_id (documents db5))" by (simp add: ids5 ids4)
  then have ex: "\<exists>d \<in> set (documents db5). doc_id d = i" by auto
  from c5 di have c5': "\<forall>d \<in> set (documents db5). doc_id d = i \<longrightarrow> doc_processingStatus d = COMPLETED"
    by simp
  show ?thesis
    by (intro exI[of _ payload] exI[of _ db5] exI[of _ "ps_calls ps"] conjI post p1 ex c5')
qed

lemma demo_pipeline_state:
  "case pipelineBeforeCalculation (demoProcessEnv demoFailingLiabilityDeps) (demoDocument ''d3'' PENDING)
          demoPendingDatabase of
     Inl e \<Rightarrow> False
   | Inr ps \<Rightarrow>
       calculateEnhancedTaxReturnWithState demoFailingLiabilityDeps
         (pipelineTaxData demoTaxReturn (detectedState (ps_stateDetectionResult ps)) (ps_db ps))
         = Inl (Error ''Invalid taxable income'')
       \<and> td_totalIncome (pipelineTaxData demoTaxReturn (detectedState (ps_stateDetectionResult ps)) (ps_db ps))
         = Num 55000
       \<and> ocrTextOf (ps_extractedData ps) = Some None
       \<and> detectedState (ps_stateDetectionResult ps) = None"
  by code_simp

theorem calculation_failure_not_fatal_witness:
  "\<exists>payload db' calls.
      POST (demoProcessEnv demoFailingLiabilityDeps) ''d3'' demoPendingDatabase
        = (Processed200 payload, db', calls)
      \<and> pp_taxCalculations payload = None \<and> pp_processingStatus payload = COMPLETED
      \<and> list_ex (\<lambda>d. doc_id d = ''d3'') (documents db')
      \<and> list_all (\<lambda>d. doc_processingStatus d = COMPLETED)
            (filter (\<lambda>d. doc_id d = ''d3'') (documents db'))"
proof -
  let ?env = "demoProcessEnv demoFailingLiabilityDeps"
  let ?doc = "demoDocument ''d3'' PENDING"
  have h1: "pe_sessionEmail ?env = Some ''ann@example.org''"
    by (simp add: demoProcessEnv_def)
  have h2: "findUser demoPendingDatabase ''ann@example.org''
              = Some \<lparr>user_id = ''u1'', user_email = ''ann@example.org''\<rparr>"
    by (simp add: findUser_def demoPendingDatabase_def demoDatabase_def)
  have h3: "findOwnedDocument demoPendingDatabase ''d3''
               (user_id \<lparr>user_id = ''u1'', user_email = ''ann@example.org''\<rparr>) = Some ?doc"
    by (simp add: findOwnedDocument_def demoPendingDatabase_def demoDatabase_def demoDocument_def
        demoTaxReturn_def)
  have h4: "findTaxReturn demoPendingDatabase (doc_taxReturnId ?doc) = Some demoTaxReturn"
    by (simp add: findTaxReturn_def demoPendingDatabase_def demoDatabase_def demoDocument_def
        demoTaxReturn_def)
  have h5: "doc_processingStatus ?doc \<noteq> COMPLETED" and h6: "doc_processingStatus ?doc \<noteq> PROCESSING"
    by (simp_all add: demoDocument_def)
  from demo_pipeline_state obtain ps where
    h7: "pipelineBeforeCalculation ?env ?doc demoPendingDatabase = Inr ps"
    and h8': "calculateEnhancedTaxReturnWithState demoFailingLiabilityDeps
         (pipelineTaxData demoTaxReturn (detectedState (ps_stateDetectionResult ps)) (ps_db ps))
         = Inl (Error ''Invalid taxable income'')"
    and h11: "ocrTextOf (ps_extractedData ps) = Some None"
    and h12': "detectedState (ps_stateDetectionResult ps) = None"
    by (cases "pipelineBeforeCalculation ?env ?doc demoPendingDatabase") auto
  have h8: "calculateEnhancedTaxReturnWithState (pe_deps ?env)
         (pipelineTaxData demoTaxReturn (detectedState (ps_stateDetectionResult ps)) (ps_db ps))
         = Inl (Error ''Invalid taxable income'')"
    using h8' by (simp add: demoProcessEnv_def)
  have h9: "pe_documentUpdateSucceeds ?env" and h10: "pe_taxReturnUpdateSucceeds ?env"
    by (simp_all add: demoProcessEnv_def)
  have h12: "detectedState (ps_stateDetectionResult ps) \<noteq> Some ObjectConstructor"
    using h12' by simp
  from calculation_failure_not_fatal[OF h1 h2 h3 h4 h5 h6 h7 h8 h9 h10 h11 h12]
  show ?thesis by (auto simp: list_ex_iff list_all_iff)
qed

theorem calculation_failure_counterexample:
  "calculateEnhancedTaxReturnWithState (pe_deps (demoProcessEnv demoFailingDeps))
       (pipelineTaxData demoTaxReturn None demoPendingDatabase) = Inl (Error ''Tax calculation failed'')
   \<and> responseStatus (fst (POST (demoProcessEnv demoFailingDeps) ''d3'' demoPendingDatabase)) = 200
   \<and> responseErrorType (fst (POST (demoProcessEnv demoFailingDeps) ''d3'' demoPendingDatabase)) = None
   \<and> map doc_processingStatus
         (documents (fst (snd (POST (demoProcessEnv demoFailingDeps) ''d3'' demoPendingDatabase))))
       = [COMPLETED]"
  by code_simp

section \<open>Properties of amount parsing\<close>

text \<open>
  Claim C10, as amended. \<open>parseAmount\<close> returns a number for every value and never
  returns \<open>NaN\<close>: a value that is neither null, undefined, a number nor a string gives 0,
  and so do a \<open>NaN\<close> number and a string that \<open>parseFloat\<close> cannot parse after cleaning.
  The result need not be finite.
\<close>

theorem parseAmount_never_NaN:
  "parseAmount v \<noteq> NaN
   \<and> (v \<noteq> JNull \<and> v \<noteq> JUndefined \<and> (\<forall>n. v \<noteq> JNumber n) \<and> (\<forall>s. v \<noteq> JString s)
        \<longrightarrow> parseAmount v = Num 0)
   \<and> parseAmount (JNumber NaN) = Num 0
   \<and> (parseFloat (cleanAmount s) = NaN \<longrightarrow> parseAmount (JString s) = Num 0)"
  by (cases v) (simp_all add: parseAmount_def Let_def)

theorem parseAmount_never_NaN_witness:
  "parseAmount (JBoolean True) \<noteq> NaN \<and> parseAmount (JBoolean True) = Num 0
   \<and> parseFloat (cleanAmount ''$n/a'') = NaN \<and> parseAmount (JString ''$n/a'') = Num 0"
proof -
  have h: "parseFloat (cleanAmount ''$n/a'') = NaN" by code_simp
  from parseAmount_never_NaN[of "JBoolean True" "''$n/a''"] h show ?thesis by simp
qed

theorem parseAmount_infinite_counterexample:
  "parseAmount (JNumber PosInf) = PosInf \<and> parseAmount (JString ''Infinity'') = PosInf"
  by code_simp

end
